theory Spec2Isabelle
  imports Main
begin

section \<open>The edge gateway client of govcloudair (edgegateway.go)\<close>

text \<open>
  A shallow embedding of \<^verbatim>\<open>edgegateway.go\<close>. Every method of the Go type
  \<^verbatim>\<open>EdgeGateway\<close> becomes a function that takes the client and the outside world and
  returns the method's result together with the client and the world as the call leaves them.

  \<^item> A Go pointer that the source compares with \<^verbatim>\<open>nil\<close>, dereferences with
    \<^verbatim>\<open>*\<close>, or assigns an address to is an \<open>option\<close>; reading a field through
    \<open>None\<close> is the run-time panic \<open>NilDereference\<close>.
  \<^item> \<^verbatim>\<open>&&\<close> is evaluated left to right and stops at the first false conjunct, so
    a later dereference happens only when the earlier comparisons held.
  \<^item> An \<^verbatim>\<open>error\<close> value is its message: \<open>Error m\<close>.
  \<^item> Strings are character lists; no arithmetic is done on the two lease times, which
    are kept as \<open>int\<close>.
  \<^item> Logging and the debug print of the outgoing document are not modelled.
\<close>

subsection \<open>Failures\<close>

datatype failure =
    NilDereference
  | TypeAssertion
  | NilMapWrite
  | Error string

subsection \<open>The schema types the client reads and writes\<close>

text \<open>
  Modelled from the spec: the declarations of package \<^verbatim>\<open>types/v56\<close> are not among
  the sources. The records below have the fields that \<^verbatim>\<open>edgegateway.go\<close> reads or
  writes, under the names it uses. Slices of pointers (\<^verbatim>\<open>[]*NatRule\<close> and the like)
  are lists of records: the code never stores a nil element and never writes through an
  element.
\<close>

record reference =
  HREF :: string
  Name :: string

record org_vdc_network =
  HREF :: string
  Name :: string

record gateway_nat_rule =
  Interface :: "reference option"
  OriginalIP :: string
  OriginalPort :: string
  TranslatedIP :: string
  TranslatedPort :: string
  Protocol :: string

record nat_rule =
  Description :: string
  RuleType :: string
  IsEnabled :: bool
  GatewayNatRule :: "gateway_nat_rule option"

record nat_service =
  IsEnabled :: bool
  NatType :: string
  Policy :: string
  ExternalIP :: string
  NatRule :: "nat_rule list"

record firewall_rule_protocols =
  Any :: bool

record firewall_rule =
  Description :: string
  IsEnabled :: bool
  Policy :: string
  Protocols :: "firewall_rule_protocols option"
  DestinationPortRange :: string
  DestinationIP :: string
  SourcePortRange :: string
  SourceIP :: string
  EnableLogging :: bool

record firewall_service =
  IsEnabled :: bool
  DefaultAction :: string
  LogDefaultAction :: bool
  FirewallRule :: "firewall_rule list"

record dhcp_pool_service =
  IsEnabled :: bool
  Network :: "reference option"
  DefaultLeaseTime :: int
  MaxLeaseTime :: int
  LowIPAddress :: string
  HighIPAddress :: string

record gateway_dhcp_service =
  IsEnabled :: bool
  Pool :: "dhcp_pool_service list"

record gateway_interface =
  Network :: "reference option"
  InterfaceType :: string

record gateway_interfaces =
  GatewayInterface :: "gateway_interface list"

text \<open>
  The service configuration document. The VPN section is passed through and never
  inspected; it is kept as its text.
\<close>

record service_configuration =
  Xmlns :: string
  FirewallService :: "firewall_service option"
  NatService :: "nat_service option"
  GatewayDhcpService :: "gateway_dhcp_service option"
  GatewayIpsecVpnService :: "string option"

record gateway_configuration =
  GatewayInterfaces :: gateway_interfaces
  EdgeGatewayServiceConfiguration :: "service_configuration option"

record types_edge_gateway =
  HREF :: string
  Configuration :: gateway_configuration

text \<open>The client struct \<^verbatim>\<open>EdgeGateway\<close>; its field \<^verbatim>\<open>c\<close> is part of the world.\<close>

record edge_gateway =
  EdgeGateway :: "types_edge_gateway option"

text \<open>Zero values, as \<^verbatim>\<open>&types.T{}\<close> and \<^verbatim>\<open>var x T\<close> give them.\<close>

definition zero_Reference :: reference where
  "zero_Reference = \<lparr>reference.HREF = [], reference.Name = []\<rparr>"

definition zero_NatService :: nat_service where
  "zero_NatService =
     \<lparr>nat_service.IsEnabled = False, NatType = [], nat_service.Policy = [],
      ExternalIP = [], NatRule = []\<rparr>"

definition zero_GatewayDhcpService :: gateway_dhcp_service where
  "zero_GatewayDhcpService = \<lparr>gateway_dhcp_service.IsEnabled = False, Pool = []\<rparr>"

definition zero_EdgeGateway :: types_edge_gateway where
  "zero_EdgeGateway =
     \<lparr>types_edge_gateway.HREF = [],
      Configuration =
        \<lparr>GatewayInterfaces = \<lparr>GatewayInterface = []\<rparr>,
         EdgeGatewayServiceConfiguration = None\<rparr>\<rparr>"

subsection \<open>The world: URL parsing, the HTTP transport, the decoder, the clock\<close>

text \<open>
  Modelled from the spec: \<^verbatim>\<open>Client.NewRequest\<close>, \<^verbatim>\<open>checkResp\<close>,
  \<^verbatim>\<open>decodeBody\<close> and \<^verbatim>\<open>NewTask\<close> are not among the sources, and the transport and
  the XML codec are external collaborators. They are parameters of the world:
  \<^item> \<open>ParseRequestURI\<close> is \<^verbatim>\<open>url.ParseRequestURI\<close>; \<open>None\<close> is its nil result, which
    the code dereferences without looking at the error;
  \<^item> \<open>Do n req\<close> is what \<^verbatim>\<open>checkResp(e.c.Http.Do(req))\<close> returns for the request made
    after \<open>n\<close> earlier ones: the message of the error, or the response;
  \<^item> \<open>decodeBody_EdgeGateway resp target\<close> is \<^verbatim>\<open>decodeBody(resp, target)\<close> for a
    gateway: what the target holds afterwards, and the message of the error if any;
  \<^item> \<open>decodeBody_Task resp\<close> is \<^verbatim>\<open>decodeBody(resp, task.Task)\<close> on the fresh task
    of \<^verbatim>\<open>NewTask\<close>.
  The world also records the requests sent, in order, and the seconds of every
  \<^verbatim>\<open>time.Sleep\<close>.
  The body of a request is the document handed to \<^verbatim>\<open>xml.MarshalIndent\<close>, which does not
  fail on these types (\<open>None\<close> is the nil body of a GET).
\<close>

record url =
  Location :: string
  Path :: string

type_synonym response = string

datatype task = Task string

record request =
  Method :: string
  URL :: url
  Body :: "service_configuration option"
  Header :: "(string \<times> string) list"

record world =
  ParseRequestURI :: "string \<Rightarrow> url option"
  Do :: "nat \<Rightarrow> request \<Rightarrow> string + response"
  decodeBody_EdgeGateway ::
    "response \<Rightarrow> types_edge_gateway \<Rightarrow> types_edge_gateway \<times> string option"
  decodeBody_Task :: "response \<Rightarrow> string + task"
  sent :: "request list"
  slept :: "nat list"

definition checkResp_Do :: "request \<Rightarrow> world \<Rightarrow> (string + response) \<times> world" where
  "checkResp_Do req w = (Do w (length (sent w)) req, w\<lparr>sent := sent w @ [req]\<rparr>)"

definition Sleep :: "nat \<Rightarrow> world \<Rightarrow> world" where
  "Sleep seconds w = w\<lparr>slept := slept w @ [seconds]\<rparr>"

definition configureServices_request ::
    "url \<Rightarrow> service_configuration option \<Rightarrow> request" where
  "configureServices_request s b =
     \<lparr>Method = ''POST'',
      URL = s\<lparr>Path := Path s @ ''/action/configureServices''\<rparr>,
      Body = b,
      Header = [(''Content-Type'',
                 ''application/vnd.vmware.admin.edgeGatewayServiceConfiguration+xml'')]\<rparr>"

definition decode_Task :: "response \<Rightarrow> world \<Rightarrow> failure + task" where
  "decode_Task resp w =
     (case decodeBody_Task w resp of
        Inl err \<Rightarrow> Inl (Error (''error decoding Task response: '' @ err))
      | Inr t \<Rightarrow> Inr t)"

text \<open>
  The block that ends \<^verbatim>\<open>RemoveNATPortMapping\<close>, \<^verbatim>\<open>AddNATPortMappingWithUplink\<close>,
  \<^verbatim>\<open>Remove1to1Mapping\<close>, \<^verbatim>\<open>Create1to1Mapping\<close> and \<^verbatim>\<open>AddIpsecVPN\<close>: one POST, and
  any error of it is returned.
\<close>

definition post_once ::
    "service_configuration option \<Rightarrow> string \<Rightarrow> world \<Rightarrow> (failure + task) \<times> world" where
  "post_once b href w =
     (case ParseRequestURI w href of
        None \<Rightarrow> (Inl NilDereference, w)
      | Some s \<Rightarrow>
          (case checkResp_Do (configureServices_request s b) w of
             (Inl err, w') \<Rightarrow>
               (Inl (Error (''error reconfiguring Edge Gateway: '' @ err)), w')
           | (Inr resp, w') \<Rightarrow> (decode_Task resp w', w')))"

text \<open>
  \<^verbatim>\<open>regexp.MatchString("is busy completing an operation.$", err.Error())\<close>: the text
  ends with the words followed by one more character, which \<^verbatim>\<open>.\<close> matches unless it is
  a newline.
\<close>

definition MatchString_busy :: "string \<Rightarrow> bool" where
  "MatchString_busy s =
     (case rev s of
        [] \<Rightarrow> False
      | c # r \<Rightarrow> c \<noteq> CHR 0x0A \<and> take 31 r = rev ''is busy completing an operation'')"

text \<open>
  The \<^verbatim>\<open>for { ... }\<close> loop that ends \<^verbatim>\<open>AddDhcpPool\<close> and \<^verbatim>\<open>CreateFirewallRules\<close>.
  It has no bound: \<open>None\<close> is the loop that never leaves.
\<close>

partial_function (option) post_retry ::
    "service_configuration option \<Rightarrow> string \<Rightarrow> world \<Rightarrow> ((failure + response) \<times> world) option"
where
  "post_retry b href w =
     (case ParseRequestURI w href of
        None \<Rightarrow> Some (Inl NilDereference, w)
      | Some s \<Rightarrow>
          (case checkResp_Do (configureServices_request s b) w of
             (Inl err, w') \<Rightarrow>
               if MatchString_busy err then post_retry b href (Sleep 3 w')
               else Some (Inl (Error (''error reconfiguring Edge Gateway: '' @ err)), w')
           | (Inr resp, w') \<Rightarrow> Some (Inr resp, w')))"

definition post_retry_task ::
    "service_configuration option \<Rightarrow> string \<Rightarrow> world \<Rightarrow> ((failure + task) \<times> world) option"
where
  "post_retry_task b href w =
     (case post_retry b href w of
        None \<Rightarrow> None
      | Some (Inl f, w') \<Rightarrow> Some (Inl f, w')
      | Some (Inr resp, w') \<Rightarrow> Some (decode_Task resp w', w'))"

subsection \<open>Refresh\<close>

definition Refresh :: "edge_gateway \<Rightarrow> world \<Rightarrow> failure option \<times> edge_gateway \<times> world" where
  "Refresh e w =
     (case EdgeGateway e of
        None \<Rightarrow> (Some (Error ''cannot refresh, Object is empty''), e, w)
      | Some g \<Rightarrow>
          (case ParseRequestURI w (types_edge_gateway.HREF g) of
             None \<Rightarrow> (Some NilDereference, e, w)
           | Some u \<Rightarrow>
               (case checkResp_Do \<lparr>Method = ''GET'', URL = u, Body = None, Header = []\<rparr> w of
                  (Inl err, w') \<Rightarrow>
                    (Some (Error (''error retreiving Edge Gateway: '' @ err)), e, w')
                | (Inr resp, w') \<Rightarrow>
                    (case decodeBody_EdgeGateway w' resp zero_EdgeGateway of
                       (g', Some err) \<Rightarrow>
                         (Some (Error (''error decoding Edge Gateway response: '' @ err)),
                          e\<lparr>EdgeGateway := Some g'\<rparr>, w')
                     | (g', None) \<Rightarrow> (None, e\<lparr>EdgeGateway := Some g'\<rparr>, w')))))"

subsection \<open>Choosing the uplink\<close>

text \<open>
  The loop of \<^verbatim>\<open>getFirstUplink\<close>, which \<^verbatim>\<open>RemoveNATPortMapping\<close> repeats word for
  word: every interface of type uplink overwrites the variable.
\<close>

fun getFirstUplink_loop :: "gateway_interface list \<Rightarrow> reference \<Rightarrow> failure + reference" where
  "getFirstUplink_loop [] uplink = Inr uplink"
| "getFirstUplink_loop (gi # gis) uplink =
     (if InterfaceType gi \<noteq> ''uplink'' then getFirstUplink_loop gis uplink
      else (case gateway_interface.Network gi of
              None \<Rightarrow> Inl NilDereference
            | Some n \<Rightarrow> getFirstUplink_loop gis n))"

definition getFirstUplink :: "edge_gateway \<Rightarrow> failure + reference" where
  "getFirstUplink e =
     (case EdgeGateway e of
        None \<Rightarrow> Inl NilDereference
      | Some g \<Rightarrow>
          getFirstUplink_loop (GatewayInterface (GatewayInterfaces (Configuration g)))
            zero_Reference)"

text \<open>The loop of \<^verbatim>\<open>Remove1to1Mapping\<close> and \<^verbatim>\<open>Create1to1Mapping\<close>, which keeps the HREF.\<close>

fun uplinkif_loop :: "gateway_interface list \<Rightarrow> string \<Rightarrow> failure + string" where
  "uplinkif_loop [] uplinkif = Inr uplinkif"
| "uplinkif_loop (gifs # rest) uplinkif =
     (if InterfaceType gifs = ''uplink'' then
        (case gateway_interface.Network gifs of
           None \<Rightarrow> Inl NilDereference
         | Some n \<Rightarrow> uplinkif_loop rest (reference.HREF n))
      else uplinkif_loop rest uplinkif)"

subsection \<open>Rebuilding a rule list\<close>

text \<open>
  The shape shared by the five filtering loops:
  \<^verbatim>\<open>for _, v := range old { if <match> { continue }; new = append(new, v) }\<close>.
  The match may dereference a nil pointer, which ends the loop with a panic.
\<close>

fun keep_loop :: "('a \<Rightarrow> failure + bool) \<Rightarrow> 'a list \<Rightarrow> 'a list \<Rightarrow> failure + 'a list" where
  "keep_loop skip [] new = Inr new"
| "keep_loop skip (v # vs) new =
     (case skip v of
        Inl f \<Rightarrow> Inl f
      | Inr True \<Rightarrow> keep_loop skip vs new
      | Inr False \<Rightarrow> keep_loop skip vs (new @ [v]))"

subsection \<open>NAT port mappings\<close>

text \<open>The condition of the loop in \<^verbatim>\<open>RemoveNATPortMapping\<close> (lines 153 to 156).\<close>

definition RemoveNATPortMapping_match ::
    "string \<Rightarrow> string \<Rightarrow> string \<Rightarrow> reference \<Rightarrow> nat_rule \<Rightarrow> failure + bool" where
  "RemoveNATPortMapping_match nattype externalIP externalPort uplink v =
     (if RuleType v \<noteq> nattype then Inr False
      else (case GatewayNatRule v of
              None \<Rightarrow> Inl NilDereference
            | Some r \<Rightarrow>
                if OriginalIP r = externalIP \<and> OriginalPort r = externalPort then
                  (case Interface r of
                     None \<Rightarrow> Inl NilDereference
                   | Some i \<Rightarrow> Inr (reference.HREF i = reference.HREF uplink))
                else Inr False))"

text \<open>
  \<^verbatim>\<open>newedgeconfig\<close> refers to the configuration the client holds, so the assignment
  \<^verbatim>\<open>newedgeconfig.NatService = newnatservice\<close> changes the client.
\<close>

definition set_held :: "service_configuration \<Rightarrow> types_edge_gateway \<Rightarrow> edge_gateway \<Rightarrow> edge_gateway"
where
  "set_held sc g e =
     e\<lparr>EdgeGateway :=
         Some (g\<lparr>Configuration :=
                  (Configuration g)\<lparr>EdgeGatewayServiceConfiguration := Some sc\<rparr>\<rparr>)\<rparr>"

definition NatService_document :: "nat_service \<Rightarrow> service_configuration" where
  "NatService_document newnatservice =
     \<lparr>Xmlns = ''http://www.vmware.com/vcloud/v1.5'',
      FirewallService = None,
      NatService = Some newnatservice,
      GatewayDhcpService = None,
      GatewayIpsecVpnService = None\<rparr>"

definition RemoveNATPortMapping ::
    "string \<Rightarrow> string \<Rightarrow> string \<Rightarrow> string \<Rightarrow> string \<Rightarrow> edge_gateway \<Rightarrow> world
      \<Rightarrow> (failure + task) \<times> edge_gateway \<times> world" where
  "RemoveNATPortMapping nattype externalIP externalPort internalIP internalPort e w =
     (case getFirstUplink e of
        Inl f \<Rightarrow> (Inl f, e, w)
      | Inr uplink \<Rightarrow>
          (case EdgeGateway e of
             None \<Rightarrow> (Inl NilDereference, e, w)
           | Some g \<Rightarrow>
               (case EdgeGatewayServiceConfiguration (Configuration g) of
                  None \<Rightarrow> (Inl NilDereference, e, w)
                | Some newedgeconfig \<Rightarrow>
                    (case NatService newedgeconfig of
                       None \<Rightarrow> (Inl NilDereference, e, w)
                     | Some old \<Rightarrow>
                         (case keep_loop
                                 (RemoveNATPortMapping_match nattype externalIP externalPort uplink)
                                 (NatRule old) [] of
                            Inl f \<Rightarrow> (Inl f, e, w)
                          | Inr rules \<Rightarrow>
                              (let newnatservice =
                                     \<lparr>nat_service.IsEnabled = nat_service.IsEnabled old,
                                      NatType = NatType old,
                                      nat_service.Policy = nat_service.Policy old,
                                      ExternalIP = ExternalIP old,
                                      NatRule = rules\<rparr>;
                                   e' = set_held (newedgeconfig\<lparr>NatService := Some newnatservice\<rparr>) g e
                               in (case post_once (Some (NatService_document newnatservice))
                                          (types_edge_gateway.HREF g) w of
                                     (r, w') \<Rightarrow> (r, e', w'))))))))"

definition RemoveNATMapping ::
    "string \<Rightarrow> string \<Rightarrow> string \<Rightarrow> string \<Rightarrow> edge_gateway \<Rightarrow> world
      \<Rightarrow> (failure + task) \<times> edge_gateway \<times> world" where
  "RemoveNATMapping nattype externalIP internalIP port e w =
     RemoveNATPortMapping nattype externalIP port internalIP port e w"

text \<open>The condition of the loop in \<^verbatim>\<open>AddNATPortMappingWithUplink\<close> (lines 250 to 255).\<close>

definition AddNATPortMappingWithUplink_match ::
    "string \<Rightarrow> string \<Rightarrow> string \<Rightarrow> string \<Rightarrow> string \<Rightarrow> string \<Rightarrow> nat_rule \<Rightarrow> failure + bool"
where
  "AddNATPortMappingWithUplink_match nattype externalIP externalPort internalIP internalPort
       uplinkRef v =
     (if RuleType v \<noteq> nattype then Inr False
      else (case GatewayNatRule v of
              None \<Rightarrow> Inl NilDereference
            | Some r \<Rightarrow>
                if OriginalIP r = externalIP \<and> OriginalPort r = externalPort \<and>
                   TranslatedIP r = internalIP \<and> TranslatedPort r = internalPort then
                  (case Interface r of
                     None \<Rightarrow> Inl NilDereference
                   | Some i \<Rightarrow> Inr (reference.HREF i = uplinkRef))
                else Inr False))"

text \<open>The rule that \<^verbatim>\<open>AddNATPortMappingWithUplink\<close> appends (lines 264 to 277).\<close>

definition AddNATPortMappingWithUplink_natRule ::
    "string \<Rightarrow> string \<Rightarrow> string \<Rightarrow> string \<Rightarrow> string \<Rightarrow> string \<Rightarrow> nat_rule" where
  "AddNATPortMappingWithUplink_natRule nattype externalIP externalPort internalIP internalPort
       uplinkRef =
     \<lparr>nat_rule.Description = [],
      RuleType = nattype,
      nat_rule.IsEnabled = True,
      GatewayNatRule =
        Some \<lparr>Interface = Some \<lparr>reference.HREF = uplinkRef, reference.Name = []\<rparr>,
              OriginalIP = externalIP,
              OriginalPort = externalPort,
              TranslatedIP = internalIP,
              TranslatedPort = internalPort,
              Protocol = ''tcp''\<rparr>\<rparr>"

text \<open>Lines 225 to 231: the given network, or else the uplink found on the gateway.\<close>

definition AddNATPortMappingWithUplink_uplinkRef ::
    "org_vdc_network option \<Rightarrow> edge_gateway \<Rightarrow> failure + string" where
  "AddNATPortMappingWithUplink_uplinkRef network e =
     (case network of
        Some n \<Rightarrow> Inr (org_vdc_network.HREF n)
      | None \<Rightarrow>
          (case getFirstUplink e of
             Inl f \<Rightarrow> Inl f
           | Inr uplink \<Rightarrow> Inr (reference.HREF uplink)))"

text \<open>Lines 236 to 261: the service before the new rule is appended.\<close>

definition AddNATPortMappingWithUplink_copy ::
    "string \<Rightarrow> string \<Rightarrow> string \<Rightarrow> string \<Rightarrow> string \<Rightarrow> string \<Rightarrow> nat_service option
      \<Rightarrow> failure + nat_service" where
  "AddNATPortMappingWithUplink_copy nattype externalIP externalPort internalIP internalPort
       uplinkRef old_service =
     (case old_service of
        None \<Rightarrow> Inr (zero_NatService\<lparr>nat_service.IsEnabled := True\<rparr>)
      | Some old \<Rightarrow>
          (case keep_loop
                  (AddNATPortMappingWithUplink_match nattype externalIP externalPort
                     internalIP internalPort uplinkRef)
                  (NatRule old) [] of
             Inl f \<Rightarrow> Inl f
           | Inr rules \<Rightarrow>
               Inr \<lparr>nat_service.IsEnabled = nat_service.IsEnabled old,
                    NatType = NatType old,
                    nat_service.Policy = nat_service.Policy old,
                    ExternalIP = ExternalIP old,
                    NatRule = rules\<rparr>))"

definition AddNATPortMappingWithUplink ::
    "org_vdc_network option \<Rightarrow> string \<Rightarrow> string \<Rightarrow> string \<Rightarrow> string \<Rightarrow> string
      \<Rightarrow> edge_gateway \<Rightarrow> world \<Rightarrow> (failure + task) \<times> edge_gateway \<times> world" where
  "AddNATPortMappingWithUplink network nattype externalIP externalPort internalIP internalPort
       e w =
     (case AddNATPortMappingWithUplink_uplinkRef network e of
        Inl f \<Rightarrow> (Inl f, e, w)
      | Inr uplinkRef \<Rightarrow>
          (case EdgeGateway e of
             None \<Rightarrow> (Inl NilDereference, e, w)
           | Some g \<Rightarrow>
               (case EdgeGatewayServiceConfiguration (Configuration g) of
                  None \<Rightarrow> (Inl NilDereference, e, w)
                | Some newedgeconfig \<Rightarrow>
                    (case AddNATPortMappingWithUplink_copy nattype externalIP externalPort
                            internalIP internalPort uplinkRef (NatService newedgeconfig) of
                       Inl f \<Rightarrow> (Inl f, e, w)
                     | Inr copied \<Rightarrow>
                         (let newnatservice =
                                copied\<lparr>NatRule := NatRule copied @
                                  [AddNATPortMappingWithUplink_natRule nattype externalIP
                                     externalPort internalIP internalPort uplinkRef]\<rparr>;
                              e' = set_held (newedgeconfig\<lparr>NatService := Some newnatservice\<rparr>) g e
                          in (case post_once (Some (NatService_document newnatservice))
                                     (types_edge_gateway.HREF g) w of
                                (r, w') \<Rightarrow> (r, e', w')))))))"

definition AddNATPortMapping ::
    "string \<Rightarrow> string \<Rightarrow> string \<Rightarrow> string \<Rightarrow> string \<Rightarrow> edge_gateway \<Rightarrow> world
      \<Rightarrow> (failure + task) \<times> edge_gateway \<times> world" where
  "AddNATPortMapping nattype externalIP externalPort internalIP internalPort e w =
     AddNATPortMappingWithUplink None nattype externalIP externalPort internalIP internalPort e w"

definition AddNATMapping ::
    "string \<Rightarrow> string \<Rightarrow> string \<Rightarrow> string \<Rightarrow> edge_gateway \<Rightarrow> world
      \<Rightarrow> (failure + task) \<times> edge_gateway \<times> world" where
  "AddNATMapping nattype externalIP internalIP port e w =
     AddNATPortMapping nattype externalIP port internalIP port e w"

subsection \<open>DHCP pools\<close>

text \<open>
  The argument \<^verbatim>\<open>dhcppool []interface{}\<close>: each element is any Go value. The code asserts
  that it is a \<^verbatim>\<open>map[string]interface{}\<close> and writes into that same map, so the caller
  sees the writes; the model returns the elements as the call leaves them. \<open>INilMap\<close> is a
  nil map, which can be read but not written.
\<close>

datatype iface =
    INil
  | IInt int
  | IString string
  | IBool bool
  | INilMap
  | IMap "string \<Rightarrow> iface option"

text \<open>\<^verbatim>\<open>data[k] == nil\<close>: the key is absent, or bound to nil.\<close>

definition lacking :: "(string \<Rightarrow> iface option) \<Rightarrow> string \<Rightarrow> bool" where
  "lacking data k = (data k = None \<or> data k = Some INil)"

text \<open>Lines 58 to 64.\<close>

definition AddDhcpPool_defaults :: "(string \<Rightarrow> iface option) \<Rightarrow> (string \<Rightarrow> iface option)" where
  "AddDhcpPool_defaults data =
     (let data1 = (if lacking data ''default_lease_time''
                   then data(''default_lease_time'' \<mapsto> IInt 3600) else data)
      in if lacking data1 ''max_lease_time''
         then data1(''max_lease_time'' \<mapsto> IInt 7200) else data1)"

text \<open>Lines 66 to 76; the fields are evaluated in the order they are written.\<close>

definition AddDhcpPool_dhcprule ::
    "org_vdc_network option \<Rightarrow> (string \<Rightarrow> iface option) \<Rightarrow> failure + dhcp_pool_service" where
  "AddDhcpPool_dhcprule network data =
     (case network of
        None \<Rightarrow> Inl NilDereference
      | Some n \<Rightarrow>
          (case data ''default_lease_time'' of
             Some (IInt d) \<Rightarrow>
               (case data ''max_lease_time'' of
                  Some (IInt m) \<Rightarrow>
                    (case data ''start_address'' of
                       Some (IString lo) \<Rightarrow>
                         (case data ''end_address'' of
                            Some (IString hi) \<Rightarrow>
                              Inr \<lparr>dhcp_pool_service.IsEnabled = True,
                                   dhcp_pool_service.Network =
                                     Some \<lparr>reference.HREF = org_vdc_network.HREF n,
                                           reference.Name = org_vdc_network.Name n\<rparr>,
                                   DefaultLeaseTime = d,
                                   MaxLeaseTime = m,
                                   LowIPAddress = lo,
                                   HighIPAddress = hi\<rparr>
                          | _ \<Rightarrow> Inl TypeAssertion)
                     | _ \<Rightarrow> Inl TypeAssertion)
                | _ \<Rightarrow> Inl TypeAssertion)
           | _ \<Rightarrow> Inl TypeAssertion))"

text \<open>One round of the loop over \<^verbatim>\<open>dhcppool\<close>: the pool built, and the element afterwards.\<close>

definition AddDhcpPool_entry ::
    "org_vdc_network option \<Rightarrow> iface \<Rightarrow> (failure + dhcp_pool_service) \<times> iface" where
  "AddDhcpPool_entry network v =
     (case v of
        IMap data \<Rightarrow>
          (AddDhcpPool_dhcprule network (AddDhcpPool_defaults data),
           IMap (AddDhcpPool_defaults data))
      | INilMap \<Rightarrow> (Inl NilMapWrite, v)
      | _ \<Rightarrow> (Inl TypeAssertion, v))"

fun AddDhcpPool_requested ::
    "org_vdc_network option \<Rightarrow> iface list \<Rightarrow> dhcp_pool_service list
      \<Rightarrow> (failure + dhcp_pool_service list) \<times> iface list" where
  "AddDhcpPool_requested network [] pool = (Inr pool, [])"
| "AddDhcpPool_requested network (v # vs) pool =
     (case AddDhcpPool_entry network v of
        (Inl f, v') \<Rightarrow> (Inl f, v' # vs)
      | (Inr dhcprule, v') \<Rightarrow>
          (case AddDhcpPool_requested network vs (pool @ [dhcprule]) of
             (r, vs') \<Rightarrow> (r, v' # vs')))"

text \<open>The condition of the loop over the existing pools (line 47).\<close>

definition AddDhcpPool_match :: "org_vdc_network option \<Rightarrow> dhcp_pool_service \<Rightarrow> failure + bool"
where
  "AddDhcpPool_match network v =
     (case dhcp_pool_service.Network v of
        None \<Rightarrow> Inl NilDereference
      | Some r \<Rightarrow>
          (case network of
             None \<Rightarrow> Inl NilDereference
           | Some n \<Rightarrow> Inr (reference.HREF r = org_vdc_network.HREF n)))"

text \<open>Lines 37 to 53: the service before the requested pools are appended.\<close>

definition AddDhcpPool_copy ::
    "org_vdc_network option \<Rightarrow> gateway_dhcp_service option \<Rightarrow> failure + gateway_dhcp_service"
where
  "AddDhcpPool_copy network old_service =
     (case old_service of
        None \<Rightarrow> Inr (zero_GatewayDhcpService\<lparr>gateway_dhcp_service.IsEnabled := True\<rparr>)
      | Some old \<Rightarrow>
          (case keep_loop (AddDhcpPool_match network) (Pool old) [] of
             Inl f \<Rightarrow> Inl f
           | Inr pool \<Rightarrow>
               Inr \<lparr>gateway_dhcp_service.IsEnabled = gateway_dhcp_service.IsEnabled old,
                    Pool = pool\<rparr>))"

definition GatewayDhcpService_document :: "gateway_dhcp_service \<Rightarrow> service_configuration" where
  "GatewayDhcpService_document newdchpservice =
     \<lparr>Xmlns = ''http://www.vmware.com/vcloud/v1.5'',
      FirewallService = None,
      NatService = None,
      GatewayDhcpService = Some newdchpservice,
      GatewayIpsecVpnService = None\<rparr>"

text \<open>
  Lines 34 to 78: the service that \<^verbatim>\<open>AddDhcpPool\<close> submits, and \<^verbatim>\<open>dhcppool\<close> as the
  loop leaves it.
\<close>

definition AddDhcpPool_service ::
    "org_vdc_network option \<Rightarrow> iface list \<Rightarrow> edge_gateway
      \<Rightarrow> (failure + gateway_dhcp_service) \<times> iface list" where
  "AddDhcpPool_service network dhcppool e =
     (case EdgeGateway e of
        None \<Rightarrow> (Inl NilDereference, dhcppool)
      | Some g \<Rightarrow>
          (case EdgeGatewayServiceConfiguration (Configuration g) of
             None \<Rightarrow> (Inl NilDereference, dhcppool)
           | Some newedgeconfig \<Rightarrow>
               (case AddDhcpPool_copy network (GatewayDhcpService newedgeconfig) of
                  Inl f \<Rightarrow> (Inl f, dhcppool)
                | Inr copied \<Rightarrow>
                    (case AddDhcpPool_requested network dhcppool (Pool copied) of
                       (Inl f, dhcppool') \<Rightarrow> (Inl f, dhcppool')
                     | (Inr pool, dhcppool') \<Rightarrow> (Inr (copied\<lparr>Pool := pool\<rparr>), dhcppool')))))"

definition held_HREF :: "edge_gateway \<Rightarrow> string" where
  "held_HREF e = (case EdgeGateway e of None \<Rightarrow> [] | Some g \<Rightarrow> types_edge_gateway.HREF g)"

definition AddDhcpPool ::
    "org_vdc_network option \<Rightarrow> iface list \<Rightarrow> edge_gateway \<Rightarrow> world
      \<Rightarrow> ((failure + task) \<times> iface list \<times> edge_gateway \<times> world) option" where
  "AddDhcpPool network dhcppool e w =
     (case AddDhcpPool_service network dhcppool e of
        (Inl f, dhcppool') \<Rightarrow> Some (Inl f, dhcppool', e, w)
      | (Inr newdchpservice, dhcppool') \<Rightarrow>
          (case post_retry_task (Some (GatewayDhcpService_document newdchpservice))
                  (held_HREF e) w of
             None \<Rightarrow> None
           | Some (r, w') \<Rightarrow> Some (r, dhcppool', e, w')))"

subsection \<open>Firewall rules\<close>

text \<open>A failure that is not an error value ends the caller as well.\<close>

fun is_Error :: "failure \<Rightarrow> bool" where
  "is_Error (Error m) = True"
| "is_Error f = False"

text \<open>Lines 326 to 334.\<close>

definition CreateFirewallRules_newRules :: "string \<Rightarrow> firewall_rule list \<Rightarrow> service_configuration"
where
  "CreateFirewallRules_newRules defaultAction rules =
     \<lparr>Xmlns = ''http://www.vmware.com/vcloud/v1.5'',
      FirewallService =
        Some \<lparr>firewall_service.IsEnabled = True,
              DefaultAction = defaultAction,
              LogDefaultAction = True,
              FirewallRule = rules\<rparr>,
      NatService = None,
      GatewayDhcpService = None,
      GatewayIpsecVpnService = None\<rparr>"

definition CreateFirewallRules ::
    "string \<Rightarrow> firewall_rule list \<Rightarrow> edge_gateway \<Rightarrow> world
      \<Rightarrow> ((failure + task) \<times> edge_gateway \<times> world) option" where
  "CreateFirewallRules defaultAction rules e w =
     (case Refresh e w of
        (Some (Error err), e1, w1) \<Rightarrow>
          Some (Inl (Error (''error: '' @ err @ [CHR 0x0A])), e1, w1)
      | (Some f, e1, w1) \<Rightarrow> Some (Inl f, e1, w1)
      | (None, e1, w1) \<Rightarrow>
          (case EdgeGateway e1 of
             None \<Rightarrow> Some (Inl NilDereference, e1, w1)
           | Some g \<Rightarrow>
               (case post_retry_task (Some (CreateFirewallRules_newRules defaultAction rules))
                       (types_edge_gateway.HREF g) w1 of
                  None \<Rightarrow> None
                | Some (r, w2) \<Rightarrow> Some (r, e1, w2))))"

subsection \<open>One-to-one mappings\<close>

text \<open>The rules that \<^verbatim>\<open>Create1to1Mapping\<close> appends (lines 557 to 619).\<close>

definition Create1to1Mapping_snat :: "string \<Rightarrow> string \<Rightarrow> string \<Rightarrow> string \<Rightarrow> nat_rule" where
  "Create1to1Mapping_snat internal external description uplinkif =
     \<lparr>nat_rule.Description = description,
      RuleType = ''SNAT'',
      nat_rule.IsEnabled = True,
      GatewayNatRule =
        Some \<lparr>Interface = Some \<lparr>reference.HREF = uplinkif, reference.Name = []\<rparr>,
              OriginalIP = internal,
              OriginalPort = [],
              TranslatedIP = external,
              TranslatedPort = [],
              Protocol = ''any''\<rparr>\<rparr>"

definition Create1to1Mapping_dnat :: "string \<Rightarrow> string \<Rightarrow> string \<Rightarrow> string \<Rightarrow> nat_rule" where
  "Create1to1Mapping_dnat internal external description uplinkif =
     \<lparr>nat_rule.Description = description,
      RuleType = ''DNAT'',
      nat_rule.IsEnabled = True,
      GatewayNatRule =
        Some \<lparr>Interface = Some \<lparr>reference.HREF = uplinkif, reference.Name = []\<rparr>,
              OriginalIP = external,
              OriginalPort = ''any'',
              TranslatedIP = internal,
              TranslatedPort = ''any'',
              Protocol = ''any''\<rparr>\<rparr>"

definition Create1to1Mapping_fwin :: "string \<Rightarrow> string \<Rightarrow> firewall_rule" where
  "Create1to1Mapping_fwin external description =
     \<lparr>firewall_rule.Description = description,
      firewall_rule.IsEnabled = True,
      firewall_rule.Policy = ''allow'',
      Protocols = Some \<lparr>Any = True\<rparr>,
      DestinationPortRange = ''Any'',
      DestinationIP = external,
      SourcePortRange = ''Any'',
      SourceIP = ''Any'',
      EnableLogging = False\<rparr>"

definition Create1to1Mapping_fwout :: "string \<Rightarrow> string \<Rightarrow> firewall_rule" where
  "Create1to1Mapping_fwout internal description =
     \<lparr>firewall_rule.Description = description,
      firewall_rule.IsEnabled = True,
      firewall_rule.Policy = ''allow'',
      Protocols = Some \<lparr>Any = True\<rparr>,
      DestinationPortRange = ''Any'',
      DestinationIP = ''Any'',
      SourcePortRange = ''Any'',
      SourceIP = internal,
      EnableLogging = False\<rparr>"

text \<open>
  Lines 548 to 621, on the gateway the client holds after the refresh: the gateway as the
  appends leave it. The appends go through the pointers \<^verbatim>\<open>NatService\<close> and
  \<^verbatim>\<open>FirewallService\<close>, so a panic at the second leaves the first done.
\<close>

definition Create1to1Mapping_config ::
    "string \<Rightarrow> string \<Rightarrow> string \<Rightarrow> types_edge_gateway
      \<Rightarrow> (failure + service_configuration) \<times> types_edge_gateway" where
  "Create1to1Mapping_config internal external description g =
     (case uplinkif_loop (GatewayInterface (GatewayInterfaces (Configuration g))) [] of
        Inl f \<Rightarrow> (Inl f, g)
      | Inr uplinkif \<Rightarrow>
          (case EdgeGatewayServiceConfiguration (Configuration g) of
             None \<Rightarrow> (Inl NilDereference, g)
           | Some newedgeconfig \<Rightarrow>
               (case NatService newedgeconfig of
                  None \<Rightarrow> (Inl NilDereference, g)
                | Some ns \<Rightarrow>
                    (let c1 = newedgeconfig\<lparr>NatService := Some (ns\<lparr>NatRule := NatRule ns @
                                [Create1to1Mapping_snat internal external description uplinkif,
                                 Create1to1Mapping_dnat internal external description uplinkif]\<rparr>)\<rparr>
                     in (case FirewallService c1 of
                           None \<Rightarrow>
                             (Inl NilDereference,
                              g\<lparr>Configuration :=
                                  (Configuration g)\<lparr>EdgeGatewayServiceConfiguration := Some c1\<rparr>\<rparr>)
                         | Some fs \<Rightarrow>
                             (let c2 = c1\<lparr>FirewallService := Some (fs\<lparr>FirewallRule :=
                                         FirewallRule fs @
                                         [Create1to1Mapping_fwin external description,
                                          Create1to1Mapping_fwout internal description]\<rparr>)\<rparr>
                              in (Inr c2,
                                  g\<lparr>Configuration :=
                                      (Configuration g)\<lparr>EdgeGatewayServiceConfiguration :=
                                         Some c2\<rparr>\<rparr>)))))))"

text \<open>
  The shape of \<^verbatim>\<open>Remove1to1Mapping\<close>, \<^verbatim>\<open>Create1to1Mapping\<close> and \<^verbatim>\<open>AddIpsecVPN\<close>:
  they refresh, print an error of the refresh and go on, build a document from the held
  gateway and post it once. A panic of the refresh is not an error value and ends the
  method.
\<close>

definition panic_of :: "failure option \<Rightarrow> failure option" where
  "panic_of r = (case r of None \<Rightarrow> None | Some f \<Rightarrow> if is_Error f then None else Some f)"

definition refresh_then_post ::
    "(types_edge_gateway \<Rightarrow> (failure + service_configuration option) \<times> types_edge_gateway)
      \<Rightarrow> edge_gateway \<Rightarrow> world \<Rightarrow> (failure + task) \<times> edge_gateway \<times> world" where
  "refresh_then_post build e w =
     (case Refresh e w of
        (r, e1, w1) \<Rightarrow>
          (case panic_of r of
             Some f \<Rightarrow> (Inl f, e1, w1)
           | None \<Rightarrow>
               (case EdgeGateway e1 of
                  None \<Rightarrow> (Inl NilDereference, e1, w1)
                | Some g \<Rightarrow>
                    (case build g of
                       (Inl f, g') \<Rightarrow> (Inl f, e1\<lparr>EdgeGateway := Some g'\<rparr>, w1)
                     | (Inr doc, g') \<Rightarrow>
                         (case post_once doc (types_edge_gateway.HREF g') w1 of
                            (res, w2) \<Rightarrow> (res, e1\<lparr>EdgeGateway := Some g'\<rparr>, w2))))))"

definition some_document ::
    "(failure + service_configuration) \<times> types_edge_gateway
      \<Rightarrow> (failure + service_configuration option) \<times> types_edge_gateway" where
  "some_document r = (case r of (Inl f, g) \<Rightarrow> (Inl f, g) | (Inr doc, g) \<Rightarrow> (Inr (Some doc), g))"

definition Create1to1Mapping ::
    "string \<Rightarrow> string \<Rightarrow> string \<Rightarrow> edge_gateway \<Rightarrow> world
      \<Rightarrow> (failure + task) \<times> edge_gateway \<times> world" where
  "Create1to1Mapping internal external description e w =
     refresh_then_post
       (\<lambda>g. some_document (Create1to1Mapping_config internal external description g)) e w"

text \<open>The conditions of the two loops of \<^verbatim>\<open>Remove1to1Mapping\<close>.\<close>

definition Remove1to1Mapping_dnat :: "string \<Rightarrow> string \<Rightarrow> string \<Rightarrow> nat_rule \<Rightarrow> failure + bool"
where
  "Remove1to1Mapping_dnat internal external uplinkif v =
     (if RuleType v \<noteq> ''DNAT'' then Inr False
      else (case GatewayNatRule v of
              None \<Rightarrow> Inl NilDereference
            | Some r \<Rightarrow>
                if OriginalIP r = external \<and> TranslatedIP r = internal \<and>
                   OriginalPort r = ''any'' \<and> TranslatedPort r = ''any'' \<and>
                   Protocol r = ''any'' then
                  (case Interface r of
                     None \<Rightarrow> Inl NilDereference
                   | Some i \<Rightarrow> Inr (reference.HREF i = uplinkif))
                else Inr False))"

definition Remove1to1Mapping_snat :: "string \<Rightarrow> string \<Rightarrow> string \<Rightarrow> nat_rule \<Rightarrow> failure + bool"
where
  "Remove1to1Mapping_snat internal external uplinkif v =
     (if RuleType v \<noteq> ''SNAT'' then Inr False
      else (case GatewayNatRule v of
              None \<Rightarrow> Inl NilDereference
            | Some r \<Rightarrow>
                if OriginalIP r = internal \<and> TranslatedIP r = external then
                  (case Interface r of
                     None \<Rightarrow> Inl NilDereference
                   | Some i \<Rightarrow> Inr (reference.HREF i = uplinkif))
                else Inr False))"

definition Remove1to1Mapping_nat :: "string \<Rightarrow> string \<Rightarrow> string \<Rightarrow> nat_rule \<Rightarrow> failure + bool"
where
  "Remove1to1Mapping_nat internal external uplinkif v =
     (case Remove1to1Mapping_dnat internal external uplinkif v of
        Inl f \<Rightarrow> Inl f
      | Inr True \<Rightarrow> Inr True
      | Inr False \<Rightarrow> Remove1to1Mapping_snat internal external uplinkif v)"

definition Remove1to1Mapping_fwin :: "string \<Rightarrow> firewall_rule \<Rightarrow> failure + bool" where
  "Remove1to1Mapping_fwin external v =
     (if firewall_rule.Policy v \<noteq> ''allow'' then Inr False
      else (case Protocols v of
              None \<Rightarrow> Inl NilDereference
            | Some p \<Rightarrow>
                Inr (Any p = True \<and> DestinationPortRange v = ''Any'' \<and>
                     SourcePortRange v = ''Any'' \<and> SourceIP v = ''Any'' \<and>
                     DestinationIP v = external)))"

definition Remove1to1Mapping_fwout :: "string \<Rightarrow> firewall_rule \<Rightarrow> failure + bool" where
  "Remove1to1Mapping_fwout internal v =
     (if firewall_rule.Policy v \<noteq> ''allow'' then Inr False
      else (case Protocols v of
              None \<Rightarrow> Inl NilDereference
            | Some p \<Rightarrow>
                Inr (Any p = True \<and> DestinationPortRange v = ''Any'' \<and>
                     SourcePortRange v = ''Any'' \<and> SourceIP v = internal \<and>
                     DestinationIP v = ''Any'')))"

definition Remove1to1Mapping_fw :: "string \<Rightarrow> string \<Rightarrow> firewall_rule \<Rightarrow> failure + bool" where
  "Remove1to1Mapping_fw internal external v =
     (case Remove1to1Mapping_fwin external v of
        Inl f \<Rightarrow> Inl f
      | Inr True \<Rightarrow> Inr True
      | Inr False \<Rightarrow> Remove1to1Mapping_fwout internal v)"

text \<open>Lines 410 to 502, on the gateway the client holds after the refresh.\<close>

definition Remove1to1Mapping_config ::
    "string \<Rightarrow> string \<Rightarrow> types_edge_gateway
      \<Rightarrow> (failure + service_configuration) \<times> types_edge_gateway" where
  "Remove1to1Mapping_config internal external g =
     (case uplinkif_loop (GatewayInterface (GatewayInterfaces (Configuration g))) [] of
        Inl f \<Rightarrow> (Inl f, g)
      | Inr uplinkif \<Rightarrow>
          (case EdgeGatewayServiceConfiguration (Configuration g) of
             None \<Rightarrow> (Inl NilDereference, g)
           | Some newedgeconfig \<Rightarrow>
               (case NatService newedgeconfig of
                  None \<Rightarrow> (Inl NilDereference, g)
                | Some ns \<Rightarrow>
                    (case keep_loop (Remove1to1Mapping_nat internal external uplinkif)
                            (NatRule ns) [] of
                       Inl f \<Rightarrow> (Inl f, g)
                     | Inr natrules \<Rightarrow>
                         (let newnatservice =
                                \<lparr>nat_service.IsEnabled = nat_service.IsEnabled ns,
                                 NatType = NatType ns,
                                 nat_service.Policy = nat_service.Policy ns,
                                 ExternalIP = ExternalIP ns,
                                 NatRule = natrules\<rparr>;
                              c1 = newedgeconfig\<lparr>NatService := Some newnatservice\<rparr>;
                              g1 = g\<lparr>Configuration :=
                                     (Configuration g)\<lparr>EdgeGatewayServiceConfiguration := Some c1\<rparr>\<rparr>
                          in (case FirewallService c1 of
                                None \<Rightarrow> (Inl NilDereference, g1)
                              | Some fs \<Rightarrow>
                                  (case keep_loop (Remove1to1Mapping_fw internal external)
                                          (FirewallRule fs) [] of
                                     Inl f \<Rightarrow> (Inl f, g1)
                                   | Inr fwrules \<Rightarrow>
                                       (let newfwservice =
                                              \<lparr>firewall_service.IsEnabled =
                                                 firewall_service.IsEnabled fs,
                                               DefaultAction = DefaultAction fs,
                                               LogDefaultAction = LogDefaultAction fs,
                                               FirewallRule = fwrules\<rparr>;
                                            c2 = c1\<lparr>FirewallService := Some newfwservice,
                                                    NatService := Some (newnatservice
                                                      \<lparr>nat_service.IsEnabled := True\<rparr>)\<rparr>
                                        in (Inr c2,
                                            g\<lparr>Configuration :=
                                                (Configuration g)
                                                  \<lparr>EdgeGatewayServiceConfiguration :=
                                                     Some c2\<rparr>\<rparr>)))))))))"

definition Remove1to1Mapping ::
    "string \<Rightarrow> string \<Rightarrow> edge_gateway \<Rightarrow> world \<Rightarrow> (failure + task) \<times> edge_gateway \<times> world"
where
  "Remove1to1Mapping internal external e w =
     refresh_then_post
       (\<lambda>g. some_document (Remove1to1Mapping_config internal external g)) e w"

subsection \<open>VPN\<close>

text \<open>
  \<^verbatim>\<open>AddIpsecVPN\<close> posts the document it is given; a nil pointer is marshalled to
  nothing. The held gateway is not changed after the refresh.
\<close>

definition AddIpsecVPN ::
    "service_configuration option \<Rightarrow> edge_gateway \<Rightarrow> world
      \<Rightarrow> (failure + task) \<times> edge_gateway \<times> world" where
  "AddIpsecVPN ipsecVPNConfig e w = refresh_then_post (\<lambda>g. (Inr ipsecVPNConfig, g)) e w"

subsection \<open>The tuples by which the specification identifies a NAT rule\<close>

text \<open>
  These two follow the words of the specification, not the code: the 6-tuple {rule type,
  original IP, original port, translated IP, translated port, interface reference} and the
  4-tuple {rule type, original IP, original port, interface reference} of a rule. A rule
  without a gateway rule or without an interface has neither.
\<close>

definition six_tuple ::
    "nat_rule \<Rightarrow> (string \<times> string \<times> string \<times> string \<times> string \<times> string) option" where
  "six_tuple v =
     (case GatewayNatRule v of
        None \<Rightarrow> None
      | Some r \<Rightarrow>
          (case Interface r of
             None \<Rightarrow> None
           | Some i \<Rightarrow>
               Some (RuleType v, OriginalIP r, OriginalPort r, TranslatedIP r, TranslatedPort r,
                     reference.HREF i)))"

definition four_tuple :: "nat_rule \<Rightarrow> (string \<times> string \<times> string \<times> string) option" where
  "four_tuple v =
     (case GatewayNatRule v of
        None \<Rightarrow> None
      | Some r \<Rightarrow>
          (case Interface r of
             None \<Rightarrow> None
           | Some i \<Rightarrow> Some (RuleType v, OriginalIP r, OriginalPort r, reference.HREF i)))"


subsection \<open>A gateway to run the operations on\<close>

definition ex_uplink_A :: gateway_interface where
  "ex_uplink_A =
     \<lparr>gateway_interface.Network =
        Some \<lparr>reference.HREF = ''https://vcd/network/A'', reference.Name = ''A''\<rparr>,
      InterfaceType = ''uplink''\<rparr>"

definition ex_internal :: gateway_interface where
  "ex_internal =
     \<lparr>gateway_interface.Network =
        Some \<lparr>reference.HREF = ''https://vcd/network/N'', reference.Name = ''N''\<rparr>,
      InterfaceType = ''internal''\<rparr>"

definition ex_uplink_B :: gateway_interface where
  "ex_uplink_B =
     \<lparr>gateway_interface.Network =
        Some \<lparr>reference.HREF = ''https://vcd/network/B'', reference.Name = ''B''\<rparr>,
      InterfaceType = ''uplink''\<rparr>"

definition ex_nat :: "string \<Rightarrow> string \<Rightarrow> string \<Rightarrow> string \<Rightarrow> string \<Rightarrow> string \<Rightarrow> nat_rule" where
  "ex_nat ruletype oip oport tip tport href =
     \<lparr>nat_rule.Description = ''existing'',
      RuleType = ruletype,
      nat_rule.IsEnabled = True,
      GatewayNatRule =
        Some \<lparr>Interface = Some \<lparr>reference.HREF = href, reference.Name = ''uplink''\<rparr>,
              OriginalIP = oip, OriginalPort = oport,
              TranslatedIP = tip, TranslatedPort = tport,
              Protocol = ''tcp''\<rparr>\<rparr>"

definition ex_rule1 :: nat_rule where
  "ex_rule1 = ex_nat ''DNAT'' ''203.0.113.7'' ''80'' ''10.0.0.7'' ''8080'' ''https://vcd/network/B''"

definition ex_rule2 :: nat_rule where
  "ex_rule2 = ex_nat ''DNAT'' ''203.0.113.7'' ''80'' ''10.0.0.8'' ''8081'' ''https://vcd/network/B''"

definition ex_rule3 :: nat_rule where
  "ex_rule3 = ex_nat ''SNAT'' ''10.0.0.9'' ''any'' ''203.0.113.9'' ''any'' ''https://vcd/network/A''"

definition ex_fw1 :: firewall_rule where
  "ex_fw1 =
     \<lparr>firewall_rule.Description = ''ssh'',
      firewall_rule.IsEnabled = True,
      firewall_rule.Policy = ''allow'',
      Protocols = Some \<lparr>Any = False\<rparr>,
      DestinationPortRange = ''22'',
      DestinationIP = ''203.0.113.7'',
      SourcePortRange = ''Any'',
      SourceIP = ''Any'',
      EnableLogging = True\<rparr>"

definition ex_pool :: "string \<Rightarrow> string \<Rightarrow> dhcp_pool_service" where
  "ex_pool href low =
     \<lparr>dhcp_pool_service.IsEnabled = True,
      dhcp_pool_service.Network = Some \<lparr>reference.HREF = href, reference.Name = ''net''\<rparr>,
      DefaultLeaseTime = 600,
      MaxLeaseTime = 1200,
      LowIPAddress = low,
      HighIPAddress = ''10.0.0.250''\<rparr>"

definition ex_nat_service :: nat_service where
  "ex_nat_service =
     \<lparr>nat_service.IsEnabled = False, NatType = ''ipTranslation'',
      nat_service.Policy = ''allowTraffic'', ExternalIP = ''203.0.113.1'',
      NatRule = [ex_rule1, ex_rule2, ex_rule3]\<rparr>"

definition ex_firewall_service :: firewall_service where
  "ex_firewall_service =
     \<lparr>firewall_service.IsEnabled = True, DefaultAction = ''drop'', LogDefaultAction = False,
      FirewallRule = [ex_fw1]\<rparr>"

definition ex_dhcp_service :: gateway_dhcp_service where
  "ex_dhcp_service =
     \<lparr>gateway_dhcp_service.IsEnabled = False,
      Pool = [ex_pool ''https://vcd/network/N'' ''10.0.0.100'',
              ex_pool ''https://vcd/network/M'' ''10.0.1.100'',
              ex_pool ''https://vcd/network/N'' ''10.0.0.200'']\<rparr>"

definition ex_services :: service_configuration where
  "ex_services =
     \<lparr>Xmlns = ''http://www.vmware.com/vcloud/v1.5'',
      FirewallService = Some ex_firewall_service,
      NatService = Some ex_nat_service,
      GatewayDhcpService = Some ex_dhcp_service,
      GatewayIpsecVpnService = Some ''tunnels''\<rparr>"

definition ex_gateway_of :: "service_configuration \<Rightarrow> types_edge_gateway" where
  "ex_gateway_of sc =
     \<lparr>types_edge_gateway.HREF = ''https://vcd/edgeGateway/1'',
      Configuration =
        \<lparr>GatewayInterfaces = \<lparr>GatewayInterface = [ex_uplink_A, ex_internal, ex_uplink_B]\<rparr>,
         EdgeGatewayServiceConfiguration = Some sc\<rparr>\<rparr>"

definition ex_gateway :: types_edge_gateway where
  "ex_gateway = ex_gateway_of ex_services"

definition ex_client :: edge_gateway where
  "ex_client = \<lparr>EdgeGateway = Some ex_gateway\<rparr>"

text \<open>
  A world: a parser that refuses only the empty text; a decoder for gateways that, like
  Go's XML decoder, appends the interfaces it reads to those the target already has; and
  the transport given.
\<close>

definition ex_ParseRequestURI :: "string \<Rightarrow> url option" where
  "ex_ParseRequestURI s = (if s = [] then None else Some \<lparr>Location = s, Path = []\<rparr>)"

definition ex_decodeBody_EdgeGateway ::
    "response \<Rightarrow> types_edge_gateway \<Rightarrow> types_edge_gateway \<times> string option" where
  "ex_decodeBody_EdgeGateway resp target =
     (if resp = ''gateway'' then
        (\<lparr>types_edge_gateway.HREF = types_edge_gateway.HREF ex_gateway,
          Configuration =
            \<lparr>GatewayInterfaces =
               \<lparr>GatewayInterface =
                  GatewayInterface (GatewayInterfaces (Configuration target)) @
                  GatewayInterface (GatewayInterfaces (Configuration ex_gateway))\<rparr>,
             EdgeGatewayServiceConfiguration = Some ex_services\<rparr>\<rparr>, None)
      else (target, Some ''EOF''))"

definition ex_decodeBody_Task :: "response \<Rightarrow> string + task" where
  "ex_decodeBody_Task resp = (if resp = [] then Inl ''EOF'' else Inr (Task resp))"

definition ex_world :: "(nat \<Rightarrow> request \<Rightarrow> string + response) \<Rightarrow> world" where
  "ex_world transport =
     \<lparr>ParseRequestURI = ex_ParseRequestURI,
      Do = transport,
      decodeBody_EdgeGateway = ex_decodeBody_EdgeGateway,
      decodeBody_Task = ex_decodeBody_Task,
      sent = [],
      slept = []\<rparr>"

definition ex_Do_ok :: "nat \<Rightarrow> request \<Rightarrow> string + response" where
  "ex_Do_ok n req = (if Method req = ''GET'' then Inr ''gateway'' else Inr ''task'')"


subsection \<open>What the specification says of a requested DHCP pool\<close>

text \<open>
  These follow the words of the specification, not the code. A requested entry is a map
  with the keys \<open>default_lease_time\<close>, \<open>max_lease_time\<close>, \<open>start_address\<close> and
  \<open>end_address\<close>. It is well typed when each lease time is an integer or lacking and both
  addresses are strings. The pool requested by an entry has the lease times given, or 3600
  and 7200 where they are lacking. \<open>with_defaults\<close> is the entry after the defaults are
  written into it.
\<close>

definition requested_lease :: "int \<Rightarrow> iface option \<Rightarrow> int" where
  "requested_lease dflt x = (case x of Some (IInt d) \<Rightarrow> d | _ \<Rightarrow> dflt)"

definition requested_address :: "iface option \<Rightarrow> string" where
  "requested_address x = (case x of Some (IString a) \<Rightarrow> a | _ \<Rightarrow> [])"

definition entry_data :: "iface \<Rightarrow> (string \<Rightarrow> iface option)" where
  "entry_data v = (case v of IMap data \<Rightarrow> data | _ \<Rightarrow> (\<lambda>k. None))"

definition requested_pool :: "org_vdc_network \<Rightarrow> iface \<Rightarrow> dhcp_pool_service" where
  "requested_pool n v =
     \<lparr>dhcp_pool_service.IsEnabled = True,
      dhcp_pool_service.Network =
        Some \<lparr>reference.HREF = org_vdc_network.HREF n, reference.Name = org_vdc_network.Name n\<rparr>,
      DefaultLeaseTime = requested_lease 3600 (entry_data v ''default_lease_time''),
      MaxLeaseTime = requested_lease 7200 (entry_data v ''max_lease_time''),
      LowIPAddress = requested_address (entry_data v ''start_address''),
      HighIPAddress = requested_address (entry_data v ''end_address'')\<rparr>"

definition lease_given_or_lacking :: "iface option \<Rightarrow> bool" where
  "lease_given_or_lacking x =
     (case x of None \<Rightarrow> True | Some INil \<Rightarrow> True | Some (IInt d) \<Rightarrow> True | _ \<Rightarrow> False)"

definition address_given :: "iface option \<Rightarrow> bool" where
  "address_given x = (case x of Some (IString a) \<Rightarrow> True | _ \<Rightarrow> False)"

definition well_typed_entry :: "iface \<Rightarrow> bool" where
  "well_typed_entry v =
     (case v of
        IMap data \<Rightarrow>
          lease_given_or_lacking (data ''default_lease_time'') \<and>
          lease_given_or_lacking (data ''max_lease_time'') \<and>
          address_given (data ''start_address'') \<and>
          address_given (data ''end_address'')
      | _ \<Rightarrow> False)"

definition with_defaults :: "(string \<Rightarrow> iface option) \<Rightarrow> (string \<Rightarrow> iface option)" where
  "with_defaults data =
     (\<lambda>k. if k = ''default_lease_time'' \<and> lacking data ''default_lease_time'' then Some (IInt 3600)
          else if k = ''max_lease_time'' \<and> lacking data ''max_lease_time'' then Some (IInt 7200)
          else data k)"

definition written_back :: "iface \<Rightarrow> iface" where
  "written_back v = (case v of IMap data \<Rightarrow> IMap (with_defaults data) | _ \<Rightarrow> v)"

subsection \<open>Requests to run the operations on\<close>

definition ex_network_N :: org_vdc_network where
  "ex_network_N = \<lparr>org_vdc_network.HREF = ''https://vcd/network/N'', org_vdc_network.Name = ''N''\<rparr>"

definition ex_entry1 :: iface where
  "ex_entry1 =
     IMap ((\<lambda>k. None)(''start_address'' \<mapsto> IString ''10.0.0.10'',
                       ''end_address'' \<mapsto> IString ''10.0.0.20''))"

definition ex_entry2 :: iface where
  "ex_entry2 =
     IMap ((\<lambda>k. None)(''default_lease_time'' \<mapsto> IInt 900,
                       ''max_lease_time'' \<mapsto> INil,
                       ''start_address'' \<mapsto> IString ''10.0.0.30'',
                       ''end_address'' \<mapsto> IString ''10.0.0.40''))"

definition ex_Do_refused :: "nat \<Rightarrow> request \<Rightarrow> string + response" where
  "ex_Do_refused n req = Inl ''400 Bad Request''"

subsection \<open>What retrying and not retrying mean\<close>

text \<open>
  These follow the words of the specification. \<open>busy_attempts w req N\<close>: the next \<open>N\<close>
  attempts to send \<open>req\<close> are answered by an error that matches the busy pattern.
  \<open>after_attempts w req N\<close>: the world after \<open>N\<close> such attempts, each followed by a
  sleep of 3 seconds, and one more attempt. \<open>no_retry w r w'\<close>: from \<open>w\<close> to \<open>w'\<close>
  nothing slept and at most one request was sent, and if that request was answered by an
  error, whatever its message, the result \<open>r\<close> is that error.
\<close>

definition no_retry :: "world \<Rightarrow> failure + task \<Rightarrow> world \<Rightarrow> bool" where
  "no_retry w r w' =
     (slept w' = slept w \<and>
      (sent w' = sent w \<or>
       (\<exists>req. sent w' = sent w @ [req] \<and>
          (\<forall>m. Do w (length (sent w)) req = Inl m \<longrightarrow>
             r = Inl (Error (''error reconfiguring Edge Gateway: '' @ m))))))"

definition busy_attempts :: "world \<Rightarrow> request \<Rightarrow> nat \<Rightarrow> bool" where
  "busy_attempts w req N =
     (\<forall>i<N. case Do w (length (sent w) + i) req of
               Inl m \<Rightarrow> MatchString_busy m
             | Inr resp \<Rightarrow> False)"

definition after_attempts :: "world \<Rightarrow> request \<Rightarrow> nat \<Rightarrow> world" where
  "after_attempts w req N =
     w\<lparr>sent := sent w @ replicate (Suc N) req, slept := slept w @ replicate N 3\<rparr>"

subsection \<open>Transports to run the operations on\<close>

definition ex_Do_busy :: "nat \<Rightarrow> nat \<Rightarrow> request \<Rightarrow> string + response" where
  "ex_Do_busy k n req =
     (if Method req = ''GET'' then Inr ''gateway''
      else if n < k then Inl ''Edge gateway gw1 (urn:7) is busy completing an operation.''
      else Inr ''task'')"

subsection \<open>A world for a round trip\<close>

text \<open>
  The first GET is answered with the example gateway, every later GET with that gateway
  as \<^verbatim>\<open>Create1to1Mapping\<close> submits it. \<open>rule_lists\<close> reads the two rule lists of a
  document.
\<close>

definition ex_gateway_mapped :: types_edge_gateway where
  "ex_gateway_mapped =
     snd (Create1to1Mapping_config ''10.0.0.5'' ''203.0.113.5'' ''web'' ex_gateway)"

definition ex_decodeBody_roundtrip ::
    "response \<Rightarrow> types_edge_gateway \<Rightarrow> types_edge_gateway \<times> string option" where
  "ex_decodeBody_roundtrip resp target =
     (if resp = ''gateway'' then (ex_gateway, None)
      else if resp = ''gateway with mapping'' then (ex_gateway_mapped, None)
      else (target, Some ''EOF''))"

definition ex_Do_roundtrip :: "nat \<Rightarrow> request \<Rightarrow> string + response" where
  "ex_Do_roundtrip n req =
     (if Method req = ''GET'' then (if n = 0 then Inr ''gateway'' else Inr ''gateway with mapping'')
      else Inr ''task'')"

definition ex_world_roundtrip :: world where
  "ex_world_roundtrip =
     (ex_world ex_Do_roundtrip)\<lparr>decodeBody_EdgeGateway := ex_decodeBody_roundtrip\<rparr>"

definition ex_fresh_client :: edge_gateway where
  "ex_fresh_client =
     \<lparr>EdgeGateway =
        Some (zero_EdgeGateway\<lparr>types_edge_gateway.HREF := ''https://vcd/edgeGateway/1''\<rparr>)\<rparr>"

definition rule_lists ::
    "service_configuration \<Rightarrow> nat_rule list option \<times> firewall_rule list option" where
  "rule_lists d = (map_option NatRule (NatService d), map_option FirewallRule (FirewallService d))"

subsection \<open>What an operation has sent\<close>

text \<open>
  The requests a world has seen, each as its method and the NAT rule list of the document
  in its body (none for a request without a body or a document without a NAT service).
\<close>

definition posted_nat_rules :: "world \<Rightarrow> (string \<times> nat_rule list option) list" where
  "posted_nat_rules w =
     map (\<lambda>req. (Method req,
                  (case Body req of None \<Rightarrow> None | Some d \<Rightarrow> map_option NatRule (NatService d))))
       (sent w)"

section \<open>Properties\<close>

subsection \<open>Helper lemmas\<close>


lemma keep_loop_filter:
  "(\<And>v. v \<in> set vs \<Longrightarrow> skip v = Inr (p v)) \<Longrightarrow>
     keep_loop skip vs new = Inr (new @ filter (\<lambda>v. \<not> p v) vs)"
  by (induction vs arbitrary: new) auto

lemma getFirstUplink_loop_last:
  "(\<And>gi. gi \<in> set gis \<Longrightarrow> InterfaceType gi = ''uplink'' \<Longrightarrow> gateway_interface.Network gi \<noteq> None) \<Longrightarrow>
   getFirstUplink_loop gis u =
     Inr (case filter (\<lambda>gi. InterfaceType gi = ''uplink'') gis of
            [] \<Rightarrow> u
          | x # xs \<Rightarrow> the (gateway_interface.Network (last (x # xs))))"
proof (induction gis arbitrary: u)
  case Nil
  then show ?case by simp
next
  case (Cons gi gis)
  show ?case
  proof (cases "InterfaceType gi = ''uplink''")
    case False
    then show ?thesis using Cons by simp
  next
    case True
    then obtain n where n: "gateway_interface.Network gi = Some n"
      using Cons.prems[of gi] by auto
    have "getFirstUplink_loop gis n =
        Inr (case filter (\<lambda>gi. InterfaceType gi = ''uplink'') gis of
            [] \<Rightarrow> n
          | x # xs \<Rightarrow> the (gateway_interface.Network (last (x # xs))))"
      using Cons.IH[of n] Cons.prems by simp
    then show ?thesis using True n by (simp split: list.splits)
  qed
qed

lemma uplinkif_loop_last:
  "(\<And>gi. gi \<in> set gis \<Longrightarrow> InterfaceType gi = ''uplink'' \<Longrightarrow> gateway_interface.Network gi \<noteq> None) \<Longrightarrow>
   uplinkif_loop gis u =
     Inr (case filter (\<lambda>gi. InterfaceType gi = ''uplink'') gis of
            [] \<Rightarrow> u
          | x # xs \<Rightarrow> reference.HREF (the (gateway_interface.Network (last (x # xs)))))"
proof (induction gis arbitrary: u)
  case Nil
  then show ?case by simp
next
  case (Cons gi gis)
  show ?case
  proof (cases "InterfaceType gi = ''uplink''")
    case False
    then show ?thesis using Cons by simp
  next
    case True
    then obtain n where n: "gateway_interface.Network gi = Some n"
      using Cons.prems[of gi] by auto
    have "uplinkif_loop gis (reference.HREF n) =
        Inr (case filter (\<lambda>gi. InterfaceType gi = ''uplink'') gis of
            [] \<Rightarrow> reference.HREF n
          | x # xs \<Rightarrow> reference.HREF (the (gateway_interface.Network (last (x # xs)))))"
      using Cons.IH[of "reference.HREF n"] Cons.prems by simp
    then show ?thesis using True n by (simp split: list.splits)
  qed
qed

lemma add_match_six_tuple:
  "six_tuple v \<noteq> None \<Longrightarrow>
   AddNATPortMappingWithUplink_match nattype externalIP externalPort internalIP internalPort
       uplinkRef v =
     Inr (six_tuple v =
            Some (nattype, externalIP, externalPort, internalIP, internalPort, uplinkRef))"
  by (auto simp: six_tuple_def AddNATPortMappingWithUplink_match_def split: option.splits)

lemma remove_match_four_tuple:
  "four_tuple v \<noteq> None \<Longrightarrow>
   RemoveNATPortMapping_match nattype externalIP externalPort uplink v =
     Inr (four_tuple v = Some (nattype, externalIP, externalPort, reference.HREF uplink))"
  by (auto simp: four_tuple_def RemoveNATPortMapping_match_def split: option.splits)

lemma add_copy_filter:
  assumes "\<forall>v \<in> set (NatRule old). six_tuple v \<noteq> None"
  shows "AddNATPortMappingWithUplink_copy nattype externalIP externalPort internalIP internalPort
           uplinkRef (Some old) =
         Inr (old\<lparr>NatRule := filter (\<lambda>v. six_tuple v \<noteq>
                Some (nattype, externalIP, externalPort, internalIP, internalPort, uplinkRef))
                (NatRule old)\<rparr>)"
proof -
  have "keep_loop (AddNATPortMappingWithUplink_match nattype externalIP externalPort
                     internalIP internalPort uplinkRef) (NatRule old) [] =
        Inr ([] @ filter (\<lambda>v. \<not> (six_tuple v =
                Some (nattype, externalIP, externalPort, internalIP, internalPort, uplinkRef)))
                (NatRule old))"
    by (rule keep_loop_filter) (use assms add_match_six_tuple in blast)
  then show ?thesis by (simp add: AddNATPortMappingWithUplink_copy_def)
qed

lemma length_filter_split:
  "length (filter (\<lambda>v. \<not> P v) xs) + length (filter P xs) = length xs"
  using sum_length_filter_compl[of P xs] by simp

lemma nat_service_rebuild:
  "\<lparr>nat_service.IsEnabled = nat_service.IsEnabled old, NatType = NatType old,
     nat_service.Policy = nat_service.Policy old, ExternalIP = ExternalIP old,
     NatRule = rs\<rparr> = old\<lparr>NatRule := rs\<rparr>"
  by (cases old) simp

lemma remove_loop_filter:
  assumes "\<forall>v \<in> set rules. four_tuple v \<noteq> None"
  shows "keep_loop (RemoveNATPortMapping_match nattype externalIP externalPort uplink) rules [] =
         Inr (filter (\<lambda>v. four_tuple v \<noteq>
                Some (nattype, externalIP, externalPort, reference.HREF uplink)) rules)"
proof -
  have "keep_loop (RemoveNATPortMapping_match nattype externalIP externalPort uplink) rules [] =
        Inr ([] @ filter (\<lambda>v. \<not> (four_tuple v =
                Some (nattype, externalIP, externalPort, reference.HREF uplink))) rules)"
    by (rule keep_loop_filter) (use assms remove_match_four_tuple in blast)
  then show ?thesis by simp
qed

lemma getFirstUplink_loop_failure:
  "getFirstUplink_loop gis u = Inl f \<Longrightarrow> f = NilDereference"
  by (induction gis arbitrary: u) (auto split: if_splits option.splits)

lemma getFirstUplink_failure: "getFirstUplink e = Inl f \<Longrightarrow> f = NilDereference"
  by (auto simp: getFirstUplink_def split: option.splits dest: getFirstUplink_loop_failure)

lemma ex_uplinks:
  "filter (\<lambda>gi. InterfaceType gi = ''uplink'') [ex_uplink_A, ex_internal, ex_uplink_B] =
     [ex_uplink_A, ex_uplink_B]"
  by (simp add: ex_uplink_A_def ex_internal_def ex_uplink_B_def)

lemma ex_getFirstUplink:
  "getFirstUplink \<lparr>EdgeGateway = Some (ex_gateway_of sc)\<rparr> =
     Inr \<lparr>reference.HREF = ''https://vcd/network/B'', reference.Name = ''B''\<rparr>"
  by (simp add: getFirstUplink_def ex_gateway_of_def ex_uplink_A_def ex_internal_def
        ex_uplink_B_def)

lemma ex_HREF: "types_edge_gateway.HREF (ex_gateway_of sc) = ''https://vcd/edgeGateway/1''"
  by (simp add: ex_gateway_of_def)

lemma ex_post_once_ok:
  "post_once b ''https://vcd/edgeGateway/1'' (ex_world ex_Do_ok) =
     (Inr (Task ''task''),
      (ex_world ex_Do_ok)\<lparr>sent :=
         [configureServices_request
            \<lparr>Location = ''https://vcd/edgeGateway/1'', Path = []\<rparr> b]\<rparr>)"
  by (simp add: post_once_def ex_world_def ex_ParseRequestURI_def checkResp_Do_def
        ex_Do_ok_def configureServices_request_def decode_Task_def ex_decodeBody_Task_def)

subsection \<open>Adding a NAT port mapping\<close>

text \<open>
  Claim C1. \<^verbatim>\<open>AddNATPortMappingWithUplink\<close> submits the NAT service whose rule list is,
  in their order, the existing rules whose 6-tuple differs from that of the new rule,
  followed by one new rule, which is enabled, has the new 6-tuple and the protocol "tcp".
  If no existing rule has the new 6-tuple the list is the old one with the new rule
  appended (one longer); if exactly one has it, the length is unchanged. The existing
  rules are those of the held NAT service (none when there is no service), each with a
  gateway rule and an interface, and the uplink is the given network or the one the
  gateway selects.
\<close>

theorem AddNATPortMappingWithUplink_rule_list:
  assumes held: "EdgeGateway e = Some g"
    and cfg: "EdgeGatewayServiceConfiguration (Configuration g) = Some sc"
    and ref: "AddNATPortMappingWithUplink_uplinkRef network e = Inr uplinkRef"
    and existing: "existing = (case NatService sc of None \<Rightarrow> [] | Some old \<Rightarrow> NatRule old)"
    and wf: "\<forall>v \<in> set existing. six_tuple v \<noteq> None"
    and new: "new = (nattype, externalIP, externalPort, internalIP, internalPort, uplinkRef)"
    and natRule: "natRule = AddNATPortMappingWithUplink_natRule nattype externalIP externalPort
                    internalIP internalPort uplinkRef"
    and svc: "svc = (case NatService sc of
                       None \<Rightarrow> zero_NatService\<lparr>nat_service.IsEnabled := True\<rparr>
                     | Some old \<Rightarrow> old)
                    \<lparr>NatRule := filter (\<lambda>v. six_tuple v \<noteq> Some new) existing @ [natRule]\<rparr>"
  shows "AddNATPortMappingWithUplink network nattype externalIP externalPort internalIP
             internalPort e w =
           (case post_once (Some (NatService_document svc)) (types_edge_gateway.HREF g) w of
              (r, w') \<Rightarrow> (r, set_held (sc\<lparr>NatService := Some svc\<rparr>) g e, w')) \<and>
         NatRule svc = filter (\<lambda>v. six_tuple v \<noteq> Some new) existing @ [natRule] \<and>
         six_tuple natRule = Some new \<and>
         nat_rule.IsEnabled natRule \<and>
         map_option Protocol (GatewayNatRule natRule) = Some ''tcp'' \<and>
         (filter (\<lambda>v. six_tuple v = Some new) existing = [] \<longrightarrow>
            NatRule svc = existing @ [natRule] \<and> length (NatRule svc) = length existing + 1) \<and>
         (length (filter (\<lambda>v. six_tuple v = Some new) existing) = 1 \<longrightarrow>
            length (NatRule svc) = length existing)"
proof -
  let ?kept = "filter (\<lambda>v. six_tuple v \<noteq> Some new) existing"
  have rules: "NatRule svc = ?kept @ [natRule]"
    by (simp add: svc)
  have copy: "AddNATPortMappingWithUplink_copy nattype externalIP externalPort internalIP
                internalPort uplinkRef (NatService sc) =
              Inr ((case NatService sc of
                       None \<Rightarrow> zero_NatService\<lparr>nat_service.IsEnabled := True\<rparr>
                     | Some old \<Rightarrow> old)\<lparr>NatRule := ?kept\<rparr>)"
  proof (cases "NatService sc")
    case None
    then show ?thesis
      by (simp add: AddNATPortMappingWithUplink_copy_def existing zero_NatService_def)
  next
    case (Some old)
    then show ?thesis using add_copy_filter[of old] wf existing new by simp
  qed
  have op: "AddNATPortMappingWithUplink network nattype externalIP externalPort internalIP
             internalPort e w =
           (case post_once (Some (NatService_document svc)) (types_edge_gateway.HREF g) w of
              (r, w') \<Rightarrow> (r, set_held (sc\<lparr>NatService := Some svc\<rparr>) g e, w'))"
    by (simp add: AddNATPortMappingWithUplink_def held cfg ref copy svc natRule Let_def)
  have six: "six_tuple natRule = Some new"
    by (simp add: natRule new six_tuple_def AddNATPortMappingWithUplink_natRule_def)
  have en: "nat_rule.IsEnabled natRule"
    and tcp: "map_option Protocol (GatewayNatRule natRule) = Some ''tcp''"
    by (simp_all add: natRule AddNATPortMappingWithUplink_natRule_def)
  have len: "length ?kept + length (filter (\<lambda>v. six_tuple v = Some new) existing) =
             length existing"
    using length_filter_split[of "\<lambda>v. six_tuple v = Some new" existing] by simp
  have none: "filter (\<lambda>v. six_tuple v = Some new) existing = [] \<Longrightarrow> ?kept = existing"
    by (simp add: filter_empty_conv)
  show ?thesis using op rules six en tcp len none by auto
qed

theorem AddNATPortMappingWithUplink_rule_list_witness:
  "list_all (\<lambda>v. six_tuple v \<noteq> None) (NatRule ex_nat_service) \<and>
   NatRule ex_nat_service = [ex_rule1, ex_rule2, ex_rule3] \<and>
   length (filter (\<lambda>v. six_tuple v =
      Some (''DNAT'', ''203.0.113.7'', ''80'', ''10.0.0.7'', ''8080'', ''https://vcd/network/B''))
      (NatRule ex_nat_service)) = 1 \<and>
   fst (AddNATPortMappingWithUplink None ''DNAT'' ''203.0.113.7'' ''80'' ''10.0.0.7'' ''8080''
          ex_client (ex_world ex_Do_ok)) = Inr (Task ''task'') \<and>
   map (\<lambda>req. map_option (map_option NatRule \<circ> NatService) (Body req))
     (sent (snd (snd (AddNATPortMappingWithUplink None ''DNAT'' ''203.0.113.7'' ''80''
          ''10.0.0.7'' ''8080'' ex_client (ex_world ex_Do_ok))))) =
     [Some (Some [ex_rule2, ex_rule3,
        AddNATPortMappingWithUplink_natRule ''DNAT'' ''203.0.113.7'' ''80'' ''10.0.0.7'' ''8080''
          ''https://vcd/network/B''])]"
proof -
  let ?new = "(''DNAT'', ''203.0.113.7'', ''80'', ''10.0.0.7'', ''8080'', ''https://vcd/network/B'')"
  have held: "EdgeGateway ex_client = Some ex_gateway"
    by (simp add: ex_client_def)
  have cfg: "EdgeGatewayServiceConfiguration (Configuration ex_gateway) = Some ex_services"
    by (simp add: ex_gateway_def ex_gateway_of_def)
  have ref: "AddNATPortMappingWithUplink_uplinkRef None ex_client = Inr ''https://vcd/network/B''"
    using ex_getFirstUplink[of ex_services]
    by (simp add: AddNATPortMappingWithUplink_uplinkRef_def ex_client_def ex_gateway_def)
  have existing: "NatRule ex_nat_service =
      (case NatService ex_services of None \<Rightarrow> [] | Some old \<Rightarrow> NatRule old)"
    by (simp add: ex_services_def)
  have rules: "NatRule ex_nat_service = [ex_rule1, ex_rule2, ex_rule3]"
    by (simp add: ex_nat_service_def)
  have wf: "\<forall>v \<in> set (NatRule ex_nat_service). six_tuple v \<noteq> None"
    by (simp add: rules six_tuple_def ex_rule1_def ex_rule2_def ex_rule3_def ex_nat_def)
  have kept: "filter (\<lambda>v. six_tuple v \<noteq> Some ?new) (NatRule ex_nat_service) =
                [ex_rule2, ex_rule3]"
    by (simp add: rules six_tuple_def ex_rule1_def ex_rule2_def ex_rule3_def ex_nat_def)
  have one: "length (filter (\<lambda>v. six_tuple v = Some ?new) (NatRule ex_nat_service)) = 1"
    by (simp add: rules six_tuple_def ex_rule1_def ex_rule2_def ex_rule3_def ex_nat_def)
  have run: "AddNATPortMappingWithUplink None ''DNAT'' ''203.0.113.7'' ''80'' ''10.0.0.7''
               ''8080'' ex_client (ex_world ex_Do_ok) =
             (case post_once (Some (NatService_document (ex_nat_service\<lparr>NatRule :=
                      [ex_rule2, ex_rule3,
                       AddNATPortMappingWithUplink_natRule ''DNAT'' ''203.0.113.7'' ''80''
                         ''10.0.0.7'' ''8080'' ''https://vcd/network/B'']\<rparr>)))
                    ''https://vcd/edgeGateway/1'' (ex_world ex_Do_ok) of
                (r, w') \<Rightarrow> (r, set_held (ex_services\<lparr>NatService := Some (ex_nat_service\<lparr>NatRule :=
                      [ex_rule2, ex_rule3,
                       AddNATPortMappingWithUplink_natRule ''DNAT'' ''203.0.113.7'' ''80''
                         ''10.0.0.7'' ''8080'' ''https://vcd/network/B'']\<rparr>)\<rparr>) ex_gateway
                      ex_client, w'))"
    using AddNATPortMappingWithUplink_rule_list[OF held cfg ref existing wf refl refl refl,
        where nattype = "''DNAT''" and externalIP = "''203.0.113.7''" and externalPort = "''80''"
          and internalIP = "''10.0.0.7''" and internalPort = "''8080''"
          and w = "ex_world ex_Do_ok", THEN conjunct1]
    by (simp only: kept) (simp add: ex_services_def ex_gateway_def ex_HREF)
  have res: "fst (AddNATPortMappingWithUplink None ''DNAT'' ''203.0.113.7'' ''80'' ''10.0.0.7''
               ''8080'' ex_client (ex_world ex_Do_ok)) = Inr (Task ''task'')"
    by (simp add: run ex_post_once_ok)
  have body: "map (\<lambda>req. map_option (map_option NatRule \<circ> NatService) (Body req))
     (sent (snd (snd (AddNATPortMappingWithUplink None ''DNAT'' ''203.0.113.7'' ''80''
          ''10.0.0.7'' ''8080'' ex_client (ex_world ex_Do_ok))))) =
     [Some (Some [ex_rule2, ex_rule3,
        AddNATPortMappingWithUplink_natRule ''DNAT'' ''203.0.113.7'' ''80'' ''10.0.0.7'' ''8080''
          ''https://vcd/network/B''])]"
    by (simp add: run ex_post_once_ok configureServices_request_def NatService_document_def)
  have wf': "list_all (\<lambda>v. six_tuple v \<noteq> None) (NatRule ex_nat_service)"
    using wf by (simp add: list_all_iff)
  show ?thesis
    by (intro conjI) (rule wf' rules one res body)+
qed

subsection \<open>Removing a NAT port mapping\<close>

text \<open>
  Claim C2. \<^verbatim>\<open>RemoveNATPortMapping\<close> submits the held NAT service with every rule
  dropped whose 4-tuple {rule type, original IP, original port, interface reference} is
  {nattype, externalIP, externalPort, uplink reference}, whatever its translated IP and
  port, and with all other rules kept in their order; so all rules that share the 4-tuple
  are dropped, however many they are. The arguments \<open>internalIP\<close> and \<open>internalPort\<close> do
  not occur in what is submitted. Every held rule has a gateway rule and an interface.
\<close>

theorem RemoveNATPortMapping_rule_list:
  assumes held: "EdgeGateway e = Some g"
    and cfg: "EdgeGatewayServiceConfiguration (Configuration g) = Some sc"
    and nat: "NatService sc = Some old"
    and uplink: "getFirstUplink e = Inr uplink"
    and wf: "\<forall>v \<in> set (NatRule old). four_tuple v \<noteq> None"
    and target: "target = (nattype, externalIP, externalPort, reference.HREF uplink)"
    and svc: "svc = old\<lparr>NatRule := filter (\<lambda>v. four_tuple v \<noteq> Some target) (NatRule old)\<rparr>"
  shows "RemoveNATPortMapping nattype externalIP externalPort internalIP internalPort e w =
           (case post_once (Some (NatService_document svc)) (types_edge_gateway.HREF g) w of
              (r, w') \<Rightarrow> (r, set_held (sc\<lparr>NatService := Some svc\<rparr>) g e, w')) \<and>
         NatRule svc = filter (\<lambda>v. four_tuple v \<noteq> Some target) (NatRule old) \<and>
         length (NatRule svc) + length (filter (\<lambda>v. four_tuple v = Some target) (NatRule old)) =
           length (NatRule old)"
proof -
  have op: "RemoveNATPortMapping nattype externalIP externalPort internalIP internalPort e w =
           (case post_once (Some (NatService_document svc)) (types_edge_gateway.HREF g) w of
              (r, w') \<Rightarrow> (r, set_held (sc\<lparr>NatService := Some svc\<rparr>) g e, w'))"
    using remove_loop_filter[OF wf, of nattype externalIP externalPort uplink]
    by (simp add: RemoveNATPortMapping_def held cfg nat uplink svc target Let_def
          nat_service_rebuild)
  have len: "length (filter (\<lambda>v. \<not> (four_tuple v = Some target)) (NatRule old)) +
             length (filter (\<lambda>v. four_tuple v = Some target) (NatRule old)) =
             length (NatRule old)"
    by (rule length_filter_split)
  show ?thesis using op len by (simp add: svc)
qed

theorem RemoveNATPortMapping_rule_list_witness:
  "list_all (\<lambda>v. four_tuple v \<noteq> None) (NatRule ex_nat_service) \<and>
   NatRule ex_nat_service = [ex_rule1, ex_rule2, ex_rule3] \<and>
   filter (\<lambda>v. four_tuple v =
      Some (''DNAT'', ''203.0.113.7'', ''80'', ''https://vcd/network/B''))
      (NatRule ex_nat_service) = [ex_rule1, ex_rule2] \<and>
   map_option TranslatedIP (GatewayNatRule ex_rule1) \<noteq>
     map_option TranslatedIP (GatewayNatRule ex_rule2) \<and>
   fst (RemoveNATPortMapping ''DNAT'' ''203.0.113.7'' ''80'' ''10.0.0.7'' ''8080''
          ex_client (ex_world ex_Do_ok)) = Inr (Task ''task'') \<and>
   map (\<lambda>req. map_option (map_option NatRule \<circ> NatService) (Body req))
     (sent (snd (snd (RemoveNATPortMapping ''DNAT'' ''203.0.113.7'' ''80''
          ''10.0.0.7'' ''8080'' ex_client (ex_world ex_Do_ok))))) =
     [Some (Some [ex_rule3])]"
proof -
  let ?target = "(''DNAT'', ''203.0.113.7'', ''80'', ''https://vcd/network/B'')"
  have held: "EdgeGateway ex_client = Some ex_gateway"
    by (simp add: ex_client_def)
  have cfg: "EdgeGatewayServiceConfiguration (Configuration ex_gateway) = Some ex_services"
    by (simp add: ex_gateway_def ex_gateway_of_def)
  have nat: "NatService ex_services = Some ex_nat_service"
    by (simp add: ex_services_def)
  have uplink: "getFirstUplink ex_client =
      Inr \<lparr>reference.HREF = ''https://vcd/network/B'', reference.Name = ''B''\<rparr>"
    using ex_getFirstUplink[of ex_services] by (simp add: ex_client_def ex_gateway_def)
  have rules: "NatRule ex_nat_service = [ex_rule1, ex_rule2, ex_rule3]"
    by (simp add: ex_nat_service_def)
  have wf: "\<forall>v \<in> set (NatRule ex_nat_service). four_tuple v \<noteq> None"
    by (simp add: rules four_tuple_def ex_rule1_def ex_rule2_def ex_rule3_def ex_nat_def)
  have kept: "filter (\<lambda>v. four_tuple v \<noteq> Some ?target) (NatRule ex_nat_service) = [ex_rule3]"
    by (simp add: rules four_tuple_def ex_rule1_def ex_rule2_def ex_rule3_def ex_nat_def)
  have dropped: "filter (\<lambda>v. four_tuple v = Some ?target) (NatRule ex_nat_service) =
                   [ex_rule1, ex_rule2]"
    by (simp add: rules four_tuple_def ex_rule1_def ex_rule2_def ex_rule3_def ex_nat_def)
  have differ: "map_option TranslatedIP (GatewayNatRule ex_rule1) \<noteq>
                map_option TranslatedIP (GatewayNatRule ex_rule2)"
    by (simp add: ex_rule1_def ex_rule2_def ex_nat_def)
  have run: "RemoveNATPortMapping ''DNAT'' ''203.0.113.7'' ''80'' ''10.0.0.7'' ''8080''
               ex_client (ex_world ex_Do_ok) =
             (case post_once (Some (NatService_document (ex_nat_service\<lparr>NatRule := [ex_rule3]\<rparr>)))
                    ''https://vcd/edgeGateway/1'' (ex_world ex_Do_ok) of
                (r, w') \<Rightarrow> (r, set_held (ex_services\<lparr>NatService :=
                      Some (ex_nat_service\<lparr>NatRule := [ex_rule3]\<rparr>)\<rparr>) ex_gateway ex_client, w'))"
    using RemoveNATPortMapping_rule_list[OF held cfg nat uplink wf refl refl,
        where nattype = "''DNAT''" and externalIP = "''203.0.113.7''" and externalPort = "''80''"
          and internalIP = "''10.0.0.7''" and internalPort = "''8080''"
          and w = "ex_world ex_Do_ok", THEN conjunct1]
    by (simp add: kept ex_gateway_def ex_HREF)
  have wf': "list_all (\<lambda>v. four_tuple v \<noteq> None) (NatRule ex_nat_service)"
    using wf by (simp add: list_all_iff)
  have res: "fst (RemoveNATPortMapping ''DNAT'' ''203.0.113.7'' ''80'' ''10.0.0.7'' ''8080''
          ex_client (ex_world ex_Do_ok)) = Inr (Task ''task'')"
    by (simp add: run ex_post_once_ok)
  have body: "map (\<lambda>req. map_option (map_option NatRule \<circ> NatService) (Body req))
     (sent (snd (snd (RemoveNATPortMapping ''DNAT'' ''203.0.113.7'' ''80''
          ''10.0.0.7'' ''8080'' ex_client (ex_world ex_Do_ok))))) =
     [Some (Some [ex_rule3])]"
    by (simp add: run ex_post_once_ok configureServices_request_def NatService_document_def)
  show ?thesis
    by (intro conjI) (rule wf' rules dropped differ res body)+
qed

subsection \<open>No NAT service\<close>

text \<open>
  Claim C9. When the held service configuration has no NAT service,
  \<^verbatim>\<open>RemoveNATPortMapping\<close> and \<^verbatim>\<open>RemoveNATMapping\<close> end in a nil dereference: they
  return no task and no error value, and send nothing.
  \<^verbatim>\<open>AddNATPortMappingWithUplink\<close> on the same configuration submits a new enabled service
  whose only rule is the new one.
\<close>

theorem absent_NatService_remove_panics_add_creates:
  assumes held: "EdgeGateway e = Some g"
    and cfg: "EdgeGatewayServiceConfiguration (Configuration g) = Some sc"
    and nat: "NatService sc = None"
  shows "RemoveNATPortMapping nattype externalIP externalPort internalIP internalPort e w =
           (Inl NilDereference, e, w) \<and>
         RemoveNATMapping nattype externalIP internalIP port e w = (Inl NilDereference, e, w) \<and>
         (\<forall>uplinkRef created.
            AddNATPortMappingWithUplink_uplinkRef network e = Inr uplinkRef \<and>
            created = \<lparr>nat_service.IsEnabled = True, NatType = [], nat_service.Policy = [],
                       ExternalIP = [],
                       NatRule = [AddNATPortMappingWithUplink_natRule nattype externalIP
                                    externalPort internalIP internalPort uplinkRef]\<rparr> \<longrightarrow>
            AddNATPortMappingWithUplink network nattype externalIP externalPort internalIP
                internalPort e w =
              (case post_once (Some (NatService_document created)) (types_edge_gateway.HREF g) w of
                 (r, w') \<Rightarrow> (r, set_held (sc\<lparr>NatService := Some created\<rparr>) g e, w')))"
proof -
  have rm: "\<And>a b c d f. RemoveNATPortMapping a b c d f e w = (Inl NilDereference, e, w)"
    using held cfg nat getFirstUplink_failure[of e]
    by (cases "getFirstUplink e") (auto simp: RemoveNATPortMapping_def)
  have add: "\<And>uplinkRef. AddNATPortMappingWithUplink_uplinkRef network e = Inr uplinkRef \<Longrightarrow>
      AddNATPortMappingWithUplink network nattype externalIP externalPort internalIP
          internalPort e w =
        (case post_once (Some (NatService_document
                \<lparr>nat_service.IsEnabled = True, NatType = [], nat_service.Policy = [],
                 ExternalIP = [],
                 NatRule = [AddNATPortMappingWithUplink_natRule nattype externalIP
                              externalPort internalIP internalPort uplinkRef]\<rparr>))
              (types_edge_gateway.HREF g) w of
           (r, w') \<Rightarrow> (r, set_held (sc\<lparr>NatService := Some
                \<lparr>nat_service.IsEnabled = True, NatType = [], nat_service.Policy = [],
                 ExternalIP = [],
                 NatRule = [AddNATPortMappingWithUplink_natRule nattype externalIP
                              externalPort internalIP internalPort uplinkRef]\<rparr>\<rparr>) g e, w'))"
    by (simp add: AddNATPortMappingWithUplink_def held cfg nat
          AddNATPortMappingWithUplink_copy_def zero_NatService_def Let_def)
  show ?thesis using rm add by (simp add: RemoveNATMapping_def)
qed

theorem absent_NatService_remove_panics_add_creates_witness:
  "NatService (ex_services\<lparr>NatService := None\<rparr>) = None \<and>
   fst (RemoveNATPortMapping ''DNAT'' ''203.0.113.7'' ''80'' ''10.0.0.7'' ''8080''
          \<lparr>EdgeGateway = Some (ex_gateway_of (ex_services\<lparr>NatService := None\<rparr>))\<rparr>
          (ex_world ex_Do_ok)) = Inl NilDereference \<and>
   fst (RemoveNATMapping ''DNAT'' ''203.0.113.7'' ''10.0.0.7'' ''80''
          \<lparr>EdgeGateway = Some (ex_gateway_of (ex_services\<lparr>NatService := None\<rparr>))\<rparr>
          (ex_world ex_Do_ok)) = Inl NilDereference \<and>
   fst (AddNATPortMappingWithUplink None ''DNAT'' ''203.0.113.7'' ''80'' ''10.0.0.7'' ''8080''
          \<lparr>EdgeGateway = Some (ex_gateway_of (ex_services\<lparr>NatService := None\<rparr>))\<rparr>
          (ex_world ex_Do_ok)) = Inr (Task ''task'') \<and>
   map (\<lambda>req. map_option NatService (Body req))
     (sent (snd (snd (AddNATPortMappingWithUplink None ''DNAT'' ''203.0.113.7'' ''80''
          ''10.0.0.7'' ''8080''
          \<lparr>EdgeGateway = Some (ex_gateway_of (ex_services\<lparr>NatService := None\<rparr>))\<rparr>
          (ex_world ex_Do_ok))))) =
     [Some (Some \<lparr>nat_service.IsEnabled = True, NatType = [], nat_service.Policy = [],
                   ExternalIP = [],
                   NatRule = [AddNATPortMappingWithUplink_natRule ''DNAT'' ''203.0.113.7''
                                ''80'' ''10.0.0.7'' ''8080'' ''https://vcd/network/B'']\<rparr>)]"
proof -
  let ?sc = "ex_services\<lparr>NatService := None\<rparr>"
  let ?e = "\<lparr>EdgeGateway = Some (ex_gateway_of ?sc)\<rparr>"
  let ?created = "\<lparr>nat_service.IsEnabled = True, NatType = [], nat_service.Policy = [],
                   ExternalIP = [],
                   NatRule = [AddNATPortMappingWithUplink_natRule ''DNAT'' ''203.0.113.7''
                                ''80'' ''10.0.0.7'' ''8080'' ''https://vcd/network/B'']\<rparr>"
  have held: "EdgeGateway ?e = Some (ex_gateway_of ?sc)" by simp
  have cfg: "EdgeGatewayServiceConfiguration (Configuration (ex_gateway_of ?sc)) = Some ?sc"
    by (simp add: ex_gateway_of_def)
  have nat: "NatService ?sc = None" by simp
  have ref: "AddNATPortMappingWithUplink_uplinkRef None ?e = Inr ''https://vcd/network/B''"
    using ex_getFirstUplink[of ?sc]
    by (simp add: AddNATPortMappingWithUplink_uplinkRef_def)
  note all = absent_NatService_remove_panics_add_creates[OF held cfg nat,
        where nattype = "''DNAT''" and externalIP = "''203.0.113.7''" and externalPort = "''80''"
          and internalIP = "''10.0.0.7''" and internalPort = "''8080''"
          and w = "ex_world ex_Do_ok" and port = "''80''" and network = None]
  have rm: "RemoveNATPortMapping ''DNAT'' ''203.0.113.7'' ''80'' ''10.0.0.7'' ''8080''
              ?e (ex_world ex_Do_ok) = (Inl NilDereference, ?e, ex_world ex_Do_ok)"
    using all by blast
  have rm2: "RemoveNATMapping ''DNAT'' ''203.0.113.7'' ''10.0.0.7'' ''80''
              ?e (ex_world ex_Do_ok) = (Inl NilDereference, ?e, ex_world ex_Do_ok)"
    using all by blast
  have "AddNATPortMappingWithUplink_uplinkRef None ?e = Inr ''https://vcd/network/B'' \<and>
            ?created = ?created \<longrightarrow>
        AddNATPortMappingWithUplink None ''DNAT'' ''203.0.113.7'' ''80'' ''10.0.0.7'' ''8080''
              ?e (ex_world ex_Do_ok) =
        (case post_once (Some (NatService_document ?created))
                (types_edge_gateway.HREF (ex_gateway_of ?sc)) (ex_world ex_Do_ok) of
           (r, w') \<Rightarrow> (r, set_held (?sc\<lparr>NatService := Some ?created\<rparr>) (ex_gateway_of ?sc) ?e, w'))"
    using all by blast
  then have add: "AddNATPortMappingWithUplink None ''DNAT'' ''203.0.113.7'' ''80'' ''10.0.0.7''
              ''8080'' ?e (ex_world ex_Do_ok) =
        (case post_once (Some (NatService_document ?created))
                ''https://vcd/edgeGateway/1'' (ex_world ex_Do_ok) of
           (r, w') \<Rightarrow> (r, set_held (?sc\<lparr>NatService := Some ?created\<rparr>) (ex_gateway_of ?sc) ?e, w'))"
    using ref by (simp add: ex_HREF)
  show ?thesis
    by (simp add: rm rm2 add ex_post_once_ok configureServices_request_def
          NatService_document_def)
qed

subsection \<open>Refresh\<close>

text \<open>
  Claim C7. Called with no gateway held (\<^verbatim>\<open>e.EdgeGateway == nil\<close>), \<^verbatim>\<open>Refresh\<close>
  returns the error "cannot refresh, Object is empty" and sends nothing. When the GET
  is answered, what the client holds afterwards is the response decoded into a fresh zero
  structure: it does not depend on what the client held before, so nothing of the earlier
  lists can be repeated in the new ones.
\<close>

theorem Refresh_missing_state_and_fresh_target:
  "(EdgeGateway e = None \<longrightarrow>
      Refresh e w = (Some (Error ''cannot refresh, Object is empty''), e, w)) \<and>
   (\<forall>g u resp.
      EdgeGateway e = Some g \<and>
      ParseRequestURI w (types_edge_gateway.HREF g) = Some u \<and>
      Do w (length (sent w)) \<lparr>Method = ''GET'', URL = u, Body = None, Header = []\<rparr> = Inr resp \<longrightarrow>
      Refresh e w =
        (map_option (\<lambda>err. Error (''error decoding Edge Gateway response: '' @ err))
           (snd (decodeBody_EdgeGateway w resp zero_EdgeGateway)),
         e\<lparr>EdgeGateway := Some (fst (decodeBody_EdgeGateway w resp zero_EdgeGateway))\<rparr>,
         w\<lparr>sent := sent w @ [\<lparr>Method = ''GET'', URL = u, Body = None, Header = []\<rparr>]\<rparr>))"
  by (auto simp: Refresh_def checkResp_Do_def split: prod.splits option.splits)

theorem Refresh_missing_state_and_fresh_target_witness:
  "fst (Refresh \<lparr>EdgeGateway = None\<rparr> (ex_world ex_Do_ok)) =
     Some (Error ''cannot refresh, Object is empty'') \<and>
   sent (snd (snd (Refresh \<lparr>EdgeGateway = None\<rparr> (ex_world ex_Do_ok)))) = [] \<and>
   length (GatewayInterface (GatewayInterfaces (Configuration ex_gateway))) = 3 \<and>
   Refresh ex_client (ex_world ex_Do_ok) =
     (None, ex_client,
      (ex_world ex_Do_ok)\<lparr>sent :=
         [\<lparr>Method = ''GET'', URL = \<lparr>Location = ''https://vcd/edgeGateway/1'', Path = []\<rparr>,
           Body = None, Header = []\<rparr>]\<rparr>)"
proof -
  let ?get = "\<lparr>Method = ''GET'', URL = \<lparr>Location = ''https://vcd/edgeGateway/1'', Path = []\<rparr>,
           Body = None, Header = []\<rparr>"
  have none: "Refresh \<lparr>EdgeGateway = None\<rparr> (ex_world ex_Do_ok) =
      (Some (Error ''cannot refresh, Object is empty''), \<lparr>EdgeGateway = None\<rparr>, ex_world ex_Do_ok)"
    using Refresh_missing_state_and_fresh_target[of "\<lparr>EdgeGateway = None\<rparr>" "ex_world ex_Do_ok"]
    by simp
  have held: "EdgeGateway ex_client = Some ex_gateway" by (simp add: ex_client_def)
  have parse: "ParseRequestURI (ex_world ex_Do_ok) (types_edge_gateway.HREF ex_gateway) =
      Some \<lparr>Location = ''https://vcd/edgeGateway/1'', Path = []\<rparr>"
    by (simp add: ex_world_def ex_ParseRequestURI_def ex_gateway_def ex_gateway_of_def)
  have do: "Do (ex_world ex_Do_ok) (length (sent (ex_world ex_Do_ok))) ?get = Inr ''gateway''"
    by (simp add: ex_world_def ex_Do_ok_def)
  have dec: "decodeBody_EdgeGateway (ex_world ex_Do_ok) ''gateway'' zero_EdgeGateway =
      (ex_gateway, None)"
    by (simp add: ex_world_def ex_decodeBody_EdgeGateway_def zero_EdgeGateway_def ex_gateway_def
          ex_gateway_of_def)
  have some: "Refresh ex_client (ex_world ex_Do_ok) =
      (None, ex_client, (ex_world ex_Do_ok)\<lparr>sent := [?get]\<rparr>)"
    using Refresh_missing_state_and_fresh_target[of ex_client "ex_world ex_Do_ok",
        THEN conjunct2, rule_format, of ex_gateway _ "''gateway''", OF conjI[OF held conjI[OF parse do]]]
    by (simp add: dec) (simp add: ex_client_def ex_world_def)
  have three: "length (GatewayInterface (GatewayInterfaces (Configuration ex_gateway))) = 3"
    by (simp add: ex_gateway_def ex_gateway_of_def)
  show ?thesis
    by (simp add: none some three) (simp add: ex_world_def)
qed

subsection \<open>Adding DHCP pools\<close>

lemma AddDhcpPool_defaults_with_defaults: "AddDhcpPool_defaults data = with_defaults data"
  by (rule ext) (auto simp: AddDhcpPool_defaults_def with_defaults_def lacking_def Let_def)

lemma AddDhcpPool_entry_well_typed:
  assumes "well_typed_entry v"
  shows "AddDhcpPool_entry (Some n) v = (Inr (requested_pool n v), written_back v)"
proof -
  from assms obtain data where v: "v = IMap data"
    by (cases v) (auto simp: well_typed_entry_def)
  from assms v have t: "lease_given_or_lacking (data ''default_lease_time'')"
      "lease_given_or_lacking (data ''max_lease_time'')"
      "address_given (data ''start_address'')" "address_given (data ''end_address'')"
    by (auto simp: well_typed_entry_def)
  from t(3) obtain lo where lo: "data ''start_address'' = Some (IString lo)"
    by (auto simp: address_given_def split: option.splits iface.splits)
  from t(4) obtain hi where hi: "data ''end_address'' = Some (IString hi)"
    by (auto simp: address_given_def split: option.splits iface.splits)
  have d: "with_defaults data ''default_lease_time'' =
             Some (IInt (requested_lease 3600 (data ''default_lease_time'')))"
    using t(1)
    by (auto simp: with_defaults_def lacking_def requested_lease_def lease_given_or_lacking_def
          split: option.splits iface.splits)
  have m: "with_defaults data ''max_lease_time'' =
             Some (IInt (requested_lease 7200 (data ''max_lease_time'')))"
    using t(2)
    by (auto simp: with_defaults_def lacking_def requested_lease_def lease_given_or_lacking_def
          split: option.splits iface.splits)
  have s: "with_defaults data ''start_address'' = Some (IString lo)"
    and e: "with_defaults data ''end_address'' = Some (IString hi)"
    by (simp_all add: with_defaults_def lo hi)
  show ?thesis
    by (simp add: v AddDhcpPool_entry_def AddDhcpPool_defaults_with_defaults
          AddDhcpPool_dhcprule_def d m s e requested_pool_def entry_data_def
          requested_address_def lo hi written_back_def)
qed

lemma AddDhcpPool_requested_well_typed:
  "(\<And>v. v \<in> set vs \<Longrightarrow> well_typed_entry v) \<Longrightarrow>
   AddDhcpPool_requested (Some n) vs pool =
     (Inr (pool @ map (requested_pool n) vs), map written_back vs)"
proof (induction vs arbitrary: pool)
  case Nil
  then show ?case by simp
next
  case (Cons v vs)
  have "AddDhcpPool_entry (Some n) v = (Inr (requested_pool n v), written_back v)"
    using Cons.prems by (simp add: AddDhcpPool_entry_well_typed)
  moreover have "AddDhcpPool_requested (Some n) vs (pool @ [requested_pool n v]) =
     (Inr ((pool @ [requested_pool n v]) @ map (requested_pool n) vs), map written_back vs)"
    using Cons.prems by (intro Cons.IH) simp
  ultimately show ?case by simp
qed

lemma AddDhcpPool_match_network:
  "dhcp_pool_service.Network v \<noteq> None \<Longrightarrow>
   AddDhcpPool_match (Some n) v =
     Inr (map_option reference.HREF (dhcp_pool_service.Network v) = Some (org_vdc_network.HREF n))"
  by (auto simp: AddDhcpPool_match_def split: option.splits)

lemma gateway_dhcp_service_rebuild:
  "\<lparr>gateway_dhcp_service.IsEnabled = gateway_dhcp_service.IsEnabled old, Pool = ps\<rparr> =
     old\<lparr>Pool := ps\<rparr>"
  by (cases old) simp

lemma AddDhcpPool_copy_filter:
  assumes "\<forall>v \<in> set (Pool old). dhcp_pool_service.Network v \<noteq> None"
  shows "AddDhcpPool_copy (Some n) (Some old) =
         Inr (old\<lparr>Pool := filter (\<lambda>v. map_option reference.HREF (dhcp_pool_service.Network v) \<noteq>
                                      Some (org_vdc_network.HREF n)) (Pool old)\<rparr>)"
proof -
  have "keep_loop (AddDhcpPool_match (Some n)) (Pool old) [] =
        Inr ([] @ filter (\<lambda>v. \<not> (map_option reference.HREF (dhcp_pool_service.Network v) =
                                      Some (org_vdc_network.HREF n))) (Pool old))"
    by (rule keep_loop_filter) (use assms AddDhcpPool_match_network in blast)
  then show ?thesis by (simp add: AddDhcpPool_copy_def gateway_dhcp_service_rebuild)
qed

lemma AddDhcpPool_service_built:
  assumes held: "EdgeGateway e = Some g"
    and cfg: "EdgeGatewayServiceConfiguration (Configuration g) = Some sc"
    and existing: "existing = (case GatewayDhcpService sc of None \<Rightarrow> [] | Some old \<Rightarrow> Pool old)"
    and nets: "\<forall>v \<in> set existing. dhcp_pool_service.Network v \<noteq> None"
    and typed: "\<forall>v \<in> set dhcppool. well_typed_entry v"
  shows "AddDhcpPool_service (Some n) dhcppool e =
           (Inr ((case GatewayDhcpService sc of
                    None \<Rightarrow> zero_GatewayDhcpService\<lparr>gateway_dhcp_service.IsEnabled := True\<rparr>
                  | Some old \<Rightarrow> old)
                 \<lparr>Pool := filter (\<lambda>v. map_option reference.HREF (dhcp_pool_service.Network v) \<noteq>
                                      Some (org_vdc_network.HREF n)) existing @
                           map (requested_pool n) dhcppool\<rparr>),
            map written_back dhcppool)"
proof (cases "GatewayDhcpService sc")
  case None
  then show ?thesis
    using typed
    by (simp add: AddDhcpPool_service_def held cfg existing AddDhcpPool_copy_def
          zero_GatewayDhcpService_def AddDhcpPool_requested_well_typed)
next
  case (Some old)
  then show ?thesis
    using typed nets AddDhcpPool_copy_filter[of old n]
    by (simp add: AddDhcpPool_service_def held cfg existing AddDhcpPool_requested_well_typed)
qed

lemma post_retry_task_response:
  assumes "ParseRequestURI w href = Some s"
    and "Do w (length (sent w)) (configureServices_request s b) = Inr resp"
  shows "post_retry_task b href w =
           Some (decode_Task resp (w\<lparr>sent := sent w @ [configureServices_request s b]\<rparr>),
                 w\<lparr>sent := sent w @ [configureServices_request s b]\<rparr>)"
  unfolding post_retry_task_def
  by (subst post_retry.simps) (simp add: assms checkResp_Do_def)

lemma post_retry_task_error:
  assumes "ParseRequestURI w href = Some s"
    and "Do w (length (sent w)) (configureServices_request s b) = Inl m"
    and "\<not> MatchString_busy m"
  shows "post_retry_task b href w =
           Some (Inl (Error (''error reconfiguring Edge Gateway: '' @ m)),
                 w\<lparr>sent := sent w @ [configureServices_request s b]\<rparr>)"
  unfolding post_retry_task_def
  by (subst post_retry.simps) (simp add: assms checkResp_Do_def)

lemma written_back_changes:
  assumes "lacking data ''default_lease_time'' \<or> lacking data ''max_lease_time''"
  shows "written_back (IMap data) \<noteq> IMap data"
proof
  assume "written_back (IMap data) = IMap data"
  then have eq: "with_defaults data = data" by (simp add: written_back_def)
  from assms show False
  proof
    assume l: "lacking data ''default_lease_time''"
    have "with_defaults data ''default_lease_time'' = Some (IInt 3600)"
      using l by (simp add: with_defaults_def)
    with eq l show False by (auto simp: lacking_def)
  next
    assume l: "lacking data ''max_lease_time''"
    have "with_defaults data ''max_lease_time'' = Some (IInt 7200)"
      using l by (simp add: with_defaults_def)
    with eq l show False by (auto simp: lacking_def)
  qed
qed

lemma ex_entries_typed: "\<forall>v \<in> set [ex_entry1, ex_entry2]. well_typed_entry v"
  by (simp add: ex_entry1_def ex_entry2_def well_typed_entry_def lease_given_or_lacking_def
        address_given_def)

lemma ex_pools_networks:
  "\<forall>v \<in> set (Pool ex_dhcp_service). dhcp_pool_service.Network v \<noteq> None"
  by (simp add: ex_dhcp_service_def ex_pool_def)

lemma ex_pools_kept:
  "filter (\<lambda>v. map_option reference.HREF (dhcp_pool_service.Network v) \<noteq>
                 Some (org_vdc_network.HREF ex_network_N)) (Pool ex_dhcp_service) =
     [ex_pool ''https://vcd/network/M'' ''10.0.1.100'']"
  by (simp add: ex_dhcp_service_def ex_pool_def ex_network_N_def)

lemma ex_requested_pools:
  "map (requested_pool ex_network_N) [ex_entry1, ex_entry2] =
     [\<lparr>dhcp_pool_service.IsEnabled = True,
       dhcp_pool_service.Network =
         Some \<lparr>reference.HREF = ''https://vcd/network/N'', reference.Name = ''N''\<rparr>,
       DefaultLeaseTime = 3600, MaxLeaseTime = 7200,
       LowIPAddress = ''10.0.0.10'', HighIPAddress = ''10.0.0.20''\<rparr>,
      \<lparr>dhcp_pool_service.IsEnabled = True,
       dhcp_pool_service.Network =
         Some \<lparr>reference.HREF = ''https://vcd/network/N'', reference.Name = ''N''\<rparr>,
       DefaultLeaseTime = 900, MaxLeaseTime = 7200,
       LowIPAddress = ''10.0.0.30'', HighIPAddress = ''10.0.0.40''\<rparr>]"
  by (simp add: requested_pool_def ex_entry1_def ex_entry2_def entry_data_def
        requested_lease_def requested_address_def ex_network_N_def)

lemma ex_post_retry_task_ok:
  "post_retry_task b ''https://vcd/edgeGateway/1'' (ex_world ex_Do_ok) =
     Some (Inr (Task ''task''),
           (ex_world ex_Do_ok)\<lparr>sent :=
              [configureServices_request
                 \<lparr>Location = ''https://vcd/edgeGateway/1'', Path = []\<rparr> b]\<rparr>)"
proof -
  have p: "ParseRequestURI (ex_world ex_Do_ok) ''https://vcd/edgeGateway/1'' =
             Some \<lparr>Location = ''https://vcd/edgeGateway/1'', Path = []\<rparr>"
    by (simp add: ex_world_def ex_ParseRequestURI_def)
  have d: "Do (ex_world ex_Do_ok) (length (sent (ex_world ex_Do_ok)))
             (configureServices_request \<lparr>Location = ''https://vcd/edgeGateway/1'', Path = []\<rparr> b) =
           Inr ''task''"
    by (simp add: ex_world_def ex_Do_ok_def configureServices_request_def)
  show ?thesis
    using post_retry_task_response[OF p d]
    by (simp add: decode_Task_def) (simp add: ex_world_def ex_decodeBody_Task_def)
qed

text \<open>
  Claim C3. \<^verbatim>\<open>AddDhcpPool\<close> for the network N submits the DHCP service whose pool list
  is, in their order, the existing pools whose network reference differs from that of N,
  followed by one new pool for each requested entry, in the order of the request. The
  pool of an entry lacking \<open>default_lease_time\<close> has 3600, the pool of an entry lacking
  \<open>max_lease_time\<close> has 7200, and a lease time that is given is kept. The existing pools
  are those of the held DHCP service (none when there is no service), each with a network
  reference, and the requested entries are well typed.
\<close>

theorem AddDhcpPool_pool_list:
  assumes held: "EdgeGateway e = Some g"
    and cfg: "EdgeGatewayServiceConfiguration (Configuration g) = Some sc"
    and existing: "existing = (case GatewayDhcpService sc of None \<Rightarrow> [] | Some old \<Rightarrow> Pool old)"
    and nets: "\<forall>v \<in> set existing. dhcp_pool_service.Network v \<noteq> None"
    and typed: "\<forall>v \<in> set dhcppool. well_typed_entry v"
    and svc: "svc = (case GatewayDhcpService sc of
                       None \<Rightarrow> zero_GatewayDhcpService\<lparr>gateway_dhcp_service.IsEnabled := True\<rparr>
                     | Some old \<Rightarrow> old)
                    \<lparr>Pool := filter (\<lambda>v. map_option reference.HREF (dhcp_pool_service.Network v)
                                          \<noteq> Some (org_vdc_network.HREF N)) existing @
                              map (requested_pool N) dhcppool\<rparr>"
  shows "fst (AddDhcpPool_service (Some N) dhcppool e) = Inr svc \<and>
         AddDhcpPool (Some N) dhcppool e w =
           (case post_retry_task (Some (GatewayDhcpService_document svc))
                   (types_edge_gateway.HREF g) w of
              None \<Rightarrow> None
            | Some (r, w') \<Rightarrow> Some (r, map written_back dhcppool, e, w')) \<and>
         Pool svc = filter (\<lambda>v. map_option reference.HREF (dhcp_pool_service.Network v)
                                  \<noteq> Some (org_vdc_network.HREF N)) existing @
                    map (requested_pool N) dhcppool \<and>
         (\<forall>v \<in> set dhcppool.
            (lacking (entry_data v) ''default_lease_time'' \<longrightarrow>
               DefaultLeaseTime (requested_pool N v) = 3600) \<and>
            (lacking (entry_data v) ''max_lease_time'' \<longrightarrow>
               MaxLeaseTime (requested_pool N v) = 7200) \<and>
            (\<forall>d. entry_data v ''default_lease_time'' = Some (IInt d) \<longrightarrow>
               DefaultLeaseTime (requested_pool N v) = d) \<and>
            (\<forall>m. entry_data v ''max_lease_time'' = Some (IInt m) \<longrightarrow>
               MaxLeaseTime (requested_pool N v) = m))"
proof -
  have built: "AddDhcpPool_service (Some N) dhcppool e = (Inr svc, map written_back dhcppool)"
    using AddDhcpPool_service_built[OF held cfg existing nets typed, of N] svc by simp
  have op: "AddDhcpPool (Some N) dhcppool e w =
           (case post_retry_task (Some (GatewayDhcpService_document svc))
                   (types_edge_gateway.HREF g) w of
              None \<Rightarrow> None
            | Some (r, w') \<Rightarrow> Some (r, map written_back dhcppool, e, w'))"
    by (simp add: AddDhcpPool_def built held_HREF_def held)
  have pool: "Pool svc = filter (\<lambda>v. map_option reference.HREF (dhcp_pool_service.Network v)
                                  \<noteq> Some (org_vdc_network.HREF N)) existing @
                    map (requested_pool N) dhcppool"
    by (simp add: svc)
  have lease: "\<And>v. (lacking (entry_data v) ''default_lease_time'' \<longrightarrow>
               DefaultLeaseTime (requested_pool N v) = 3600) \<and>
            (lacking (entry_data v) ''max_lease_time'' \<longrightarrow>
               MaxLeaseTime (requested_pool N v) = 7200) \<and>
            (\<forall>d. entry_data v ''default_lease_time'' = Some (IInt d) \<longrightarrow>
               DefaultLeaseTime (requested_pool N v) = d) \<and>
            (\<forall>m. entry_data v ''max_lease_time'' = Some (IInt m) \<longrightarrow>
               MaxLeaseTime (requested_pool N v) = m)"
    by (auto simp: requested_pool_def requested_lease_def lacking_def)
  show ?thesis using built op pool lease by simp
qed

theorem AddDhcpPool_pool_list_witness:
  "list_all (\<lambda>v. dhcp_pool_service.Network v \<noteq> None) (Pool ex_dhcp_service) \<and>
   list_all well_typed_entry [ex_entry1, ex_entry2] \<and>
   map LowIPAddress (Pool ex_dhcp_service) = [''10.0.0.100'', ''10.0.1.100'', ''10.0.0.200''] \<and>
   map_option (\<lambda>(r, dhcppool', e', w'). r)
     (AddDhcpPool (Some ex_network_N) [ex_entry1, ex_entry2] ex_client (ex_world ex_Do_ok)) =
     Some (Inr (Task ''task'')) \<and>
   map_option (\<lambda>(r, dhcppool', e', w').
        map (\<lambda>req. map_option (map_option Pool \<circ> GatewayDhcpService) (Body req)) (sent w'))
     (AddDhcpPool (Some ex_network_N) [ex_entry1, ex_entry2] ex_client (ex_world ex_Do_ok)) =
     Some [Some (Some
       [ex_pool ''https://vcd/network/M'' ''10.0.1.100'',
        \<lparr>dhcp_pool_service.IsEnabled = True,
         dhcp_pool_service.Network =
           Some \<lparr>reference.HREF = ''https://vcd/network/N'', reference.Name = ''N''\<rparr>,
         DefaultLeaseTime = 3600, MaxLeaseTime = 7200,
         LowIPAddress = ''10.0.0.10'', HighIPAddress = ''10.0.0.20''\<rparr>,
        \<lparr>dhcp_pool_service.IsEnabled = True,
         dhcp_pool_service.Network =
           Some \<lparr>reference.HREF = ''https://vcd/network/N'', reference.Name = ''N''\<rparr>,
         DefaultLeaseTime = 900, MaxLeaseTime = 7200,
         LowIPAddress = ''10.0.0.30'', HighIPAddress = ''10.0.0.40''\<rparr>])]"
proof -
  have held: "EdgeGateway ex_client = Some ex_gateway"
    by (simp add: ex_client_def)
  have cfg: "EdgeGatewayServiceConfiguration (Configuration ex_gateway) = Some ex_services"
    by (simp add: ex_gateway_def ex_gateway_of_def)
  have existing: "Pool ex_dhcp_service =
      (case GatewayDhcpService ex_services of None \<Rightarrow> [] | Some old \<Rightarrow> Pool old)"
    by (simp add: ex_services_def)
  have run: "AddDhcpPool (Some ex_network_N) [ex_entry1, ex_entry2] ex_client (ex_world ex_Do_ok) =
      (case post_retry_task (Some (GatewayDhcpService_document
                (ex_dhcp_service\<lparr>Pool := ex_pool ''https://vcd/network/M'' ''10.0.1.100'' #
                   map (requested_pool ex_network_N) [ex_entry1, ex_entry2]\<rparr>)))
              ''https://vcd/edgeGateway/1'' (ex_world ex_Do_ok) of
         None \<Rightarrow> None
       | Some (r, w') \<Rightarrow> Some (r, map written_back [ex_entry1, ex_entry2], ex_client, w'))"
    using AddDhcpPool_pool_list[OF held cfg existing ex_pools_networks ex_entries_typed refl,
        where N = ex_network_N and w = "ex_world ex_Do_ok", THEN conjunct2, THEN conjunct1]
    by (simp only: ex_pools_kept) (simp add: ex_services_def ex_gateway_def ex_HREF)
  have a: "list_all (\<lambda>v. dhcp_pool_service.Network v \<noteq> None) (Pool ex_dhcp_service)"
    using ex_pools_networks by (simp add: list_all_iff)
  have b: "list_all well_typed_entry [ex_entry1, ex_entry2]"
    using ex_entries_typed by (simp add: list_all_iff)
  have c: "map LowIPAddress (Pool ex_dhcp_service) =
             [''10.0.0.100'', ''10.0.1.100'', ''10.0.0.200'']"
    by (simp add: ex_dhcp_service_def ex_pool_def)
  have d: "map_option (\<lambda>(r, dhcppool', e', w'). r)
     (AddDhcpPool (Some ex_network_N) [ex_entry1, ex_entry2] ex_client (ex_world ex_Do_ok)) =
     Some (Inr (Task ''task''))"
    by (simp add: run ex_post_retry_task_ok)
  have e: "map_option (\<lambda>(r, dhcppool', e', w').
        map (\<lambda>req. map_option (map_option Pool \<circ> GatewayDhcpService) (Body req)) (sent w'))
     (AddDhcpPool (Some ex_network_N) [ex_entry1, ex_entry2] ex_client (ex_world ex_Do_ok)) =
     Some [Some (Some (ex_pool ''https://vcd/network/M'' ''10.0.1.100'' #
                        map (requested_pool ex_network_N) [ex_entry1, ex_entry2]))]"
    by (simp add: run ex_post_retry_task_ok configureServices_request_def
          GatewayDhcpService_document_def)
  show ?thesis
    by (intro conjI) (rule a b c d e[unfolded ex_requested_pools])+
qed

text \<open>
  Claim C10. \<^verbatim>\<open>AddDhcpPool\<close> changes the argument it is given: when it returns, with
  a task or with an error, every requested entry that lacked \<open>default_lease_time\<close> holds
  3600 under that key and every one that lacked \<open>max_lease_time\<close> holds 7200, so such an
  entry differs from what the caller passed. In particular this is so when the POST is
  refused.
\<close>

theorem AddDhcpPool_writes_defaults_into_argument:
  assumes held: "EdgeGateway e = Some g"
    and cfg: "EdgeGatewayServiceConfiguration (Configuration g) = Some sc"
    and existing: "existing = (case GatewayDhcpService sc of None \<Rightarrow> [] | Some old \<Rightarrow> Pool old)"
    and nets: "\<forall>v \<in> set existing. dhcp_pool_service.Network v \<noteq> None"
    and typed: "\<forall>v \<in> set dhcppool. well_typed_entry v"
  shows "snd (AddDhcpPool_service (Some N) dhcppool e) = map written_back dhcppool \<and>
         (\<forall>r dhcppool' e' w'.
            AddDhcpPool (Some N) dhcppool e w = Some (r, dhcppool', e', w') \<longrightarrow>
            dhcppool' = map written_back dhcppool) \<and>
         (\<forall>s m. ParseRequestURI w (types_edge_gateway.HREF g) = Some s \<and>
            (\<forall>b. Do w (length (sent w)) (configureServices_request s b) = Inl m) \<and>
            \<not> MatchString_busy m \<longrightarrow>
            (\<exists>w'. AddDhcpPool (Some N) dhcppool e w =
               Some (Inl (Error (''error reconfiguring Edge Gateway: '' @ m)),
                     map written_back dhcppool, e, w'))) \<and>
         (\<forall>data. IMap data \<in> set dhcppool \<longrightarrow>
            written_back (IMap data) = IMap (with_defaults data) \<and>
            (lacking data ''default_lease_time'' \<longrightarrow>
               with_defaults data ''default_lease_time'' = Some (IInt 3600)) \<and>
            (lacking data ''max_lease_time'' \<longrightarrow>
               with_defaults data ''max_lease_time'' = Some (IInt 7200)) \<and>
            (lacking data ''default_lease_time'' \<or> lacking data ''max_lease_time'' \<longrightarrow>
               written_back (IMap data) \<noteq> IMap data))"
proof -
  obtain svc where built:
    "AddDhcpPool_service (Some N) dhcppool e = (Inr svc, map written_back dhcppool)"
    using AddDhcpPool_service_built[OF held cfg existing nets typed, of N] by blast
  have op: "AddDhcpPool (Some N) dhcppool e w =
           (case post_retry_task (Some (GatewayDhcpService_document svc))
                   (types_edge_gateway.HREF g) w of
              None \<Rightarrow> None
            | Some (r, w') \<Rightarrow> Some (r, map written_back dhcppool, e, w'))"
    by (simp add: AddDhcpPool_def built held_HREF_def held)
  have a: "snd (AddDhcpPool_service (Some N) dhcppool e) = map written_back dhcppool"
    by (simp add: built)
  have b: "\<And>r dhcppool' e' w'.
            AddDhcpPool (Some N) dhcppool e w = Some (r, dhcppool', e', w') \<Longrightarrow>
            dhcppool' = map written_back dhcppool"
    by (auto simp: op split: option.splits)
  have c: "\<And>s m. ParseRequestURI w (types_edge_gateway.HREF g) = Some s \<Longrightarrow>
            (\<forall>b. Do w (length (sent w)) (configureServices_request s b) = Inl m) \<Longrightarrow>
            \<not> MatchString_busy m \<Longrightarrow>
            (\<exists>w'. AddDhcpPool (Some N) dhcppool e w =
               Some (Inl (Error (''error reconfiguring Edge Gateway: '' @ m)),
                     map written_back dhcppool, e, w'))"
    by (simp add: op post_retry_task_error)
  have d: "\<And>data. written_back (IMap data) = IMap (with_defaults data) \<and>
            (lacking data ''default_lease_time'' \<longrightarrow>
               with_defaults data ''default_lease_time'' = Some (IInt 3600)) \<and>
            (lacking data ''max_lease_time'' \<longrightarrow>
               with_defaults data ''max_lease_time'' = Some (IInt 7200)) \<and>
            (lacking data ''default_lease_time'' \<or> lacking data ''max_lease_time'' \<longrightarrow>
               written_back (IMap data) \<noteq> IMap data)"
    using written_back_changes by (simp add: written_back_def with_defaults_def)
  show ?thesis using a b c d by blast
qed

theorem AddDhcpPool_writes_defaults_into_argument_witness:
  "list_all well_typed_entry [ex_entry1, ex_entry2] \<and>
   map_option (\<lambda>(r, dhcppool', e', w'). (r, dhcppool'))
     (AddDhcpPool (Some ex_network_N) [ex_entry1, ex_entry2] ex_client
        (ex_world ex_Do_refused)) =
     Some (Inl (Error ''error reconfiguring Edge Gateway: 400 Bad Request''),
           [written_back ex_entry1, written_back ex_entry2]) \<and>
   entry_data ex_entry1 ''default_lease_time'' = None \<and>
   entry_data (written_back ex_entry1) ''default_lease_time'' = Some (IInt 3600) \<and>
   entry_data ex_entry2 ''max_lease_time'' = Some INil \<and>
   entry_data (written_back ex_entry2) ''max_lease_time'' = Some (IInt 7200) \<and>
   written_back ex_entry1 \<noteq> ex_entry1"
proof -
  have held: "EdgeGateway ex_client = Some ex_gateway"
    by (simp add: ex_client_def)
  have cfg: "EdgeGatewayServiceConfiguration (Configuration ex_gateway) = Some ex_services"
    by (simp add: ex_gateway_def ex_gateway_of_def)
  have existing: "Pool ex_dhcp_service =
      (case GatewayDhcpService ex_services of None \<Rightarrow> [] | Some old \<Rightarrow> Pool old)"
    by (simp add: ex_services_def)
  note all = AddDhcpPool_writes_defaults_into_argument[OF held cfg existing ex_pools_networks
      ex_entries_typed, where N = ex_network_N and w = "ex_world ex_Do_refused"]
  have parse: "ParseRequestURI (ex_world ex_Do_refused) (types_edge_gateway.HREF ex_gateway) =
      Some \<lparr>Location = ''https://vcd/edgeGateway/1'', Path = []\<rparr>"
    by (simp add: ex_world_def ex_ParseRequestURI_def ex_gateway_def ex_HREF)
  have refused: "\<forall>b. Do (ex_world ex_Do_refused) (length (sent (ex_world ex_Do_refused)))
      (configureServices_request \<lparr>Location = ''https://vcd/edgeGateway/1'', Path = []\<rparr> b) =
      Inl ''400 Bad Request''"
    by (simp add: ex_world_def ex_Do_refused_def)
  have notbusy: "\<not> MatchString_busy ''400 Bad Request''"
    by (simp add: MatchString_busy_def)
  from all parse refused notbusy
  obtain w' where run: "AddDhcpPool (Some ex_network_N) [ex_entry1, ex_entry2] ex_client
        (ex_world ex_Do_refused) =
      Some (Inl (Error (''error reconfiguring Edge Gateway: '' @ ''400 Bad Request'')),
            map written_back [ex_entry1, ex_entry2], ex_client, w')"
    by blast
  have a: "list_all well_typed_entry [ex_entry1, ex_entry2]"
    using ex_entries_typed by (simp add: list_all_iff)
  have b: "map_option (\<lambda>(r, dhcppool', e', w'). (r, dhcppool'))
     (AddDhcpPool (Some ex_network_N) [ex_entry1, ex_entry2] ex_client
        (ex_world ex_Do_refused)) =
     Some (Inl (Error ''error reconfiguring Edge Gateway: 400 Bad Request''),
           [written_back ex_entry1, written_back ex_entry2])"
    by (simp add: run)
  have c: "entry_data ex_entry1 ''default_lease_time'' = None"
    and d: "entry_data (written_back ex_entry1) ''default_lease_time'' = Some (IInt 3600)"
    and e: "entry_data ex_entry2 ''max_lease_time'' = Some INil"
    and f: "entry_data (written_back ex_entry2) ''max_lease_time'' = Some (IInt 7200)"
    by (simp_all add: ex_entry1_def ex_entry2_def entry_data_def written_back_def
          with_defaults_def lacking_def)
  have g: "written_back ex_entry1 \<noteq> ex_entry1"
    unfolding ex_entry1_def
    by (rule written_back_changes) (simp add: lacking_def)
  show ?thesis
    by (intro conjI) (rule a b c d e f g)+
qed

subsection \<open>Retrying while the gateway is busy\<close>

lemma MatchString_busy_literal:
  "MatchString_busy (pre @ ''is busy completing an operation.'')"
  by (simp add: MatchString_busy_def)

lemma post_retry_busy_prefix:
  assumes "ParseRequestURI w href = Some s"
    and "busy_attempts w (configureServices_request s b) N"
  shows "post_retry b href w =
         post_retry b href
           (w\<lparr>sent := sent w @ replicate N (configureServices_request s b),
              slept := slept w @ replicate N 3\<rparr>)"
  using assms
proof (induction N arbitrary: w)
  case 0
  then show ?case by simp
next
  case (Suc n)
  let ?req = "configureServices_request s b"
  let ?w1 = "Sleep 3 (w\<lparr>sent := sent w @ [?req]\<rparr>)"
  from Suc.prems(2) have "case Do w (length (sent w) + 0) ?req of
               Inl m \<Rightarrow> MatchString_busy m | Inr resp \<Rightarrow> False"
    unfolding busy_attempts_def by blast
  then obtain m where m: "Do w (length (sent w)) ?req = Inl m" "MatchString_busy m"
    by (cases "Do w (length (sent w)) ?req") auto
  have step: "post_retry b href w = post_retry b href ?w1"
    by (subst post_retry.simps) (simp add: Suc.prems(1) checkResp_Do_def m)
  have p1: "ParseRequestURI ?w1 href = Some s"
    using Suc.prems(1) by (simp add: Sleep_def)
  have b1: "busy_attempts ?w1 ?req n"
    unfolding busy_attempts_def
  proof (intro allI impI)
    fix i assume "i < n"
    then have "Suc i < Suc n" by simp
    with Suc.prems(2) have "case Do w (length (sent w) + Suc i) ?req of
               Inl m \<Rightarrow> MatchString_busy m | Inr resp \<Rightarrow> False"
      unfolding busy_attempts_def by blast
    then show "case Do ?w1 (length (sent ?w1) + i) ?req of
               Inl m \<Rightarrow> MatchString_busy m | Inr resp \<Rightarrow> False"
      by (simp add: Sleep_def)
  qed
  have "post_retry b href ?w1 =
        post_retry b href (?w1\<lparr>sent := sent ?w1 @ replicate n ?req,
                               slept := slept ?w1 @ replicate n 3\<rparr>)"
    by (rule Suc.IH[OF p1 b1])
  also have "?w1\<lparr>sent := sent ?w1 @ replicate n ?req, slept := slept ?w1 @ replicate n 3\<rparr> =
             w\<lparr>sent := sent w @ replicate (Suc n) ?req, slept := slept w @ replicate (Suc n) 3\<rparr>"
    by (simp add: Sleep_def)
  finally show ?case using step by simp
qed

lemma post_retry_then_response:
  assumes "ParseRequestURI w href = Some s"
    and "busy_attempts w (configureServices_request s b) N"
    and "Do w (length (sent w) + N) (configureServices_request s b) = Inr resp"
  shows "post_retry b href w =
           Some (Inr resp, after_attempts w (configureServices_request s b) N)"
proof -
  let ?req = "configureServices_request s b"
  let ?wN = "w\<lparr>sent := sent w @ replicate N ?req, slept := slept w @ replicate N 3\<rparr>"
  have "post_retry b href w = post_retry b href ?wN"
    by (rule post_retry_busy_prefix[OF assms(1,2)])
  also have "\<dots> = Some (Inr resp, ?wN\<lparr>sent := sent ?wN @ [?req]\<rparr>)"
    by (subst post_retry.simps) (simp add: assms(1,3) checkResp_Do_def)
  also have "?wN\<lparr>sent := sent ?wN @ [?req]\<rparr> = after_attempts w ?req N"
    by (simp add: after_attempts_def replicate_append_same)
  finally show ?thesis .
qed

lemma post_retry_then_error:
  assumes "ParseRequestURI w href = Some s"
    and "busy_attempts w (configureServices_request s b) N"
    and "Do w (length (sent w) + N) (configureServices_request s b) = Inl m"
    and "\<not> MatchString_busy m"
  shows "post_retry b href w =
           Some (Inl (Error (''error reconfiguring Edge Gateway: '' @ m)),
                 after_attempts w (configureServices_request s b) N)"
proof -
  let ?req = "configureServices_request s b"
  let ?wN = "w\<lparr>sent := sent w @ replicate N ?req, slept := slept w @ replicate N 3\<rparr>"
  have "post_retry b href w = post_retry b href ?wN"
    by (rule post_retry_busy_prefix[OF assms(1,2)])
  also have "\<dots> = Some (Inl (Error (''error reconfiguring Edge Gateway: '' @ m)),
                        ?wN\<lparr>sent := sent ?wN @ [?req]\<rparr>)"
    by (subst post_retry.simps) (simp add: assms(1,3,4) checkResp_Do_def)
  also have "?wN\<lparr>sent := sent ?wN @ [?req]\<rparr> = after_attempts w ?req N"
    by (simp add: after_attempts_def replicate_append_same)
  finally show ?thesis .
qed

lemma post_retry_returns_attempt:
  "post_retry b href w = Some y \<Longrightarrow>
   \<forall>s. ParseRequestURI w href = Some s \<longrightarrow>
     (\<exists>N. \<not> (case Do w (length (sent w) + N) (configureServices_request s b) of
             Inl m \<Rightarrow> MatchString_busy m | Inr resp \<Rightarrow> False))"
proof (induction rule: post_retry.raw_induct[rotated 1, consumes 1])
  case (1 post_retry' b href w y)
  show ?case
  proof (intro allI impI)
    fix s assume parse: "ParseRequestURI w href = Some s"
    let ?req = "configureServices_request s b"
    show "\<exists>N. \<not> (case Do w (length (sent w) + N) ?req of
             Inl m \<Rightarrow> MatchString_busy m | Inr resp \<Rightarrow> False)"
    proof (cases "case Do w (length (sent w)) ?req of Inl m \<Rightarrow> MatchString_busy m | Inr resp \<Rightarrow> False")
      case False
      then show ?thesis by (intro exI[of _ 0]) simp
    next
      case True
      then obtain m where m: "Do w (length (sent w)) ?req = Inl m" "MatchString_busy m"
        by (cases "Do w (length (sent w)) ?req") auto
      let ?w1 = "Sleep 3 (w\<lparr>sent := sent w @ [?req]\<rparr>)"
      from 1(2) have "post_retry' b href ?w1 = Some y"
        by (simp add: parse checkResp_Do_def m)
      from 1(1)[OF this] parse
      obtain N where "\<not> (case Do ?w1 (length (sent ?w1) + N) ?req of
               Inl m \<Rightarrow> MatchString_busy m | Inr resp \<Rightarrow> False)"
        by (auto simp: Sleep_def)
      then have "\<not> (case Do w (length (sent w) + Suc N) ?req of
               Inl m \<Rightarrow> MatchString_busy m | Inr resp \<Rightarrow> False)"
        by (simp add: Sleep_def)
      then show ?thesis by blast
    qed
  qed
qed

lemma post_retry_forever:
  assumes "ParseRequestURI w href = Some s"
    and "\<forall>N. busy_attempts w (configureServices_request s b) N"
  shows "post_retry b href w = None"
proof (cases "post_retry b href w")
  case None
  then show ?thesis .
next
  case (Some y)
  from post_retry_returns_attempt[OF Some] assms(1) obtain N where
    "\<not> (case Do w (length (sent w) + N) (configureServices_request s b) of
             Inl m \<Rightarrow> MatchString_busy m | Inr resp \<Rightarrow> False)" by blast
  moreover from assms(2) have "busy_attempts w (configureServices_request s b) (Suc N)" by blast
  ultimately show ?thesis by (auto simp: busy_attempts_def)
qed

lemma post_once_no_retry: "post_once b href w = (r, w') \<Longrightarrow> no_retry w r w'"
  by (auto simp: no_retry_def post_once_def checkResp_Do_def split: option.splits sum.splits)

lemma Refresh_world:
  "Refresh e w = (r, e1, w1) \<Longrightarrow>
     slept w1 = slept w \<and> Do w1 = Do w \<and> ParseRequestURI w1 = ParseRequestURI w \<and>
     (sent w1 = sent w \<or> (\<exists>req. sent w1 = sent w @ [req] \<and> Method req = ''GET''))"
  by (auto simp: Refresh_def checkResp_Do_def split: option.splits sum.splits prod.splits)

lemma refresh_then_post_no_retry:
  assumes "Refresh e w = (r, e1, w1)"
  shows "no_retry w1 (fst (refresh_then_post build e w)) (snd (snd (refresh_then_post build e w)))"
proof -
  have same: "no_retry w1 x w1" for x by (simp add: no_retry_def)
  show ?thesis
    using same
    by (auto simp: refresh_then_post_def assms split: option.splits prod.splits sum.splits
          intro: post_once_no_retry)
qed

lemma post_retry_task_then_response:
  assumes "ParseRequestURI w href = Some s"
    and "busy_attempts w (configureServices_request s b) N"
    and "Do w (length (sent w) + N) (configureServices_request s b) = Inr resp"
  shows "post_retry_task b href w =
           Some (decode_Task resp (after_attempts w (configureServices_request s b) N),
                 after_attempts w (configureServices_request s b) N)"
  by (simp add: post_retry_task_def post_retry_then_response[OF assms])

lemma post_retry_task_then_error:
  assumes "ParseRequestURI w href = Some s"
    and "busy_attempts w (configureServices_request s b) N"
    and "Do w (length (sent w) + N) (configureServices_request s b) = Inl m"
    and "\<not> MatchString_busy m"
  shows "post_retry_task b href w =
           Some (Inl (Error (''error reconfiguring Edge Gateway: '' @ m)),
                 after_attempts w (configureServices_request s b) N)"
  by (simp add: post_retry_task_def post_retry_then_error[OF assms])

lemma post_retry_task_forever:
  assumes "ParseRequestURI w href = Some s"
    and "\<forall>N. busy_attempts w (configureServices_request s b) N"
  shows "post_retry_task b href w = None"
  by (simp add: post_retry_task_def post_retry_forever[OF assms])

lemma no_retry_same: "no_retry w r w"
  by (simp add: no_retry_def)

lemma no_retry_post_once:
  "no_retry w (fst (case post_once b href w of (r, w') \<Rightarrow> (r, e', w')))
     (snd (snd (case post_once b href w of (r, w') \<Rightarrow> (r, e', w'))))"
  by (cases "post_once b href w") (simp add: post_once_no_retry)

lemma RemoveNATPortMapping_no_retry:
  "no_retry w (fst (RemoveNATPortMapping nattype externalIP externalPort internalIP internalPort e w))
     (snd (snd (RemoveNATPortMapping nattype externalIP externalPort internalIP internalPort e w)))"
  unfolding RemoveNATPortMapping_def Let_def
  by (simp add: no_retry_same no_retry_post_once split: sum.split option.split)

lemma AddNATPortMappingWithUplink_no_retry:
  "no_retry w
     (fst (AddNATPortMappingWithUplink network nattype externalIP externalPort internalIP
             internalPort e w))
     (snd (snd (AddNATPortMappingWithUplink network nattype externalIP externalPort internalIP
             internalPort e w)))"
  unfolding AddNATPortMappingWithUplink_def Let_def
  by (simp add: no_retry_same no_retry_post_once split: sum.split option.split)

lemma ex_busy_message:
  "MatchString_busy ''Edge gateway gw1 (urn:7) is busy completing an operation.''"
  by (simp add: MatchString_busy_def)

lemma ex_busy_attempts:
  "length reqs + 2 \<le> k \<Longrightarrow>
   busy_attempts ((ex_world (ex_Do_busy k))\<lparr>sent := reqs\<rparr>) (configureServices_request s b) 2"
  by (simp add: busy_attempts_def ex_world_def ex_Do_busy_def configureServices_request_def
        ex_busy_message)

lemma ex_busy_then_task:
  "length reqs + 2 = k \<Longrightarrow>
   Do ((ex_world (ex_Do_busy k))\<lparr>sent := reqs\<rparr>)
      (length (sent ((ex_world (ex_Do_busy k))\<lparr>sent := reqs\<rparr>)) + 2)
      (configureServices_request s b) = Inr ''task''"
  by (auto simp: ex_world_def ex_Do_busy_def configureServices_request_def)

lemma ex_parse_busy:
  "ParseRequestURI ((ex_world (ex_Do_busy k))\<lparr>sent := reqs\<rparr>) ''https://vcd/edgeGateway/1'' =
     Some \<lparr>Location = ''https://vcd/edgeGateway/1'', Path = []\<rparr>"
  by (simp add: ex_world_def ex_ParseRequestURI_def)

lemma ex_world_sent: "(ex_world d)\<lparr>sent := []\<rparr> = ex_world d"
  by (simp add: ex_world_def)

lemma ex_Refresh_busy:
  "Refresh ex_client (ex_world (ex_Do_busy k)) =
     (None, ex_client,
      (ex_world (ex_Do_busy k))\<lparr>sent :=
         [\<lparr>Method = ''GET'', URL = \<lparr>Location = ''https://vcd/edgeGateway/1'', Path = []\<rparr>,
           Body = None, Header = []\<rparr>]\<rparr>)"
  by (simp add: Refresh_def ex_world_def ex_ParseRequestURI_def checkResp_Do_def ex_Do_busy_def
        ex_decodeBody_EdgeGateway_def zero_EdgeGateway_def ex_client_def ex_gateway_def
        ex_gateway_of_def)

lemma ex_decode_Task: "decode_Task ''task'' ((ex_world d)\<lparr>sent := reqs, slept := z\<rparr>) = Inr (Task ''task'')"
  by (simp add: decode_Task_def ex_world_def ex_decodeBody_Task_def)

lemma ex_post_once_busy:
  "post_once b ''https://vcd/edgeGateway/1'' (ex_world (ex_Do_busy 2)) =
     (Inl (Error (''error reconfiguring Edge Gateway: '' @
                  ''Edge gateway gw1 (urn:7) is busy completing an operation.'')),
      (ex_world (ex_Do_busy 2))\<lparr>sent :=
         [configureServices_request
            \<lparr>Location = ''https://vcd/edgeGateway/1'', Path = []\<rparr> b]\<rparr>)"
  by (simp add: post_once_def ex_world_def ex_ParseRequestURI_def checkResp_Do_def
        ex_Do_busy_def configureServices_request_def)

lemma ex_RemoveNATPortMapping_post:
  "RemoveNATPortMapping ''DNAT'' ''203.0.113.7'' ''80'' ''10.0.0.7'' ''8080'' ex_client w =
     (case post_once (Some (NatService_document (ex_nat_service\<lparr>NatRule := [ex_rule3]\<rparr>)))
             ''https://vcd/edgeGateway/1'' w of
        (r, w') \<Rightarrow>
          (r, set_held (ex_services\<lparr>NatService := Some (ex_nat_service\<lparr>NatRule := [ex_rule3]\<rparr>)\<rparr>)
                ex_gateway ex_client, w'))"
proof -
  have up: "getFirstUplink ex_client =
      Inr \<lparr>reference.HREF = ''https://vcd/network/B'', reference.Name = ''B''\<rparr>"
    using ex_getFirstUplink[of ex_services] by (simp add: ex_client_def ex_gateway_def)
  have wf: "\<forall>v \<in> set (NatRule ex_nat_service). four_tuple v \<noteq> None"
    by (simp add: four_tuple_def ex_nat_service_def ex_rule1_def ex_rule2_def ex_rule3_def
          ex_nat_def)
  have kept: "filter (\<lambda>v. four_tuple v \<noteq>
                 Some (''DNAT'', ''203.0.113.7'', ''80'', ''https://vcd/network/B''))
               (NatRule ex_nat_service) = [ex_rule3]"
    by (simp add: four_tuple_def ex_nat_service_def ex_rule1_def ex_rule2_def ex_rule3_def
          ex_nat_def)
  have loop: "keep_loop (RemoveNATPortMapping_match ''DNAT'' ''203.0.113.7'' ''80''
                \<lparr>reference.HREF = ''https://vcd/network/B'', reference.Name = ''B''\<rparr>)
              (NatRule ex_nat_service) [] = Inr [ex_rule3]"
    using remove_loop_filter[OF wf, of "''DNAT''" "''203.0.113.7''" "''80''"
        "\<lparr>reference.HREF = ''https://vcd/network/B'', reference.Name = ''B''\<rparr>"]
    by (simp add: kept)
  have held: "EdgeGateway ex_client = Some ex_gateway" by (simp add: ex_client_def)
  have cfg: "EdgeGatewayServiceConfiguration (Configuration ex_gateway) = Some ex_services"
    and h: "types_edge_gateway.HREF ex_gateway = ''https://vcd/edgeGateway/1''"
    by (simp_all add: ex_gateway_def ex_gateway_of_def)
  have nat: "NatService ex_services = Some ex_nat_service" by (simp add: ex_services_def)
  show ?thesis
    by (simp add: RemoveNATPortMapping_def up held cfg nat loop h Let_def nat_service_rebuild)
qed

text \<open>
  Claim C6. Let the next \<open>N\<close> attempts to post the document be answered by an error whose
  message matches "is busy completing an operation.$". Then \<^verbatim>\<open>AddDhcpPool\<close> and
  \<^verbatim>\<open>CreateFirewallRules\<close> sleep 3 seconds after each of them and post again: if the
  next answer is a response they return its task, and if it is an error that does not match
  they return that error at once; either way they slept exactly \<open>N\<close> times and sent
  \<open>N + 1\<close> requests. If every attempt is answered busy they never return. A message
  that ends with the literal text matches. \<^verbatim>\<open>RemoveNATPortMapping\<close>,
  \<^verbatim>\<open>AddNATPortMappingWithUplink\<close>, \<^verbatim>\<open>Create1to1Mapping\<close>, \<^verbatim>\<open>Remove1to1Mapping\<close> and
  \<^verbatim>\<open>AddIpsecVPN\<close> never sleep and post at most once: an error of the POST, busy or
  not, is returned.
\<close>

theorem busy_retry_only_in_AddDhcpPool_and_CreateFirewallRules:
  assumes parse: "ParseRequestURI w href = Some s"
    and req: "req = configureServices_request s b"
    and busy: "busy_attempts w req N"
    and after: "w' = after_attempts w req N"
  shows
    "(\<forall>network dhcppool e svc dhcppool'.
        AddDhcpPool_service network dhcppool e = (Inr svc, dhcppool') \<and> held_HREF e = href \<and>
        b = Some (GatewayDhcpService_document svc) \<longrightarrow>
          (\<forall>resp. Do w (length (sent w) + N) req = Inr resp \<longrightarrow>
             AddDhcpPool network dhcppool e w = Some (decode_Task resp w', dhcppool', e, w')) \<and>
          (\<forall>m. Do w (length (sent w) + N) req = Inl m \<and> \<not> MatchString_busy m \<longrightarrow>
             AddDhcpPool network dhcppool e w =
               Some (Inl (Error (''error reconfiguring Edge Gateway: '' @ m)), dhcppool', e, w')) \<and>
          ((\<forall>K. busy_attempts w req K) \<longrightarrow> AddDhcpPool network dhcppool e w = None)) \<and>
     (\<forall>defaultAction rules e0 w0 e g.
        Refresh e0 w0 = (None, e, w) \<and> EdgeGateway e = Some g \<and>
        types_edge_gateway.HREF g = href \<and>
        b = Some (CreateFirewallRules_newRules defaultAction rules) \<longrightarrow>
          (\<forall>resp. Do w (length (sent w) + N) req = Inr resp \<longrightarrow>
             CreateFirewallRules defaultAction rules e0 w0 = Some (decode_Task resp w', e, w')) \<and>
          (\<forall>m. Do w (length (sent w) + N) req = Inl m \<and> \<not> MatchString_busy m \<longrightarrow>
             CreateFirewallRules defaultAction rules e0 w0 =
               Some (Inl (Error (''error reconfiguring Edge Gateway: '' @ m)), e, w')) \<and>
          ((\<forall>K. busy_attempts w req K) \<longrightarrow> CreateFirewallRules defaultAction rules e0 w0 = None)) \<and>
     slept w' = slept w @ replicate N 3 \<and>
     sent w' = sent w @ replicate (Suc N) req \<and>
     (\<forall>pre. MatchString_busy (pre @ ''is busy completing an operation.'')) \<and>
     no_retry w
       (fst (RemoveNATPortMapping nattype externalIP externalPort internalIP internalPort e1 w))
       (snd (snd (RemoveNATPortMapping nattype externalIP externalPort internalIP internalPort
                    e1 w))) \<and>
     no_retry w
       (fst (AddNATPortMappingWithUplink network1 nattype externalIP externalPort internalIP
               internalPort e1 w))
       (snd (snd (AddNATPortMappingWithUplink network1 nattype externalIP externalPort
                    internalIP internalPort e1 w))) \<and>
     (\<forall>r e2 w2. Refresh e1 w = (r, e2, w2) \<longrightarrow>
        slept w2 = slept w \<and>
        no_retry w2 (fst (Create1to1Mapping internal external description e1 w))
          (snd (snd (Create1to1Mapping internal external description e1 w))) \<and>
        no_retry w2 (fst (Remove1to1Mapping internal external e1 w))
          (snd (snd (Remove1to1Mapping internal external e1 w))) \<and>
        no_retry w2 (fst (AddIpsecVPN ipsecVPNConfig e1 w))
          (snd (snd (AddIpsecVPN ipsecVPNConfig e1 w))))"
proof -
  note busy' = busy[unfolded req]
  have loop_ok: "\<And>resp. Do w (length (sent w) + N) req = Inr resp \<Longrightarrow>
      post_retry_task b href w = Some (decode_Task resp w', w')"
    using post_retry_task_then_response[OF parse busy'] by (simp add: req after)
  have loop_err: "\<And>m. Do w (length (sent w) + N) req = Inl m \<Longrightarrow> \<not> MatchString_busy m \<Longrightarrow>
      post_retry_task b href w =
        Some (Inl (Error (''error reconfiguring Edge Gateway: '' @ m)), w')"
    using post_retry_task_then_error[OF parse busy'] by (simp add: req after)
  have loop_forever: "(\<forall>K. busy_attempts w req K) \<Longrightarrow> post_retry_task b href w = None"
    using post_retry_task_forever[OF parse] by (simp add: req)
  have dhcp: "\<And>network dhcppool e svc dhcppool'.
        AddDhcpPool_service network dhcppool e = (Inr svc, dhcppool') \<Longrightarrow> held_HREF e = href \<Longrightarrow>
        b = Some (GatewayDhcpService_document svc) \<Longrightarrow>
        AddDhcpPool network dhcppool e w =
          (case post_retry_task b href w of
             None \<Rightarrow> None | Some (r, w') \<Rightarrow> Some (r, dhcppool', e, w'))"
    by (simp add: AddDhcpPool_def)
  have fw: "\<And>defaultAction rules e0 w0 e g.
        Refresh e0 w0 = (None, e, w) \<Longrightarrow> EdgeGateway e = Some g \<Longrightarrow>
        types_edge_gateway.HREF g = href \<Longrightarrow>
        b = Some (CreateFirewallRules_newRules defaultAction rules) \<Longrightarrow>
        CreateFirewallRules defaultAction rules e0 w0 =
          (case post_retry_task b href w of
             None \<Rightarrow> None | Some (r, w') \<Rightarrow> Some (r, e, w'))"
    by (simp add: CreateFirewallRules_def)
  have A: "\<forall>network dhcppool e svc dhcppool'.
        AddDhcpPool_service network dhcppool e = (Inr svc, dhcppool') \<and> held_HREF e = href \<and>
        b = Some (GatewayDhcpService_document svc) \<longrightarrow>
          (\<forall>resp. Do w (length (sent w) + N) req = Inr resp \<longrightarrow>
             AddDhcpPool network dhcppool e w = Some (decode_Task resp w', dhcppool', e, w')) \<and>
          (\<forall>m. Do w (length (sent w) + N) req = Inl m \<and> \<not> MatchString_busy m \<longrightarrow>
             AddDhcpPool network dhcppool e w =
               Some (Inl (Error (''error reconfiguring Edge Gateway: '' @ m)), dhcppool', e, w')) \<and>
          ((\<forall>K. busy_attempts w req K) \<longrightarrow> AddDhcpPool network dhcppool e w = None)"
  proof (intro allI impI, elim conjE)
    fix network dhcppool e svc dhcppool'
    assume h: "AddDhcpPool_service network dhcppool e = (Inr svc, dhcppool')"
      "held_HREF e = href" "b = Some (GatewayDhcpService_document svc)"
    note eq = dhcp[OF h]
    show "(\<forall>resp. Do w (length (sent w) + N) req = Inr resp \<longrightarrow>
             AddDhcpPool network dhcppool e w = Some (decode_Task resp w', dhcppool', e, w')) \<and>
          (\<forall>m. Do w (length (sent w) + N) req = Inl m \<and> \<not> MatchString_busy m \<longrightarrow>
             AddDhcpPool network dhcppool e w =
               Some (Inl (Error (''error reconfiguring Edge Gateway: '' @ m)), dhcppool', e, w')) \<and>
          ((\<forall>K. busy_attempts w req K) \<longrightarrow> AddDhcpPool network dhcppool e w = None)"
      using loop_ok loop_err loop_forever by (simp add: eq)
  qed
  have B: "\<forall>defaultAction rules e0 w0 e g.
        Refresh e0 w0 = (None, e, w) \<and> EdgeGateway e = Some g \<and>
        types_edge_gateway.HREF g = href \<and>
        b = Some (CreateFirewallRules_newRules defaultAction rules) \<longrightarrow>
          (\<forall>resp. Do w (length (sent w) + N) req = Inr resp \<longrightarrow>
             CreateFirewallRules defaultAction rules e0 w0 = Some (decode_Task resp w', e, w')) \<and>
          (\<forall>m. Do w (length (sent w) + N) req = Inl m \<and> \<not> MatchString_busy m \<longrightarrow>
             CreateFirewallRules defaultAction rules e0 w0 =
               Some (Inl (Error (''error reconfiguring Edge Gateway: '' @ m)), e, w')) \<and>
          ((\<forall>K. busy_attempts w req K) \<longrightarrow> CreateFirewallRules defaultAction rules e0 w0 = None)"
  proof (intro allI impI, elim conjE)
    fix defaultAction rules e0 w0 e g
    assume h: "Refresh e0 w0 = (None, e, w)" "EdgeGateway e = Some g"
      "types_edge_gateway.HREF g = href"
      "b = Some (CreateFirewallRules_newRules defaultAction rules)"
    note eq = fw[OF h]
    show "(\<forall>resp. Do w (length (sent w) + N) req = Inr resp \<longrightarrow>
             CreateFirewallRules defaultAction rules e0 w0 = Some (decode_Task resp w', e, w')) \<and>
          (\<forall>m. Do w (length (sent w) + N) req = Inl m \<and> \<not> MatchString_busy m \<longrightarrow>
             CreateFirewallRules defaultAction rules e0 w0 =
               Some (Inl (Error (''error reconfiguring Edge Gateway: '' @ m)), e, w')) \<and>
          ((\<forall>K. busy_attempts w req K) \<longrightarrow> CreateFirewallRules defaultAction rules e0 w0 = None)"
      using loop_ok loop_err loop_forever by (simp add: eq)
  qed
  have C: "slept w' = slept w @ replicate N 3" "sent w' = sent w @ replicate (Suc N) req"
    by (simp_all add: after after_attempts_def)
  have D: "\<forall>pre. MatchString_busy (pre @ ''is busy completing an operation.'')"
    using MatchString_busy_literal by blast
  have E: "\<forall>r e2 w2. Refresh e1 w = (r, e2, w2) \<longrightarrow>
        slept w2 = slept w \<and>
        no_retry w2 (fst (Create1to1Mapping internal external description e1 w))
          (snd (snd (Create1to1Mapping internal external description e1 w))) \<and>
        no_retry w2 (fst (Remove1to1Mapping internal external e1 w))
          (snd (snd (Remove1to1Mapping internal external e1 w))) \<and>
        no_retry w2 (fst (AddIpsecVPN ipsecVPNConfig e1 w))
          (snd (snd (AddIpsecVPN ipsecVPNConfig e1 w)))"
  proof (intro allI impI)
    fix r e2 w2 assume R: "Refresh e1 w = (r, e2, w2)"
    have sl: "slept w2 = slept w" using Refresh_world[OF R] by blast
    show "slept w2 = slept w \<and>
        no_retry w2 (fst (Create1to1Mapping internal external description e1 w))
          (snd (snd (Create1to1Mapping internal external description e1 w))) \<and>
        no_retry w2 (fst (Remove1to1Mapping internal external e1 w))
          (snd (snd (Remove1to1Mapping internal external e1 w))) \<and>
        no_retry w2 (fst (AddIpsecVPN ipsecVPNConfig e1 w))
          (snd (snd (AddIpsecVPN ipsecVPNConfig e1 w)))"
      unfolding Create1to1Mapping_def Remove1to1Mapping_def AddIpsecVPN_def
      by (intro conjI sl refresh_then_post_no_retry[OF R])
  qed
  show ?thesis
    by (rule conjI[OF A conjI[OF B conjI[OF C(1) conjI[OF C(2) conjI[OF D
          conjI[OF RemoveNATPortMapping_no_retry
            conjI[OF AddNATPortMappingWithUplink_no_retry E]]]]]]])
qed

theorem busy_retry_only_in_AddDhcpPool_and_CreateFirewallRules_witness:
  "MatchString_busy ''Edge gateway gw1 (urn:7) is busy completing an operation.'' \<and>
   map_option (\<lambda>(r, dhcppool', e, w'). (r, slept w', map Method (sent w')))
     (AddDhcpPool (Some ex_network_N) [ex_entry1, ex_entry2] ex_client
        (ex_world (ex_Do_busy 2))) =
     Some (Inr (Task ''task''), [3, 3], [''POST'', ''POST'', ''POST'']) \<and>
   map_option (\<lambda>(r, e, w'). (r, slept w', map Method (sent w')))
     (CreateFirewallRules ''drop'' [ex_fw1] ex_client (ex_world (ex_Do_busy 3))) =
     Some (Inr (Task ''task''), [3, 3], [''GET'', ''POST'', ''POST'', ''POST'']) \<and>
   (case RemoveNATPortMapping ''DNAT'' ''203.0.113.7'' ''80'' ''10.0.0.7'' ''8080'' ex_client
           (ex_world (ex_Do_busy 2)) of
      (r, e, w') \<Rightarrow> (r, slept w', map Method (sent w'))) =
     (Inl (Error (''error reconfiguring Edge Gateway: '' @
                  ''Edge gateway gw1 (urn:7) is busy completing an operation.'')),
      [], [''POST''])"
proof -
  let ?s = "\<lparr>Location = ''https://vcd/edgeGateway/1'', Path = []\<rparr>"
  let ?get = "\<lparr>Method = ''GET'', URL = ?s, Body = None, Header = []\<rparr>"
  have held: "EdgeGateway ex_client = Some ex_gateway" by (simp add: ex_client_def)
  have cfg: "EdgeGatewayServiceConfiguration (Configuration ex_gateway) = Some ex_services"
    and h: "types_edge_gateway.HREF ex_gateway = ''https://vcd/edgeGateway/1''"
    by (simp_all add: ex_gateway_def ex_gateway_of_def)
  have existing: "Pool ex_dhcp_service =
      (case GatewayDhcpService ex_services of None \<Rightarrow> [] | Some old \<Rightarrow> Pool old)"
    by (simp add: ex_services_def)
  obtain svc where built:
    "AddDhcpPool_service (Some ex_network_N) [ex_entry1, ex_entry2] ex_client =
       (Inr svc, map written_back [ex_entry1, ex_entry2])"
    using AddDhcpPool_service_built[OF held cfg existing ex_pools_networks ex_entries_typed]
    by blast
  have hh: "held_HREF ex_client = ''https://vcd/edgeGateway/1''"
    by (simp add: held_HREF_def held h)
  have p2: "length ([]::request list) + 2 \<le> 2" and q2: "length ([]::request list) + 2 = 2"
    and p3: "length [?get] + 2 \<le> 3" and q3: "length [?get] + 2 = 3"
    by simp_all
  let ?w = "(ex_world (ex_Do_busy 2))\<lparr>sent := []\<rparr>"
  let ?b = "Some (GatewayDhcpService_document svc)"
  note dhcp = busy_retry_only_in_AddDhcpPool_and_CreateFirewallRules[
      OF ex_parse_busy[where k = 2 and reqs = "[]"] refl ex_busy_attempts[OF p2, where s = ?s and b = ?b] refl, THEN conjunct1,
      rule_format, OF conjI[OF built conjI[OF hh refl]], THEN conjunct1, rule_format,
      OF ex_busy_then_task[OF q2, where s = ?s and b = ?b]]
  have a: "map_option (\<lambda>(r, dhcppool', e, w'). (r, slept w', map Method (sent w')))
     (AddDhcpPool (Some ex_network_N) [ex_entry1, ex_entry2] ex_client
        (ex_world (ex_Do_busy 2))) =
     Some (Inr (Task ''task''), [3, 3], [''POST'', ''POST'', ''POST''])"
    using dhcp
    by (simp add: ex_world_sent after_attempts_def ex_decode_Task)
       (simp add: ex_world_def configureServices_request_def eval_nat_numeral)
  let ?w3 = "(ex_world (ex_Do_busy 3))\<lparr>sent := [?get]\<rparr>"
  let ?b3 = "Some (CreateFirewallRules_newRules ''drop'' [ex_fw1])"
  note fw = busy_retry_only_in_AddDhcpPool_and_CreateFirewallRules[
      OF ex_parse_busy[where k = 3 and reqs = "[?get]"] refl ex_busy_attempts[OF p3, where s = ?s and b = ?b3] refl,
      THEN conjunct2, THEN conjunct1,
      rule_format, OF conjI[OF ex_Refresh_busy[of 3] conjI[OF held conjI[OF h refl]]],
      THEN conjunct1, rule_format, OF ex_busy_then_task[OF q3, where s = ?s and b = ?b3]]
  have b: "map_option (\<lambda>(r, e, w'). (r, slept w', map Method (sent w')))
     (CreateFirewallRules ''drop'' [ex_fw1] ex_client (ex_world (ex_Do_busy 3))) =
     Some (Inr (Task ''task''), [3, 3], [''GET'', ''POST'', ''POST'', ''POST''])"
    using fw
    by (simp add: after_attempts_def ex_decode_Task)
       (simp add: ex_world_def configureServices_request_def eval_nat_numeral)
  have c: "(case RemoveNATPortMapping ''DNAT'' ''203.0.113.7'' ''80'' ''10.0.0.7'' ''8080''
           ex_client (ex_world (ex_Do_busy 2)) of
      (r, e, w') \<Rightarrow> (r, slept w', map Method (sent w'))) =
     (Inl (Error (''error reconfiguring Edge Gateway: '' @
                  ''Edge gateway gw1 (urn:7) is busy completing an operation.'')),
      [], [''POST''])"
    by (simp add: ex_RemoveNATPortMapping_post ex_post_once_busy)
       (simp add: ex_world_def configureServices_request_def eval_nat_numeral)
  show ?thesis by (intro conjI) (rule ex_busy_message a b c)+
qed

subsection \<open>A refresh that fails\<close>

lemma refresh_then_post_continues:
  assumes "Refresh e w = (r, e1, w1)" and "panic_of r = None" and "EdgeGateway e1 = Some g"
  shows "refresh_then_post build e w =
           (case build g of
              (Inl f, g') \<Rightarrow> (Inl f, e1\<lparr>EdgeGateway := Some g'\<rparr>, w1)
            | (Inr doc, g') \<Rightarrow>
                (case post_once doc (types_edge_gateway.HREF g') w1 of
                   (res, w2) \<Rightarrow> (res, e1\<lparr>EdgeGateway := Some g'\<rparr>, w2)))"
  using assms by (simp add: refresh_then_post_def)

lemma post_once_sent:
  "ParseRequestURI w href = Some s \<Longrightarrow>
   sent (snd (post_once b href w)) = sent w @ [configureServices_request s b]"
  by (simp add: post_once_def checkResp_Do_def split: sum.splits)

lemma firewall_service_rebuild:
  "\<lparr>firewall_service.IsEnabled = firewall_service.IsEnabled fs, DefaultAction = DefaultAction fs,
     LogDefaultAction = LogDefaultAction fs, FirewallRule = rs\<rparr> = fs\<lparr>FirewallRule := rs\<rparr>"
  by (cases fs) simp

lemma Create1to1Mapping_config_built:
  assumes "uplinkif_loop (GatewayInterface (GatewayInterfaces (Configuration g))) [] = Inr u"
    and "EdgeGatewayServiceConfiguration (Configuration g) = Some sc"
    and "NatService sc = Some ns"
    and "FirewallService sc = Some fs"
    and "c = sc\<lparr>NatService := Some (ns\<lparr>NatRule := NatRule ns @
                    [Create1to1Mapping_snat internal external description u,
                     Create1to1Mapping_dnat internal external description u]\<rparr>),
                FirewallService := Some (fs\<lparr>FirewallRule := FirewallRule fs @
                    [Create1to1Mapping_fwin external description,
                     Create1to1Mapping_fwout internal description]\<rparr>)\<rparr>"
  shows "Create1to1Mapping_config internal external description g =
           (Inr c, g\<lparr>Configuration :=
                       (Configuration g)\<lparr>EdgeGatewayServiceConfiguration := Some c\<rparr>\<rparr>)"
  using assms by (simp add: Create1to1Mapping_config_def Let_def)

lemma Remove1to1Mapping_config_built:
  assumes "uplinkif_loop (GatewayInterface (GatewayInterfaces (Configuration g))) [] = Inr u"
    and "EdgeGatewayServiceConfiguration (Configuration g) = Some sc"
    and "NatService sc = Some ns"
    and "FirewallService sc = Some fs"
    and "keep_loop (Remove1to1Mapping_nat internal external u) (NatRule ns) [] = Inr natrules"
    and "keep_loop (Remove1to1Mapping_fw internal external) (FirewallRule fs) [] = Inr fwrules"
    and "c = sc\<lparr>NatService := Some (ns\<lparr>NatRule := natrules, nat_service.IsEnabled := True\<rparr>),
                FirewallService := Some (fs\<lparr>FirewallRule := fwrules\<rparr>)\<rparr>"
  shows "Remove1to1Mapping_config internal external g =
           (Inr c, g\<lparr>Configuration :=
                       (Configuration g)\<lparr>EdgeGatewayServiceConfiguration := Some c\<rparr>\<rparr>)"
  using assms
  by (simp add: Remove1to1Mapping_config_def Let_def nat_service_rebuild firewall_service_rebuild)

lemma keep_loop_all:
  "(\<And>v. v \<in> set vs \<Longrightarrow> skip v = Inr False) \<Longrightarrow> keep_loop skip vs new = Inr (new @ vs)"
  using keep_loop_filter[of vs skip "\<lambda>v. False" new] by simp

lemma ex_uplinkif:
  "uplinkif_loop (GatewayInterface (GatewayInterfaces (Configuration (ex_gateway_of sc)))) [] =
     Inr ''https://vcd/network/B''"
  by (simp add: ex_gateway_of_def ex_uplink_A_def ex_internal_def ex_uplink_B_def)

lemma ex_nat_clean:
  "v \<in> set (NatRule ex_nat_service) \<Longrightarrow>
   Remove1to1Mapping_nat ''10.0.0.5'' ''203.0.113.5'' ''https://vcd/network/B'' v = Inr False"
  by (auto simp: ex_nat_service_def ex_rule1_def ex_rule2_def ex_rule3_def ex_nat_def
        Remove1to1Mapping_nat_def Remove1to1Mapping_dnat_def Remove1to1Mapping_snat_def)

lemma ex_fw_clean:
  "v \<in> set (FirewallRule ex_firewall_service) \<Longrightarrow>
   Remove1to1Mapping_fw ''10.0.0.5'' ''203.0.113.5'' v = Inr False"
  by (auto simp: ex_firewall_service_def ex_fw1_def
        Remove1to1Mapping_fw_def Remove1to1Mapping_fwin_def Remove1to1Mapping_fwout_def)







subsection \<open>Creating and then removing a 1:1 mapping\<close>

lemma Remove1to1Mapping_nat_created:
  "Remove1to1Mapping_nat internal external u
     (Create1to1Mapping_snat internal external description u) = Inr True"
  "Remove1to1Mapping_nat internal external u
     (Create1to1Mapping_dnat internal external description u) = Inr True"
  by (simp_all add: Remove1to1Mapping_nat_def Remove1to1Mapping_dnat_def
        Remove1to1Mapping_snat_def Create1to1Mapping_snat_def Create1to1Mapping_dnat_def)

lemma Remove1to1Mapping_fw_created:
  "Remove1to1Mapping_fw internal external (Create1to1Mapping_fwin external description) = Inr True"
  "Remove1to1Mapping_fw internal external (Create1to1Mapping_fwout internal description) = Inr True"
  by (auto simp: Remove1to1Mapping_fw_def Remove1to1Mapping_fwin_def
        Remove1to1Mapping_fwout_def Create1to1Mapping_fwin_def Create1to1Mapping_fwout_def
        split: bool.splits)

lemma keep_loop_drops_appended:
  assumes clean: "\<And>v. v \<in> set vs \<Longrightarrow> skip v = Inr False"
    and added: "\<And>v. v \<in> set ws \<Longrightarrow> skip v = Inr True"
  shows "keep_loop skip (vs @ ws) [] = Inr vs"
proof -
  have "keep_loop skip (vs @ ws) [] =
        Inr ([] @ filter (\<lambda>v. \<not> (skip v = Inr True)) (vs @ ws))"
  proof (rule keep_loop_filter)
    fix v assume "v \<in> set (vs @ ws)"
    then show "skip v = Inr (skip v = Inr True)"
      using clean[of v] added[of v] by auto
  qed
  moreover have "filter (\<lambda>v. \<not> (skip v = Inr True)) vs = vs"
    using clean by (simp add: filter_id_conv)
  moreover have "filter (\<lambda>v. \<not> (skip v = Inr True)) ws = []"
    using added by (simp add: filter_empty_conv)
  ultimately show ?thesis by simp
qed

lemma ex_parse_roundtrip:
  "ParseRequestURI (ex_world_roundtrip\<lparr>sent := reqs\<rparr>) ''https://vcd/edgeGateway/1'' =
     Some \<lparr>Location = ''https://vcd/edgeGateway/1'', Path = []\<rparr>"
  by (simp add: ex_world_roundtrip_def ex_world_def ex_ParseRequestURI_def)

lemma ex_Refresh_roundtrip_first:
  "Refresh ex_fresh_client ex_world_roundtrip =
     (None, ex_client,
      ex_world_roundtrip\<lparr>sent :=
         [\<lparr>Method = ''GET'', URL = \<lparr>Location = ''https://vcd/edgeGateway/1'', Path = []\<rparr>,
           Body = None, Header = []\<rparr>]\<rparr>)"
  by (simp add: Refresh_def ex_fresh_client_def ex_world_roundtrip_def ex_world_def
        ex_ParseRequestURI_def checkResp_Do_def ex_Do_roundtrip_def ex_decodeBody_roundtrip_def
        ex_client_def)

lemma ex_Refresh_roundtrip_later:
  "EdgeGateway e = Some g \<Longrightarrow> types_edge_gateway.HREF g = ''https://vcd/edgeGateway/1'' \<Longrightarrow>
   reqs \<noteq> [] \<Longrightarrow>
   Refresh e (ex_world_roundtrip\<lparr>sent := reqs\<rparr>) =
     (None, e\<lparr>EdgeGateway := Some ex_gateway_mapped\<rparr>,
      ex_world_roundtrip\<lparr>sent := reqs @
         [\<lparr>Method = ''GET'', URL = \<lparr>Location = ''https://vcd/edgeGateway/1'', Path = []\<rparr>,
           Body = None, Header = []\<rparr>]\<rparr>)"
  by (simp add: Refresh_def ex_world_roundtrip_def ex_world_def
        ex_ParseRequestURI_def checkResp_Do_def ex_Do_roundtrip_def ex_decodeBody_roundtrip_def)

lemma ex_post_once_roundtrip:
  "post_once b ''https://vcd/edgeGateway/1'' (ex_world_roundtrip\<lparr>sent := reqs\<rparr>) =
     (Inr (Task ''task''),
      ex_world_roundtrip\<lparr>sent := reqs @
         [configureServices_request
            \<lparr>Location = ''https://vcd/edgeGateway/1'', Path = []\<rparr> b]\<rparr>)"
  by (simp add: post_once_def ex_world_roundtrip_def ex_world_def ex_ParseRequestURI_def
        checkResp_Do_def ex_Do_roundtrip_def configureServices_request_def decode_Task_def
        ex_decodeBody_Task_def)

text \<open>
  Claim C4. Start from the configuration that the refresh of \<^verbatim>\<open>Create1to1Mapping\<close>
  leaves, with a NAT service and a firewall service in which no rule matches the patterns
  that \<^verbatim>\<open>Remove1to1Mapping\<close> uses for (internal, external). Then
  \<^verbatim>\<open>Create1to1Mapping\<close> submits the two lists with two NAT rules and two firewall rules
  appended, and \<^verbatim>\<open>Remove1to1Mapping\<close>, whose refresh finds the gateway as the Create left
  it, submits and holds the NAT and firewall rule lists as they were before the Create: the
  four appended rules are the ones its filters drop.
\<close>

theorem Create_then_Remove_1to1Mapping_restores_rule_lists:
  assumes refresh1: "Refresh e w = (r1, e1, w1)" and ok1: "panic_of r1 = None"
    and held: "EdgeGateway e1 = Some g"
    and up: "uplinkif_loop (GatewayInterface (GatewayInterfaces (Configuration g))) [] = Inr u"
    and cfg: "EdgeGatewayServiceConfiguration (Configuration g) = Some sc"
    and nat: "NatService sc = Some ns"
    and fw: "FirewallService sc = Some fs"
    and clean_nat: "\<forall>v \<in> set (NatRule ns). Remove1to1Mapping_nat internal external u v = Inr False"
    and clean_fw: "\<forall>v \<in> set (FirewallRule fs). Remove1to1Mapping_fw internal external v = Inr False"
    and create: "Create1to1Mapping internal external description e w = (res2, e2, w2)"
    and refresh2: "Refresh e2 w2 = (r3, e3, w3)" and ok3: "panic_of r3 = None"
    and same: "EdgeGateway e3 = EdgeGateway e2"
    and remove: "Remove1to1Mapping internal external e2 w2 = (res4, e4, w4)"
    and created: "sc2 = sc\<lparr>NatService := Some (ns\<lparr>NatRule := NatRule ns @
                    [Create1to1Mapping_snat internal external description u,
                     Create1to1Mapping_dnat internal external description u]\<rparr>),
                  FirewallService := Some (fs\<lparr>FirewallRule := FirewallRule fs @
                    [Create1to1Mapping_fwin external description,
                     Create1to1Mapping_fwout internal description]\<rparr>)\<rparr>"
    and removed: "sc4 = sc\<lparr>NatService := Some (ns\<lparr>nat_service.IsEnabled := True\<rparr>),
                           FirewallService := Some fs\<rparr>"
  shows "EdgeGateway e2 =
           Some (g\<lparr>Configuration :=
                    (Configuration g)\<lparr>EdgeGatewayServiceConfiguration := Some sc2\<rparr>\<rparr>) \<and>
         EdgeGateway e4 =
           Some (g\<lparr>Configuration :=
                    (Configuration g)\<lparr>EdgeGatewayServiceConfiguration := Some sc4\<rparr>\<rparr>) \<and>
         map_option NatRule (NatService sc4) = Some (NatRule ns) \<and>
         map_option FirewallRule (FirewallService sc4) = Some (FirewallRule fs) \<and>
         (\<forall>s. ParseRequestURI w1 (types_edge_gateway.HREF g) = Some s \<longrightarrow>
            sent w2 = sent w1 @ [configureServices_request s (Some sc2)]) \<and>
         (\<forall>s. ParseRequestURI w3 (types_edge_gateway.HREF g) = Some s \<longrightarrow>
            sent w4 = sent w3 @ [configureServices_request s (Some sc4)])"
proof -
  let ?g2 = "g\<lparr>Configuration :=
                (Configuration g)\<lparr>EdgeGatewayServiceConfiguration := Some sc2\<rparr>\<rparr>"
  let ?g4 = "g\<lparr>Configuration :=
                (Configuration g)\<lparr>EdgeGatewayServiceConfiguration := Some sc4\<rparr>\<rparr>"
  have cc: "Create1to1Mapping_config internal external description g = (Inr sc2, ?g2)"
    by (rule Create1to1Mapping_config_built[OF up cfg nat fw created])
  have c_run: "Create1to1Mapping internal external description e w =
      (case post_once (Some sc2) (types_edge_gateway.HREF g) w1 of
         (res, w') \<Rightarrow> (res, e1\<lparr>EdgeGateway := Some ?g2\<rparr>, w'))"
    by (simp add: Create1to1Mapping_def refresh_then_post_continues[OF refresh1 ok1 held]
          cc some_document_def)
  obtain res' w' where po: "post_once (Some sc2) (types_edge_gateway.HREF g) w1 = (res', w')"
    by (cases "post_once (Some sc2) (types_edge_gateway.HREF g) w1")
  from create c_run po have e2: "e2 = e1\<lparr>EdgeGateway := Some ?g2\<rparr>" and w2: "w2 = w'"
    by simp_all
  have held2: "EdgeGateway e2 = Some ?g2" by (simp add: e2)
  have sent2: "\<And>s. ParseRequestURI w1 (types_edge_gateway.HREF g) = Some s \<Longrightarrow>
      sent w2 = sent w1 @ [configureServices_request s (Some sc2)]"
    using post_once_sent[of w1 "types_edge_gateway.HREF g" _ "Some sc2"] po w2 by simp
  have held3: "EdgeGateway e3 = Some ?g2" using same held2 by simp
  have up2: "uplinkif_loop (GatewayInterface (GatewayInterfaces (Configuration ?g2))) [] = Inr u"
    using up by simp
  have cfg2: "EdgeGatewayServiceConfiguration (Configuration ?g2) = Some sc2" by simp
  have nat2: "NatService sc2 = Some (ns\<lparr>NatRule := NatRule ns @
                    [Create1to1Mapping_snat internal external description u,
                     Create1to1Mapping_dnat internal external description u]\<rparr>)"
    and fw2: "FirewallService sc2 = Some (fs\<lparr>FirewallRule := FirewallRule fs @
                    [Create1to1Mapping_fwin external description,
                     Create1to1Mapping_fwout internal description]\<rparr>)"
    by (simp_all add: created)
  have kn: "keep_loop (Remove1to1Mapping_nat internal external u)
              (NatRule (ns\<lparr>NatRule := NatRule ns @
                    [Create1to1Mapping_snat internal external description u,
                     Create1to1Mapping_dnat internal external description u]\<rparr>)) [] =
            Inr (NatRule ns)"
    using keep_loop_drops_appended[of "NatRule ns" "Remove1to1Mapping_nat internal external u"
        "[Create1to1Mapping_snat internal external description u,
          Create1to1Mapping_dnat internal external description u]"]
      clean_nat Remove1to1Mapping_nat_created[of internal external u description]
    by auto
  have kf: "keep_loop (Remove1to1Mapping_fw internal external)
              (FirewallRule (fs\<lparr>FirewallRule := FirewallRule fs @
                    [Create1to1Mapping_fwin external description,
                     Create1to1Mapping_fwout internal description]\<rparr>)) [] =
            Inr (FirewallRule fs)"
    using keep_loop_drops_appended[of "FirewallRule fs" "Remove1to1Mapping_fw internal external"
        "[Create1to1Mapping_fwin external description,
          Create1to1Mapping_fwout internal description]"]
      clean_fw Remove1to1Mapping_fw_created[of internal external description]
    by auto
  have sc4': "sc4 = sc2\<lparr>NatService := Some ((ns\<lparr>NatRule := NatRule ns @
                    [Create1to1Mapping_snat internal external description u,
                     Create1to1Mapping_dnat internal external description u]\<rparr>)
                      \<lparr>NatRule := NatRule ns, nat_service.IsEnabled := True\<rparr>),
                FirewallService := Some ((fs\<lparr>FirewallRule := FirewallRule fs @
                    [Create1to1Mapping_fwin external description,
                     Create1to1Mapping_fwout internal description]\<rparr>)
                      \<lparr>FirewallRule := FirewallRule fs\<rparr>)\<rparr>"
    by (simp add: removed created)
  have rc: "Remove1to1Mapping_config internal external ?g2 =
      (Inr sc4, ?g2\<lparr>Configuration :=
                 (Configuration ?g2)\<lparr>EdgeGatewayServiceConfiguration := Some sc4\<rparr>\<rparr>)"
    by (rule Remove1to1Mapping_config_built[OF up2 cfg2 nat2 fw2 kn kf sc4'])
  have g4: "?g2\<lparr>Configuration :=
                 (Configuration ?g2)\<lparr>EdgeGatewayServiceConfiguration := Some sc4\<rparr>\<rparr> = ?g4"
    by simp
  have r_run: "Remove1to1Mapping internal external e2 w2 =
      (case post_once (Some sc4) (types_edge_gateway.HREF g) w3 of
         (res, w') \<Rightarrow> (res, e3\<lparr>EdgeGateway := Some ?g4\<rparr>, w'))"
    by (simp add: Remove1to1Mapping_def refresh_then_post_continues[OF refresh2 ok3 held3]
          rc some_document_def)
  obtain res'' w'' where po4: "post_once (Some sc4) (types_edge_gateway.HREF g) w3 = (res'', w'')"
    by (cases "post_once (Some sc4) (types_edge_gateway.HREF g) w3")
  from remove r_run po4 have e4: "e4 = e3\<lparr>EdgeGateway := Some ?g4\<rparr>" and w4: "w4 = w''"
    by simp_all
  have held4: "EdgeGateway e4 = Some ?g4" by (simp add: e4)
  have sent4: "\<And>s. ParseRequestURI w3 (types_edge_gateway.HREF g) = Some s \<Longrightarrow>
      sent w4 = sent w3 @ [configureServices_request s (Some sc4)]"
    using post_once_sent[of w3 "types_edge_gateway.HREF g" _ "Some sc4"] po4 w4 by simp
  have lists: "map_option NatRule (NatService sc4) = Some (NatRule ns)"
    "map_option FirewallRule (FirewallService sc4) = Some (FirewallRule fs)"
    by (simp_all add: removed)
  show ?thesis
    using held2 held4 lists sent2 sent4 by blast
qed

theorem Create_then_Remove_1to1Mapping_restores_rule_lists_witness:
  "list_all (\<lambda>v. Remove1to1Mapping_nat ''10.0.0.5'' ''203.0.113.5'' ''https://vcd/network/B'' v =
                  Inr False) (NatRule ex_nat_service) \<and>
   list_all (\<lambda>v. Remove1to1Mapping_fw ''10.0.0.5'' ''203.0.113.5'' v = Inr False)
     (FirewallRule ex_firewall_service) \<and>
   (case Create1to1Mapping ''10.0.0.5'' ''203.0.113.5'' ''web'' ex_fresh_client
           ex_world_roundtrip of
      (res2, e2, w2) \<Rightarrow>
        (case Remove1to1Mapping ''10.0.0.5'' ''203.0.113.5'' e2 w2 of
           (res4, e4, w4) \<Rightarrow>
             (map (\<lambda>req. (Method req, map_option rule_lists (Body req))) (sent w4),
              map_option (\<lambda>g. map_option rule_lists
                                 (EdgeGatewayServiceConfiguration (Configuration g)))
                (EdgeGateway e4)))) =
     ([(''GET'', None),
       (''POST'', Some (Some (NatRule ex_nat_service @
                               [Create1to1Mapping_snat ''10.0.0.5'' ''203.0.113.5'' ''web''
                                  ''https://vcd/network/B'',
                                Create1to1Mapping_dnat ''10.0.0.5'' ''203.0.113.5'' ''web''
                                  ''https://vcd/network/B'']),
                        Some (FirewallRule ex_firewall_service @
                               [Create1to1Mapping_fwin ''203.0.113.5'' ''web'',
                                Create1to1Mapping_fwout ''10.0.0.5'' ''web'']))),
       (''GET'', None),
       (''POST'', Some (Some (NatRule ex_nat_service),
                        Some (FirewallRule ex_firewall_service)))],
      Some (Some (Some (NatRule ex_nat_service), Some (FirewallRule ex_firewall_service))))"
proof -
  let ?s = "\<lparr>Location = ''https://vcd/edgeGateway/1'', Path = []\<rparr>"
  let ?get = "\<lparr>Method = ''GET'', URL = ?s, Body = None, Header = []\<rparr>"
  let ?sc2 = "ex_services\<lparr>NatService := Some (ex_nat_service\<lparr>NatRule := NatRule ex_nat_service @
                    [Create1to1Mapping_snat ''10.0.0.5'' ''203.0.113.5'' ''web''
                       ''https://vcd/network/B'',
                     Create1to1Mapping_dnat ''10.0.0.5'' ''203.0.113.5'' ''web''
                       ''https://vcd/network/B'']\<rparr>),
                  FirewallService := Some (ex_firewall_service\<lparr>FirewallRule :=
                    FirewallRule ex_firewall_service @
                    [Create1to1Mapping_fwin ''203.0.113.5'' ''web'',
                     Create1to1Mapping_fwout ''10.0.0.5'' ''web'']\<rparr>)\<rparr>"
  let ?sc4 = "ex_services\<lparr>NatService := Some (ex_nat_service\<lparr>nat_service.IsEnabled := True\<rparr>),
                           FirewallService := Some ex_firewall_service\<rparr>"
  let ?g2 = "ex_gateway\<lparr>Configuration :=
                (Configuration ex_gateway)\<lparr>EdgeGatewayServiceConfiguration := Some ?sc2\<rparr>\<rparr>"
  let ?post2 = "configureServices_request ?s (Some ?sc2)"
  let ?e2 = "ex_client\<lparr>EdgeGateway := Some ?g2\<rparr>"
  let ?w2 = "ex_world_roundtrip\<lparr>sent := [?get, ?post2]\<rparr>"
  have ok: "panic_of None = None" by (simp add: panic_of_def)
  have held: "EdgeGateway ex_client = Some ex_gateway" by (simp add: ex_client_def)
  have cfg: "EdgeGatewayServiceConfiguration (Configuration ex_gateway) = Some ex_services"
    and h: "types_edge_gateway.HREF ex_gateway = ''https://vcd/edgeGateway/1''"
    by (simp_all add: ex_gateway_def ex_gateway_of_def)
  have nat: "NatService ex_services = Some ex_nat_service"
    and fw: "FirewallService ex_services = Some ex_firewall_service"
    by (simp_all add: ex_services_def)
  have up: "uplinkif_loop (GatewayInterface (GatewayInterfaces (Configuration ex_gateway))) [] =
              Inr ''https://vcd/network/B''"
    using ex_uplinkif[of ex_services] by (simp add: ex_gateway_def)
  have clean_nat: "\<forall>v \<in> set (NatRule ex_nat_service).
      Remove1to1Mapping_nat ''10.0.0.5'' ''203.0.113.5'' ''https://vcd/network/B'' v = Inr False"
    using ex_nat_clean by blast
  have clean_fw: "\<forall>v \<in> set (FirewallRule ex_firewall_service).
      Remove1to1Mapping_fw ''10.0.0.5'' ''203.0.113.5'' v = Inr False"
    using ex_fw_clean by blast
  have cc: "Create1to1Mapping_config ''10.0.0.5'' ''203.0.113.5'' ''web'' ex_gateway =
              (Inr ?sc2, ?g2)"
    by (rule Create1to1Mapping_config_built[OF up cfg nat fw refl])
  have mapped: "ex_gateway_mapped = ?g2"
    by (simp add: ex_gateway_mapped_def cc)
  have create: "Create1to1Mapping ''10.0.0.5'' ''203.0.113.5'' ''web'' ex_fresh_client
                  ex_world_roundtrip = (Inr (Task ''task''), ?e2, ?w2)"
    by (simp add: Create1to1Mapping_def
          refresh_then_post_continues[OF ex_Refresh_roundtrip_first ok held] cc
          some_document_def h ex_post_once_roundtrip)
  have held2: "EdgeGateway ?e2 = Some ?g2" by simp
  have h2: "types_edge_gateway.HREF ?g2 = ''https://vcd/edgeGateway/1''" by (simp add: h)
  have refresh2: "Refresh ?e2 ?w2 =
      (None, ?e2\<lparr>EdgeGateway := Some ex_gateway_mapped\<rparr>,
       ex_world_roundtrip\<lparr>sent := [?get, ?post2] @ [?get]\<rparr>)"
    by (rule ex_Refresh_roundtrip_later[OF held2 h2]) simp
  have same: "EdgeGateway (?e2\<lparr>EdgeGateway := Some ex_gateway_mapped\<rparr>) = EdgeGateway ?e2"
    by (simp add: mapped)
  obtain res4 e4 w4 where remove:
    "Remove1to1Mapping ''10.0.0.5'' ''203.0.113.5'' ?e2 ?w2 = (res4, e4, w4)"
    by (cases "Remove1to1Mapping ''10.0.0.5'' ''203.0.113.5'' ?e2 ?w2") auto
  note all = Create_then_Remove_1to1Mapping_restores_rule_lists[
      OF ex_Refresh_roundtrip_first ok held up cfg nat fw clean_nat clean_fw create
         refresh2 ok same remove refl refl]
  have e4: "EdgeGateway e4 =
      Some (ex_gateway\<lparr>Configuration :=
              (Configuration ex_gateway)\<lparr>EdgeGatewayServiceConfiguration := Some ?sc4\<rparr>\<rparr>)"
    using all by blast
  have "ParseRequestURI (ex_world_roundtrip\<lparr>sent := [?get, ?post2] @ [?get]\<rparr>)
          (types_edge_gateway.HREF ex_gateway) = Some ?s"
    by (simp only: h ex_parse_roundtrip)
  with all have w4: "sent w4 =
      sent (ex_world_roundtrip\<lparr>sent := [?get, ?post2] @ [?get]\<rparr>) @
        [configureServices_request ?s (Some ?sc4)]"
    by blast
  have a: "list_all (\<lambda>v. Remove1to1Mapping_nat ''10.0.0.5'' ''203.0.113.5''
             ''https://vcd/network/B'' v = Inr False) (NatRule ex_nat_service)"
    using clean_nat by (simp add: list_all_iff)
  have b: "list_all (\<lambda>v. Remove1to1Mapping_fw ''10.0.0.5'' ''203.0.113.5'' v = Inr False)
     (FirewallRule ex_firewall_service)"
    using clean_fw by (simp add: list_all_iff)
  have c: "(case Create1to1Mapping ''10.0.0.5'' ''203.0.113.5'' ''web'' ex_fresh_client
           ex_world_roundtrip of
      (res2, e2, w2) \<Rightarrow>
        (case Remove1to1Mapping ''10.0.0.5'' ''203.0.113.5'' e2 w2 of
           (res4, e4, w4) \<Rightarrow>
             (map (\<lambda>req. (Method req, map_option rule_lists (Body req))) (sent w4),
              map_option (\<lambda>g. map_option rule_lists
                                 (EdgeGatewayServiceConfiguration (Configuration g)))
                (EdgeGateway e4)))) =
     ([(''GET'', None),
       (''POST'', Some (Some (NatRule ex_nat_service @
                               [Create1to1Mapping_snat ''10.0.0.5'' ''203.0.113.5'' ''web''
                                  ''https://vcd/network/B'',
                                Create1to1Mapping_dnat ''10.0.0.5'' ''203.0.113.5'' ''web''
                                  ''https://vcd/network/B'']),
                        Some (FirewallRule ex_firewall_service @
                               [Create1to1Mapping_fwin ''203.0.113.5'' ''web'',
                                Create1to1Mapping_fwout ''10.0.0.5'' ''web'']))),
       (''GET'', None),
       (''POST'', Some (Some (NatRule ex_nat_service),
                        Some (FirewallRule ex_firewall_service)))],
      Some (Some (Some (NatRule ex_nat_service), Some (FirewallRule ex_firewall_service))))"
    by (simp only: create remove prod.case)
       (simp add: e4 w4 rule_lists_def configureServices_request_def nat fw)
  show ?thesis by (intro conjI) (rule a b c)+
qed

subsection \<open>Uplink selection\<close>

lemma RemoveNATPortMapping_submits:
  assumes held: "EdgeGateway e = Some g"
    and cfg: "EdgeGatewayServiceConfiguration (Configuration g) = Some sc"
    and nat: "NatService sc = Some old"
    and uplink: "getFirstUplink e = Inr uplink"
    and wf: "\<forall>v \<in> set (NatRule old). four_tuple v \<noteq> None"
    and svc: "svc = old\<lparr>NatRule := filter (\<lambda>v. four_tuple v \<noteq>
                 Some (nattype, externalIP, externalPort, reference.HREF uplink)) (NatRule old)\<rparr>"
  shows "RemoveNATPortMapping nattype externalIP externalPort internalIP internalPort e w =
           (case post_once (Some (NatService_document svc)) (types_edge_gateway.HREF g) w of
              (r, w') \<Rightarrow> (r, set_held (sc\<lparr>NatService := Some svc\<rparr>) g e, w'))"
  using remove_loop_filter[OF wf, of nattype externalIP externalPort uplink]
  by (simp add: RemoveNATPortMapping_def held cfg nat uplink svc Let_def nat_service_rebuild)

lemma AddNATPortMappingWithUplink_submits:
  assumes held: "EdgeGateway e = Some g"
    and cfg: "EdgeGatewayServiceConfiguration (Configuration g) = Some sc"
    and ref: "AddNATPortMappingWithUplink_uplinkRef network e = Inr uplinkRef"
    and existing: "existing = (case NatService sc of None \<Rightarrow> [] | Some old \<Rightarrow> NatRule old)"
    and wf: "\<forall>v \<in> set existing. six_tuple v \<noteq> None"
    and svc: "svc = (case NatService sc of
                       None \<Rightarrow> zero_NatService\<lparr>nat_service.IsEnabled := True\<rparr>
                     | Some old \<Rightarrow> old)
                    \<lparr>NatRule := filter (\<lambda>v. six_tuple v \<noteq>
                         Some (nattype, externalIP, externalPort, internalIP, internalPort,
                               uplinkRef)) existing @
                       [AddNATPortMappingWithUplink_natRule nattype externalIP externalPort
                          internalIP internalPort uplinkRef]\<rparr>"
  shows "AddNATPortMappingWithUplink network nattype externalIP externalPort internalIP
             internalPort e w =
           (case post_once (Some (NatService_document svc)) (types_edge_gateway.HREF g) w of
              (r, w') \<Rightarrow> (r, set_held (sc\<lparr>NatService := Some svc\<rparr>) g e, w'))"
proof -
  have copy: "AddNATPortMappingWithUplink_copy nattype externalIP externalPort internalIP
                internalPort uplinkRef (NatService sc) =
              Inr ((case NatService sc of
                       None \<Rightarrow> zero_NatService\<lparr>nat_service.IsEnabled := True\<rparr>
                     | Some old \<Rightarrow> old)
                   \<lparr>NatRule := filter (\<lambda>v. six_tuple v \<noteq>
                         Some (nattype, externalIP, externalPort, internalIP, internalPort,
                               uplinkRef)) existing\<rparr>)"
  proof (cases "NatService sc")
    case None
    then show ?thesis
      by (simp add: AddNATPortMappingWithUplink_copy_def existing zero_NatService_def)
  next
    case (Some old)
    then show ?thesis using add_copy_filter[of old] wf existing by simp
  qed
  show ?thesis
    by (simp add: AddNATPortMappingWithUplink_def held cfg ref copy svc Let_def)
qed

lemma ex_Refresh_held:
  "Refresh ex_client ((ex_world ex_Do_ok)\<lparr>sent := reqs\<rparr>) =
     (None, ex_client,
      (ex_world ex_Do_ok)\<lparr>sent := reqs @
         [\<lparr>Method = ''GET'', URL = \<lparr>Location = ''https://vcd/edgeGateway/1'', Path = []\<rparr>,
           Body = None, Header = []\<rparr>]\<rparr>)"
  by (simp add: Refresh_def ex_world_def ex_ParseRequestURI_def checkResp_Do_def ex_Do_ok_def
        ex_decodeBody_EdgeGateway_def zero_EdgeGateway_def ex_client_def ex_gateway_def
        ex_gateway_of_def)

lemma ex_post_once_ok_after:
  "post_once b ''https://vcd/edgeGateway/1'' ((ex_world ex_Do_ok)\<lparr>sent := reqs\<rparr>) =
     (Inr (Task ''task''),
      (ex_world ex_Do_ok)\<lparr>sent := reqs @
         [configureServices_request
            \<lparr>Location = ''https://vcd/edgeGateway/1'', Path = []\<rparr> b]\<rparr>)"
  by (simp add: post_once_def ex_world_def ex_ParseRequestURI_def checkResp_Do_def
        ex_Do_ok_def configureServices_request_def decode_Task_def ex_decodeBody_Task_def)

lemma ex_nat_clean_A:
  "v \<in> set (NatRule ex_nat_service) \<Longrightarrow>
   Remove1to1Mapping_nat ''10.0.0.9'' ''203.0.113.9'' ''https://vcd/network/B'' v = Inr False"
  by (auto simp: ex_nat_service_def ex_rule1_def ex_rule2_def ex_rule3_def ex_nat_def
        Remove1to1Mapping_nat_def Remove1to1Mapping_dnat_def Remove1to1Mapping_snat_def)

lemma ex_fw_clean_A:
  "v \<in> set (FirewallRule ex_firewall_service) \<Longrightarrow>
   Remove1to1Mapping_fw ''10.0.0.9'' ''203.0.113.9'' v = Inr False"
  by (auto simp: ex_firewall_service_def ex_fw1_def
        Remove1to1Mapping_fw_def Remove1to1Mapping_fwin_def Remove1to1Mapping_fwout_def)

text \<open>
  Claim C5. When the gateway has interfaces flagged "uplink" (in particular two or more),
  the uplink chosen when no network is supplied is the network reference of the last of
  them in the order of the list, and it is the one each operation works with:
  \<^item> \<^verbatim>\<open>getFirstUplink\<close> and the loop of the two 1:1-mapping operations return it;
  \<^item> \<^verbatim>\<open>RemoveNATPortMapping\<close> and \<^verbatim>\<open>RemoveNATMapping\<close> submit the held NAT rules
    without those carrying the given type, external address and port on that uplink;
  \<^item> \<^verbatim>\<open>AddNATPortMappingWithUplink\<close> without a network, \<^verbatim>\<open>AddNATPortMapping\<close> and
    \<^verbatim>\<open>AddNATMapping\<close> submit the held rules without those equal to the new rule on that
    uplink, followed by the new rule on that uplink;
  \<^item> \<^verbatim>\<open>Create1to1Mapping\<close>, once refreshed, submits the held NAT rules followed by a
    source and a destination rule on that uplink;
  \<^item> \<^verbatim>\<open>Remove1to1Mapping\<close>, once refreshed, submits the NAT rules kept by its patterns,
    the source pattern being that of a rule on that uplink.
  In the example the gateway has the uplinks A and B in this order: the rule held on A
  survives the removal and the 1:1 removal that name its addresses, and every rule added
  is on B.
\<close>

theorem uplink_is_last_flagged:
  assumes held: "EdgeGateway e = Some g"
    and gis: "GatewayInterface (GatewayInterfaces (Configuration g)) = gis"
    and ups: "filter (\<lambda>gi. InterfaceType gi = ''uplink'') gis = ups"
    and some: "ups \<noteq> []"
    and nets: "\<forall>gi \<in> set ups. gateway_interface.Network gi \<noteq> None"
    and last: "gateway_interface.Network (last ups) = Some n"
  shows "getFirstUplink e = Inr n \<and>
         AddNATPortMappingWithUplink_uplinkRef None e = Inr (reference.HREF n) \<and>
         uplinkif_loop gis [] = Inr (reference.HREF n) \<and>
         (\<forall>sc old svc.
            EdgeGatewayServiceConfiguration (Configuration g) = Some sc \<and>
            NatService sc = Some old \<and>
            (\<forall>v \<in> set (NatRule old). four_tuple v \<noteq> None) \<and>
            svc = old\<lparr>NatRule := filter (\<lambda>v. four_tuple v \<noteq>
                    Some (nattype, externalIP, externalPort, reference.HREF n)) (NatRule old)\<rparr> \<longrightarrow>
            RemoveNATPortMapping nattype externalIP externalPort internalIP internalPort e w =
              (case post_once (Some (NatService_document svc)) (types_edge_gateway.HREF g) w of
                 (r, w') \<Rightarrow> (r, set_held (sc\<lparr>NatService := Some svc\<rparr>) g e, w')) \<and>
            RemoveNATMapping nattype externalIP internalIP externalPort e w =
              (case post_once (Some (NatService_document svc)) (types_edge_gateway.HREF g) w of
                 (r, w') \<Rightarrow> (r, set_held (sc\<lparr>NatService := Some svc\<rparr>) g e, w'))) \<and>
         (\<forall>sc existing svc.
            EdgeGatewayServiceConfiguration (Configuration g) = Some sc \<and>
            existing = (case NatService sc of None \<Rightarrow> [] | Some old \<Rightarrow> NatRule old) \<and>
            (\<forall>v \<in> set existing. six_tuple v \<noteq> None) \<and>
            svc = (case NatService sc of
                     None \<Rightarrow> zero_NatService\<lparr>nat_service.IsEnabled := True\<rparr>
                   | Some old \<Rightarrow> old)
                  \<lparr>NatRule := filter (\<lambda>v. six_tuple v \<noteq>
                       Some (nattype, externalIP, externalPort, internalIP, internalPort,
                             reference.HREF n)) existing @
                     [AddNATPortMappingWithUplink_natRule nattype externalIP externalPort
                        internalIP internalPort (reference.HREF n)]\<rparr> \<longrightarrow>
            AddNATPortMappingWithUplink None nattype externalIP externalPort internalIP
                internalPort e w =
              (case post_once (Some (NatService_document svc)) (types_edge_gateway.HREF g) w of
                 (r, w') \<Rightarrow> (r, set_held (sc\<lparr>NatService := Some svc\<rparr>) g e, w')) \<and>
            AddNATPortMapping nattype externalIP externalPort internalIP internalPort e w =
              (case post_once (Some (NatService_document svc)) (types_edge_gateway.HREF g) w of
                 (r, w') \<Rightarrow> (r, set_held (sc\<lparr>NatService := Some svc\<rparr>) g e, w')) \<and>
            (internalPort = externalPort \<longrightarrow>
               AddNATMapping nattype externalIP internalIP externalPort e w =
                 (case post_once (Some (NatService_document svc)) (types_edge_gateway.HREF g) w of
                    (r, w') \<Rightarrow> (r, set_held (sc\<lparr>NatService := Some svc\<rparr>) g e, w')))) \<and>
         (\<forall>e0 w0 r w1 sc ns fs sc2.
            Refresh e0 w0 = (r, e, w1) \<and> panic_of r = None \<and>
            EdgeGatewayServiceConfiguration (Configuration g) = Some sc \<and>
            NatService sc = Some ns \<and> FirewallService sc = Some fs \<and>
            sc2 = sc\<lparr>NatService := Some (ns\<lparr>NatRule := NatRule ns @
                        [Create1to1Mapping_snat internal external description (reference.HREF n),
                         Create1to1Mapping_dnat internal external description (reference.HREF n)]\<rparr>),
                      FirewallService := Some (fs\<lparr>FirewallRule := FirewallRule fs @
                        [Create1to1Mapping_fwin external description,
                         Create1to1Mapping_fwout internal description]\<rparr>)\<rparr> \<longrightarrow>
            Create1to1Mapping internal external description e0 w0 =
              (case post_once (Some sc2) (types_edge_gateway.HREF g) w1 of
                 (res, w') \<Rightarrow>
                   (res,
                    e\<lparr>EdgeGateway := Some (g\<lparr>Configuration :=
                         (Configuration g)\<lparr>EdgeGatewayServiceConfiguration := Some sc2\<rparr>\<rparr>)\<rparr>,
                    w'))) \<and>
         (\<forall>e0 w0 r w1 sc ns fs natrules fwrules sc4.
            Refresh e0 w0 = (r, e, w1) \<and> panic_of r = None \<and>
            EdgeGatewayServiceConfiguration (Configuration g) = Some sc \<and>
            NatService sc = Some ns \<and> FirewallService sc = Some fs \<and>
            keep_loop (Remove1to1Mapping_nat internal external (reference.HREF n))
              (NatRule ns) [] = Inr natrules \<and>
            keep_loop (Remove1to1Mapping_fw internal external) (FirewallRule fs) [] =
              Inr fwrules \<and>
            sc4 = sc\<lparr>NatService :=
                        Some (ns\<lparr>NatRule := natrules, nat_service.IsEnabled := True\<rparr>),
                      FirewallService := Some (fs\<lparr>FirewallRule := fwrules\<rparr>)\<rparr> \<longrightarrow>
            Remove1to1Mapping internal external e0 w0 =
              (case post_once (Some sc4) (types_edge_gateway.HREF g) w1 of
                 (res, w') \<Rightarrow>
                   (res,
                    e\<lparr>EdgeGateway := Some (g\<lparr>Configuration :=
                         (Configuration g)\<lparr>EdgeGatewayServiceConfiguration := Some sc4\<rparr>\<rparr>)\<rparr>,
                    w')))"
proof -
  from some ups obtain x xs where f: "filter (\<lambda>gi. InterfaceType gi = ''uplink'') gis = x # xs"
    by (cases ups) auto
  have n: "\<And>gi. gi \<in> set gis \<Longrightarrow> InterfaceType gi = ''uplink'' \<Longrightarrow>
             gateway_interface.Network gi \<noteq> None"
    using nets ups by auto
  have a: "getFirstUplink_loop gis zero_Reference = Inr n"
    using getFirstUplink_loop_last[of gis zero_Reference] n last f ups by simp
  have b: "uplinkif_loop gis [] = Inr (reference.HREF n)"
    using uplinkif_loop_last[of gis "[]"] n last f ups by simp
  have first: "getFirstUplink e = Inr n"
    using a held gis by (simp add: getFirstUplink_def)
  have ref: "AddNATPortMappingWithUplink_uplinkRef None e = Inr (reference.HREF n)"
    using first by (simp add: AddNATPortMappingWithUplink_uplinkRef_def)
  have up: "uplinkif_loop (GatewayInterface (GatewayInterfaces (Configuration g))) [] =
              Inr (reference.HREF n)"
    using b gis by simp
  have R: "\<forall>sc old svc.
            EdgeGatewayServiceConfiguration (Configuration g) = Some sc \<and>
            NatService sc = Some old \<and>
            (\<forall>v \<in> set (NatRule old). four_tuple v \<noteq> None) \<and>
            svc = old\<lparr>NatRule := filter (\<lambda>v. four_tuple v \<noteq>
                    Some (nattype, externalIP, externalPort, reference.HREF n)) (NatRule old)\<rparr> \<longrightarrow>
            RemoveNATPortMapping nattype externalIP externalPort internalIP internalPort e w =
              (case post_once (Some (NatService_document svc)) (types_edge_gateway.HREF g) w of
                 (r, w') \<Rightarrow> (r, set_held (sc\<lparr>NatService := Some svc\<rparr>) g e, w')) \<and>
            RemoveNATMapping nattype externalIP internalIP externalPort e w =
              (case post_once (Some (NatService_document svc)) (types_edge_gateway.HREF g) w of
                 (r, w') \<Rightarrow> (r, set_held (sc\<lparr>NatService := Some svc\<rparr>) g e, w'))"
  proof (intro allI impI, elim conjE)
    fix sc old svc
    assume h: "EdgeGatewayServiceConfiguration (Configuration g) = Some sc"
      "NatService sc = Some old" "\<forall>v \<in> set (NatRule old). four_tuple v \<noteq> None"
      "svc = old\<lparr>NatRule := filter (\<lambda>v. four_tuple v \<noteq>
                    Some (nattype, externalIP, externalPort, reference.HREF n)) (NatRule old)\<rparr>"
    show "RemoveNATPortMapping nattype externalIP externalPort internalIP internalPort e w =
              (case post_once (Some (NatService_document svc)) (types_edge_gateway.HREF g) w of
                 (r, w') \<Rightarrow> (r, set_held (sc\<lparr>NatService := Some svc\<rparr>) g e, w')) \<and>
          RemoveNATMapping nattype externalIP internalIP externalPort e w =
              (case post_once (Some (NatService_document svc)) (types_edge_gateway.HREF g) w of
                 (r, w') \<Rightarrow> (r, set_held (sc\<lparr>NatService := Some svc\<rparr>) g e, w'))"
      unfolding RemoveNATMapping_def
      by (intro conjI RemoveNATPortMapping_submits[OF held h(1) h(2) first h(3) h(4)])
  qed
  have A: "\<forall>sc existing svc.
            EdgeGatewayServiceConfiguration (Configuration g) = Some sc \<and>
            existing = (case NatService sc of None \<Rightarrow> [] | Some old \<Rightarrow> NatRule old) \<and>
            (\<forall>v \<in> set existing. six_tuple v \<noteq> None) \<and>
            svc = (case NatService sc of
                     None \<Rightarrow> zero_NatService\<lparr>nat_service.IsEnabled := True\<rparr>
                   | Some old \<Rightarrow> old)
                  \<lparr>NatRule := filter (\<lambda>v. six_tuple v \<noteq>
                       Some (nattype, externalIP, externalPort, internalIP, internalPort,
                             reference.HREF n)) existing @
                     [AddNATPortMappingWithUplink_natRule nattype externalIP externalPort
                        internalIP internalPort (reference.HREF n)]\<rparr> \<longrightarrow>
            AddNATPortMappingWithUplink None nattype externalIP externalPort internalIP
                internalPort e w =
              (case post_once (Some (NatService_document svc)) (types_edge_gateway.HREF g) w of
                 (r, w') \<Rightarrow> (r, set_held (sc\<lparr>NatService := Some svc\<rparr>) g e, w')) \<and>
            AddNATPortMapping nattype externalIP externalPort internalIP internalPort e w =
              (case post_once (Some (NatService_document svc)) (types_edge_gateway.HREF g) w of
                 (r, w') \<Rightarrow> (r, set_held (sc\<lparr>NatService := Some svc\<rparr>) g e, w')) \<and>
            (internalPort = externalPort \<longrightarrow>
               AddNATMapping nattype externalIP internalIP externalPort e w =
                 (case post_once (Some (NatService_document svc)) (types_edge_gateway.HREF g) w of
                    (r, w') \<Rightarrow> (r, set_held (sc\<lparr>NatService := Some svc\<rparr>) g e, w')))"
  proof (intro allI impI, elim conjE)
    fix sc existing svc
    assume h: "EdgeGatewayServiceConfiguration (Configuration g) = Some sc"
      "existing = (case NatService sc of None \<Rightarrow> [] | Some old \<Rightarrow> NatRule old)"
      "\<forall>v \<in> set existing. six_tuple v \<noteq> None"
      "svc = (case NatService sc of
                     None \<Rightarrow> zero_NatService\<lparr>nat_service.IsEnabled := True\<rparr>
                   | Some old \<Rightarrow> old)
                  \<lparr>NatRule := filter (\<lambda>v. six_tuple v \<noteq>
                       Some (nattype, externalIP, externalPort, internalIP, internalPort,
                             reference.HREF n)) existing @
                     [AddNATPortMappingWithUplink_natRule nattype externalIP externalPort
                        internalIP internalPort (reference.HREF n)]\<rparr>"
    note eq = AddNATPortMappingWithUplink_submits[OF held h(1) ref h(2) h(3) h(4), of w]
    show "AddNATPortMappingWithUplink None nattype externalIP externalPort internalIP
                internalPort e w =
              (case post_once (Some (NatService_document svc)) (types_edge_gateway.HREF g) w of
                 (r, w') \<Rightarrow> (r, set_held (sc\<lparr>NatService := Some svc\<rparr>) g e, w')) \<and>
            AddNATPortMapping nattype externalIP externalPort internalIP internalPort e w =
              (case post_once (Some (NatService_document svc)) (types_edge_gateway.HREF g) w of
                 (r, w') \<Rightarrow> (r, set_held (sc\<lparr>NatService := Some svc\<rparr>) g e, w')) \<and>
            (internalPort = externalPort \<longrightarrow>
               AddNATMapping nattype externalIP internalIP externalPort e w =
                 (case post_once (Some (NatService_document svc)) (types_edge_gateway.HREF g) w of
                    (r, w') \<Rightarrow> (r, set_held (sc\<lparr>NatService := Some svc\<rparr>) g e, w')))"
      using eq by (auto simp: AddNATPortMapping_def AddNATMapping_def)
  qed
  have C: "\<forall>e0 w0 r w1 sc ns fs sc2.
            Refresh e0 w0 = (r, e, w1) \<and> panic_of r = None \<and>
            EdgeGatewayServiceConfiguration (Configuration g) = Some sc \<and>
            NatService sc = Some ns \<and> FirewallService sc = Some fs \<and>
            sc2 = sc\<lparr>NatService := Some (ns\<lparr>NatRule := NatRule ns @
                        [Create1to1Mapping_snat internal external description (reference.HREF n),
                         Create1to1Mapping_dnat internal external description (reference.HREF n)]\<rparr>),
                      FirewallService := Some (fs\<lparr>FirewallRule := FirewallRule fs @
                        [Create1to1Mapping_fwin external description,
                         Create1to1Mapping_fwout internal description]\<rparr>)\<rparr> \<longrightarrow>
            Create1to1Mapping internal external description e0 w0 =
              (case post_once (Some sc2) (types_edge_gateway.HREF g) w1 of
                 (res, w') \<Rightarrow>
                   (res,
                    e\<lparr>EdgeGateway := Some (g\<lparr>Configuration :=
                         (Configuration g)\<lparr>EdgeGatewayServiceConfiguration := Some sc2\<rparr>\<rparr>)\<rparr>,
                    w'))"
  proof (intro allI impI, elim conjE)
    fix e0 w0 r w1 sc ns fs sc2
    assume h: "Refresh e0 w0 = (r, e, w1)" "panic_of r = None"
      "EdgeGatewayServiceConfiguration (Configuration g) = Some sc"
      "NatService sc = Some ns" "FirewallService sc = Some fs"
      "sc2 = sc\<lparr>NatService := Some (ns\<lparr>NatRule := NatRule ns @
                        [Create1to1Mapping_snat internal external description (reference.HREF n),
                         Create1to1Mapping_dnat internal external description (reference.HREF n)]\<rparr>),
                      FirewallService := Some (fs\<lparr>FirewallRule := FirewallRule fs @
                        [Create1to1Mapping_fwin external description,
                         Create1to1Mapping_fwout internal description]\<rparr>)\<rparr>"
    note cc = Create1to1Mapping_config_built[OF up h(3) h(4) h(5) h(6)]
    show "Create1to1Mapping internal external description e0 w0 =
              (case post_once (Some sc2) (types_edge_gateway.HREF g) w1 of
                 (res, w') \<Rightarrow>
                   (res,
                    e\<lparr>EdgeGateway := Some (g\<lparr>Configuration :=
                         (Configuration g)\<lparr>EdgeGatewayServiceConfiguration := Some sc2\<rparr>\<rparr>)\<rparr>,
                    w'))"
      by (simp add: Create1to1Mapping_def refresh_then_post_continues[OF h(1) h(2) held]
            cc some_document_def)
  qed
  have D: "\<forall>e0 w0 r w1 sc ns fs natrules fwrules sc4.
            Refresh e0 w0 = (r, e, w1) \<and> panic_of r = None \<and>
            EdgeGatewayServiceConfiguration (Configuration g) = Some sc \<and>
            NatService sc = Some ns \<and> FirewallService sc = Some fs \<and>
            keep_loop (Remove1to1Mapping_nat internal external (reference.HREF n))
              (NatRule ns) [] = Inr natrules \<and>
            keep_loop (Remove1to1Mapping_fw internal external) (FirewallRule fs) [] =
              Inr fwrules \<and>
            sc4 = sc\<lparr>NatService :=
                        Some (ns\<lparr>NatRule := natrules, nat_service.IsEnabled := True\<rparr>),
                      FirewallService := Some (fs\<lparr>FirewallRule := fwrules\<rparr>)\<rparr> \<longrightarrow>
            Remove1to1Mapping internal external e0 w0 =
              (case post_once (Some sc4) (types_edge_gateway.HREF g) w1 of
                 (res, w') \<Rightarrow>
                   (res,
                    e\<lparr>EdgeGateway := Some (g\<lparr>Configuration :=
                         (Configuration g)\<lparr>EdgeGatewayServiceConfiguration := Some sc4\<rparr>\<rparr>)\<rparr>,
                    w'))"
  proof (intro allI impI, elim conjE)
    fix e0 w0 r w1 sc ns fs natrules fwrules sc4
    assume h: "Refresh e0 w0 = (r, e, w1)" "panic_of r = None"
      "EdgeGatewayServiceConfiguration (Configuration g) = Some sc"
      "NatService sc = Some ns" "FirewallService sc = Some fs"
      "keep_loop (Remove1to1Mapping_nat internal external (reference.HREF n))
              (NatRule ns) [] = Inr natrules"
      "keep_loop (Remove1to1Mapping_fw internal external) (FirewallRule fs) [] = Inr fwrules"
      "sc4 = sc\<lparr>NatService :=
                        Some (ns\<lparr>NatRule := natrules, nat_service.IsEnabled := True\<rparr>),
                      FirewallService := Some (fs\<lparr>FirewallRule := fwrules\<rparr>)\<rparr>"
    note rc = Remove1to1Mapping_config_built[OF up h(3) h(4) h(5) h(6) h(7) h(8)]
    show "Remove1to1Mapping internal external e0 w0 =
              (case post_once (Some sc4) (types_edge_gateway.HREF g) w1 of
                 (res, w') \<Rightarrow>
                   (res,
                    e\<lparr>EdgeGateway := Some (g\<lparr>Configuration :=
                         (Configuration g)\<lparr>EdgeGatewayServiceConfiguration := Some sc4\<rparr>\<rparr>)\<rparr>,
                    w'))"
      by (simp add: Remove1to1Mapping_def refresh_then_post_continues[OF h(1) h(2) held]
            rc some_document_def)
  qed
  show ?thesis
    by (rule conjI[OF first conjI[OF ref conjI[OF b conjI[OF R conjI[OF A conjI[OF C D]]]]]])
qed

theorem uplink_is_last_flagged_witness:
  "2 \<le> length (filter (\<lambda>gi. InterfaceType gi = ''uplink'')
                 [ex_uplink_A, ex_internal, ex_uplink_B]) \<and>
   gateway_interface.Network ex_uplink_A \<noteq> gateway_interface.Network ex_uplink_B \<and>
   getFirstUplink ex_client = Inr (the (gateway_interface.Network ex_uplink_B)) \<and>
   AddNATPortMappingWithUplink_uplinkRef None ex_client = Inr ''https://vcd/network/B'' \<and>
   uplinkif_loop [ex_uplink_A, ex_internal, ex_uplink_B] [] = Inr ''https://vcd/network/B'' \<and>
   NatRule ex_nat_service = [ex_rule1, ex_rule2, ex_rule3] \<and>
   map (map_option (map_option reference.HREF \<circ> Interface) \<circ> GatewayNatRule)
     (NatRule ex_nat_service) =
     [Some (Some ''https://vcd/network/B''), Some (Some ''https://vcd/network/B''),
      Some (Some ''https://vcd/network/A'')] \<and>
   posted_nat_rules (snd (snd (RemoveNATPortMapping ''DNAT'' ''203.0.113.7'' ''80'' ''10.0.0.7''
      ''8080'' ex_client (ex_world ex_Do_ok)))) = [(''POST'', Some [ex_rule3])] \<and>
   posted_nat_rules (snd (snd (RemoveNATMapping ''SNAT'' ''10.0.0.9'' ''203.0.113.9'' ''any''
      ex_client (ex_world ex_Do_ok)))) = [(''POST'', Some [ex_rule1, ex_rule2, ex_rule3])] \<and>
   posted_nat_rules (snd (snd (AddNATMapping ''SNAT'' ''10.0.0.9'' ''203.0.113.9'' ''any''
      ex_client (ex_world ex_Do_ok)))) =
     [(''POST'', Some [ex_rule1, ex_rule2, ex_rule3,
         AddNATPortMappingWithUplink_natRule ''SNAT'' ''10.0.0.9'' ''any'' ''203.0.113.9'' ''any''
           ''https://vcd/network/B''])] \<and>
   posted_nat_rules (snd (snd (Create1to1Mapping ''10.0.0.9'' ''203.0.113.9'' ''web''
      ex_client (ex_world ex_Do_ok)))) =
     [(''GET'', None),
      (''POST'', Some [ex_rule1, ex_rule2, ex_rule3,
         Create1to1Mapping_snat ''10.0.0.9'' ''203.0.113.9'' ''web'' ''https://vcd/network/B'',
         Create1to1Mapping_dnat ''10.0.0.9'' ''203.0.113.9'' ''web'' ''https://vcd/network/B''])] \<and>
   posted_nat_rules (snd (snd (Remove1to1Mapping ''10.0.0.9'' ''203.0.113.9''
      ex_client (ex_world ex_Do_ok)))) =
     [(''GET'', None), (''POST'', Some [ex_rule1, ex_rule2, ex_rule3])]"
proof -
  let ?B = "\<lparr>reference.HREF = ''https://vcd/network/B'', reference.Name = ''B''\<rparr>"
  let ?W = "ex_world ex_Do_ok"
  have held: "EdgeGateway ex_client = Some ex_gateway"
    by (simp add: ex_client_def)
  have gis: "GatewayInterface (GatewayInterfaces (Configuration ex_gateway)) =
               [ex_uplink_A, ex_internal, ex_uplink_B]"
    and cfg: "EdgeGatewayServiceConfiguration (Configuration ex_gateway) = Some ex_services"
    and h: "types_edge_gateway.HREF ex_gateway = ''https://vcd/edgeGateway/1''"
    by (simp_all add: ex_gateway_def ex_gateway_of_def)
  have some: "[ex_uplink_A, ex_uplink_B] \<noteq> []" by simp
  have nets: "\<forall>gi \<in> set [ex_uplink_A, ex_uplink_B]. gateway_interface.Network gi \<noteq> None"
    by (simp add: ex_uplink_A_def ex_uplink_B_def)
  have last: "gateway_interface.Network (last [ex_uplink_A, ex_uplink_B]) = Some ?B"
    by (simp add: ex_uplink_B_def)
  have nat: "NatService ex_services = Some ex_nat_service"
    and fw: "FirewallService ex_services = Some ex_firewall_service"
    by (simp_all add: ex_services_def)
  have existing: "NatRule ex_nat_service =
      (case NatService ex_services of None \<Rightarrow> [] | Some old \<Rightarrow> NatRule old)"
    by (simp add: nat)
  have rules: "NatRule ex_nat_service = [ex_rule1, ex_rule2, ex_rule3]"
    by (simp add: ex_nat_service_def)
  have ifs: "map (map_option (map_option reference.HREF \<circ> Interface) \<circ> GatewayNatRule)
     (NatRule ex_nat_service) =
     [Some (Some ''https://vcd/network/B''), Some (Some ''https://vcd/network/B''),
      Some (Some ''https://vcd/network/A'')]"
    by (simp add: rules ex_rule1_def ex_rule2_def ex_rule3_def ex_nat_def)
  have wf4: "\<forall>v \<in> set (NatRule ex_nat_service). four_tuple v \<noteq> None"
    by (simp add: rules four_tuple_def ex_rule1_def ex_rule2_def ex_rule3_def ex_nat_def)
  have wf6: "\<forall>v \<in> set (NatRule ex_nat_service). six_tuple v \<noteq> None"
    by (simp add: rules six_tuple_def ex_rule1_def ex_rule2_def ex_rule3_def ex_nat_def)
  have kept1: "filter (\<lambda>v. four_tuple v \<noteq>
                 Some (''DNAT'', ''203.0.113.7'', ''80'', reference.HREF ?B))
               (NatRule ex_nat_service) = [ex_rule3]"
    by (simp add: rules four_tuple_def ex_rule1_def ex_rule2_def ex_rule3_def ex_nat_def)
  have kept2: "filter (\<lambda>v. four_tuple v \<noteq>
                 Some (''SNAT'', ''10.0.0.9'', ''any'', reference.HREF ?B))
               (NatRule ex_nat_service) = [ex_rule1, ex_rule2, ex_rule3]"
    by (simp add: rules four_tuple_def ex_rule1_def ex_rule2_def ex_rule3_def ex_nat_def)
  have kept3: "filter (\<lambda>v. six_tuple v \<noteq>
                 Some (''SNAT'', ''10.0.0.9'', ''any'', ''203.0.113.9'', ''any'',
                       reference.HREF ?B))
               (NatRule ex_nat_service) = [ex_rule1, ex_rule2, ex_rule3]"
    by (simp add: rules six_tuple_def ex_rule1_def ex_rule2_def ex_rule3_def ex_nat_def)
  have ok: "panic_of None = None" by (simp add: panic_of_def)
  have refresh: "Refresh ex_client ?W =
      (None, ex_client,
       ?W\<lparr>sent := [] @
         [\<lparr>Method = ''GET'', URL = \<lparr>Location = ''https://vcd/edgeGateway/1'', Path = []\<rparr>,
           Body = None, Header = []\<rparr>]\<rparr>)"
    using ex_Refresh_held[of "[]"] by (simp add: ex_world_def)
  have kn: "keep_loop (Remove1to1Mapping_nat ''10.0.0.9'' ''203.0.113.9'' (reference.HREF ?B))
              (NatRule ex_nat_service) [] = Inr (NatRule ex_nat_service)"
    using keep_loop_all[of "NatRule ex_nat_service" _ "[]"] ex_nat_clean_A by simp
  have kf: "keep_loop (Remove1to1Mapping_fw ''10.0.0.9'' ''203.0.113.9'')
              (FirewallRule ex_firewall_service) [] = Inr (FirewallRule ex_firewall_service)"
    using keep_loop_all[of "FirewallRule ex_firewall_service" _ "[]"] ex_fw_clean_A by simp
  note base = uplink_is_last_flagged[OF held gis ex_uplinks some nets last]
  note first3 = conjI[OF base[THEN conjunct1]
      conjI[OF base[THEN conjunct2, THEN conjunct1]
               base[THEN conjunct2, THEN conjunct2, THEN conjunct1]]]
  have a: "2 \<le> length (filter (\<lambda>gi. InterfaceType gi = ''uplink'')
                 [ex_uplink_A, ex_internal, ex_uplink_B])"
    unfolding ex_uplinks by simp
  have b: "gateway_interface.Network ex_uplink_A \<noteq> gateway_interface.Network ex_uplink_B"
    by (simp add: ex_uplink_A_def ex_uplink_B_def)
  have c: "getFirstUplink ex_client = Inr (the (gateway_interface.Network ex_uplink_B))"
    and d: "AddNATPortMappingWithUplink_uplinkRef None ex_client = Inr ''https://vcd/network/B''"
    and e: "uplinkif_loop [ex_uplink_A, ex_internal, ex_uplink_B] [] =
              Inr ''https://vcd/network/B''"
    using first3 by (simp_all add: ex_uplink_B_def)
  note R1 = base[where nattype = "''DNAT''" and externalIP = "''203.0.113.7''"
        and externalPort = "''80''" and internalIP = "''10.0.0.7''" and internalPort = "''8080''"
        and w = ?W,
      THEN conjunct2, THEN conjunct2, THEN conjunct2, THEN conjunct1, rule_format,
      OF conjI[OF cfg conjI[OF nat conjI[OF wf4 refl]]], THEN conjunct1]
  have f: "posted_nat_rules (snd (snd (RemoveNATPortMapping ''DNAT'' ''203.0.113.7'' ''80''
      ''10.0.0.7'' ''8080'' ex_client ?W))) = [(''POST'', Some [ex_rule3])]"
    by (simp only: R1 kept1 h)
       (simp add: ex_post_once_ok posted_nat_rules_def configureServices_request_def
          NatService_document_def)
  note R2 = base[where nattype = "''SNAT''" and externalIP = "''10.0.0.9''"
        and externalPort = "''any''" and internalIP = "''203.0.113.9''" and w = ?W,
      THEN conjunct2, THEN conjunct2, THEN conjunct2, THEN conjunct1, rule_format,
      OF conjI[OF cfg conjI[OF nat conjI[OF wf4 refl]]], THEN conjunct2]
  have g: "posted_nat_rules (snd (snd (RemoveNATMapping ''SNAT'' ''10.0.0.9'' ''203.0.113.9''
      ''any'' ex_client ?W))) = [(''POST'', Some [ex_rule1, ex_rule2, ex_rule3])]"
    by (simp only: R2 kept2 h)
       (simp add: ex_post_once_ok posted_nat_rules_def configureServices_request_def
          NatService_document_def)
  note A1 = base[where nattype = "''SNAT''" and externalIP = "''10.0.0.9''"
        and externalPort = "''any''" and internalIP = "''203.0.113.9''"
        and internalPort = "''any''" and w = ?W,
      THEN conjunct2, THEN conjunct2, THEN conjunct2, THEN conjunct2, THEN conjunct1,
      rule_format, OF conjI[OF cfg conjI[OF existing conjI[OF wf6 refl]]],
      THEN conjunct2, THEN conjunct2, rule_format, OF refl]
  have i: "posted_nat_rules (snd (snd (AddNATMapping ''SNAT'' ''10.0.0.9'' ''203.0.113.9''
      ''any'' ex_client ?W))) =
     [(''POST'', Some [ex_rule1, ex_rule2, ex_rule3,
         AddNATPortMappingWithUplink_natRule ''SNAT'' ''10.0.0.9'' ''any'' ''203.0.113.9'' ''any''
           ''https://vcd/network/B''])]"
    by (simp only: A1 kept3 h)
       (simp add: nat ex_post_once_ok posted_nat_rules_def configureServices_request_def
          NatService_document_def)
  note C1 = base[where internal = "''10.0.0.9''" and external = "''203.0.113.9''"
        and description = "''web''",
      THEN conjunct2, THEN conjunct2, THEN conjunct2, THEN conjunct2, THEN conjunct2,
      THEN conjunct1, rule_format,
      OF conjI[OF refresh conjI[OF ok conjI[OF cfg conjI[OF nat conjI[OF fw refl]]]]]]
  have j: "posted_nat_rules (snd (snd (Create1to1Mapping ''10.0.0.9'' ''203.0.113.9'' ''web''
      ex_client ?W))) =
     [(''GET'', None),
      (''POST'', Some [ex_rule1, ex_rule2, ex_rule3,
         Create1to1Mapping_snat ''10.0.0.9'' ''203.0.113.9'' ''web'' ''https://vcd/network/B'',
         Create1to1Mapping_dnat ''10.0.0.9'' ''203.0.113.9'' ''web'' ''https://vcd/network/B''])]"
    by (simp only: C1 h)
       (simp add: ex_post_once_ok_after posted_nat_rules_def configureServices_request_def
          rules)
  note D1 = base[where internal = "''10.0.0.9''" and external = "''203.0.113.9''",
      THEN conjunct2, THEN conjunct2, THEN conjunct2, THEN conjunct2, THEN conjunct2,
      THEN conjunct2, rule_format,
      OF conjI[OF refresh conjI[OF ok conjI[OF cfg conjI[OF nat conjI[OF fw
           conjI[OF kn conjI[OF kf refl]]]]]]]]
  have k: "posted_nat_rules (snd (snd (Remove1to1Mapping ''10.0.0.9'' ''203.0.113.9''
      ex_client ?W))) =
     [(''GET'', None), (''POST'', Some [ex_rule1, ex_rule2, ex_rule3])]"
    by (simp only: D1 h)
       (simp add: ex_post_once_ok_after posted_nat_rules_def configureServices_request_def
          rules)
  show ?thesis
    by (intro conjI) (rule a b c d e rules ifs f g i j k)+
qed

end
